theory Spec2Isabelle
  imports Complex_Main
begin

section \<open>Numbers and vectors\<close>

text \<open>
  The simulation computes on JavaScript numbers. They are modelled as real numbers: every
  statement below is about the arithmetic the code writes down, evaluated exactly, and it
  covers the finite values of a run (no overflow to Infinity, no NaN). The divisions of the
  per-tick loop are by a separation that the code has already tested to be at least 0.1,
  by a vector length that \<open>normalize\<close> replaces by 1 when it is 0, and by the mass of an
  atom, which every entry of \<open>ATOM_CONFIGS\<close> gives as positive.

  \<open>Vector3\<close> is the class of the three.js library. Its methods mutate the receiver and
  return it; here each method returns the new value, and the callers below thread the values
  the way the source threads the objects.
\<close>

record Vector3 =
  vx :: real
  vy :: real
  vz :: real

definition vec :: "real \<Rightarrow> real \<Rightarrow> real \<Rightarrow> Vector3" where
  "vec a b c = \<lparr>vx = a, vy = b, vz = c\<rparr>"

definition add :: "Vector3 \<Rightarrow> Vector3 \<Rightarrow> Vector3" where
  "add u v = vec (vx u + vx v) (vy u + vy v) (vz u + vz v)"

definition sub :: "Vector3 \<Rightarrow> Vector3 \<Rightarrow> Vector3" where
  "sub u v = vec (vx u - vx v) (vy u - vy v) (vz u - vz v)"

definition addVectors :: "Vector3 \<Rightarrow> Vector3 \<Rightarrow> Vector3" where
  "addVectors a b = vec (vx a + vx b) (vy a + vy b) (vz a + vz b)"

definition subVectors :: "Vector3 \<Rightarrow> Vector3 \<Rightarrow> Vector3" where
  "subVectors a b = vec (vx a - vx b) (vy a - vy b) (vz a - vz b)"

definition multiplyScalar :: "Vector3 \<Rightarrow> real \<Rightarrow> Vector3" where
  "multiplyScalar v s = vec (vx v * s) (vy v * s) (vz v * s)"

definition divideScalar :: "Vector3 \<Rightarrow> real \<Rightarrow> Vector3" where
  "divideScalar v s = multiplyScalar v (1 / s)"

definition crossVectors :: "Vector3 \<Rightarrow> Vector3 \<Rightarrow> Vector3" where
  "crossVectors a b =
     vec (vy a * vz b - vz a * vy b) (vz a * vx b - vx a * vz b) (vx a * vy b - vy a * vx b)"

definition lengthSq :: "Vector3 \<Rightarrow> real" where
  "lengthSq v = vx v * vx v + vy v * vy v + vz v * vz v"

definition vlength :: "Vector3 \<Rightarrow> real" where
  "vlength v = sqrt (vx v * vx v + vy v * vy v + vz v * vz v)"

text \<open>\<open>normalize\<close> is \<open>divideScalar(length() || 1)\<close>: the zero vector stays zero.\<close>

definition normalize :: "Vector3 \<Rightarrow> Vector3" where
  "normalize v = divideScalar v (if vlength v = 0 then 1 else vlength v)"

definition distanceTo :: "Vector3 \<Rightarrow> Vector3 \<Rightarrow> real" where
  "distanceTo u v =
     sqrt ((vx u - vx v) * (vx u - vx v) + (vy u - vy v) * (vy u - vy v)
           + (vz u - vz v) * (vz u - vz v))"

section \<open>Data model (types.ts) and constants (constants.ts)\<close>

datatype AtomType =
  Hydrogen | Helium | Lithium | Beryllium | Carbon | Nitrogen | Oxygen | Fluorine | Neon
  | Sodium | Phosphorus | Sulfur | Chlorine

datatype BondType = covalent | ionic | metallic

type_synonym ident = string

text \<open>
  An entry of \<open>ATOM_CONFIGS\<close>. The fields \<open>color\<close>, \<open>atomicNumber\<close>, \<open>valenceCount\<close> and
  \<open>orbitals\<close> are read by the rendering only and are left out. An atom is created by
  spreading its entry into the object (\<open>...ATOM_CONFIGS[type]\<close>), so \<open>AtomData\<close> extends the
  entry; \<open>electrons\<close> is left out for the same reason.
\<close>

record AtomConfig =
  mass :: real
  charge :: real
  radius :: real
  electronegativity :: real
  maxBonds :: nat
  meltingPoint :: real
  boilingPoint :: real

record AtomData = AtomConfig +
  atom_id :: ident
  atom_type :: AtomType
  position :: Vector3
  velocity :: Vector3

record BondData =
  bond_id :: ident
  atomA :: ident
  atomB :: ident
  strength :: real
  restLength :: real
  bond_order :: nat
  bond_type :: BondType

record PhotonData =
  photon_id :: ident
  photon_position :: Vector3
  photon_velocity :: Vector3
  energy :: real

record SimulationState =
  atoms :: "AtomData list"
  bonds :: "BondData list"
  photons :: "PhotonData list"
  temperature :: real
  isRunning :: bool
  timeScale :: real
  magneticField :: Vector3
  showFieldVectors :: bool

definition K_COULOMB :: real where "K_COULOMB = 350"

definition DAMPING :: real where "DAMPING = 0.98"

definition LJ_EPSILON :: real where "LJ_EPSILON = 5"

definition LJ_SIGMA_SCALE :: real where "LJ_SIGMA_SCALE = 0.85"

definition BOND_FORM_RADIUS :: real where "BOND_FORM_RADIUS = 1.3"

definition CONTAINER_SIZE :: real where "CONTAINER_SIZE = 25"

definition BOND_STRENGTH_COVALENT :: real where "BOND_STRENGTH_COVALENT = 1200"

definition BOND_STRENGTH_IONIC :: real where "BOND_STRENGTH_IONIC = 800"

definition BOND_BREAK_RATIO :: real where "BOND_BREAK_RATIO = 2"

definition THERMAL_EXPANSION_COEFF :: real where "THERMAL_EXPANSION_COEFF = 0.005"

definition config :: "real \<Rightarrow> real \<Rightarrow> real \<Rightarrow> real \<Rightarrow> nat \<Rightarrow> real \<Rightarrow> real \<Rightarrow> AtomConfig" where
  "config m q r en mb mp bp =
     \<lparr>mass = m, charge = q, radius = r, electronegativity = en, maxBonds = mb,
      meltingPoint = mp, boilingPoint = bp\<rparr>"

fun ATOM_CONFIGS :: "AtomType \<Rightarrow> AtomConfig" where
  "ATOM_CONFIGS Hydrogen = config 1 1 0.5 2.20 1 0.5 1.0"
| "ATOM_CONFIGS Helium = config 4 0 0.4 0 0 0.1 0.2"
| "ATOM_CONFIGS Lithium = config 7 1 1.2 0.98 1 4.5 8.0"
| "ATOM_CONFIGS Beryllium = config 9 2 1.0 1.57 2 6.0 9.0"
| "ATOM_CONFIGS Carbon = config 12 0 0.9 2.55 4 35.0 48.0"
| "ATOM_CONFIGS Nitrogen = config 14 (-3) 0.85 3.04 4 0.6 0.7"
| "ATOM_CONFIGS Oxygen = config 16 (-2) 0.8 3.44 2 0.5 0.9"
| "ATOM_CONFIGS Fluorine = config 19 (-1) 0.7 3.98 1 0.5 0.8"
| "ATOM_CONFIGS Neon = config 20 0 0.6 0 0 0.2 0.3"
| "ATOM_CONFIGS Sodium = config 23 1 1.1 0.93 1 3.7 8.8"
| "ATOM_CONFIGS Phosphorus = config 31 (-3) 1.1 2.19 5 3.1 5.5"
| "ATOM_CONFIGS Sulfur = config 32 (-2) 1.05 2.58 6 3.8 7.0"
| "ATOM_CONFIGS Chlorine = config 35.5 (-1) 1.0 3.16 1 1.7 2.4"

text \<open>
  \<open>{ id, type, position, velocity, ...ATOM_CONFIGS[type] }\<close>: the object every creation site
  builds (the drop handler, \<open>createMoleculeFromTemplate\<close>, the dipole preset).
\<close>

definition mkAtom :: "ident \<Rightarrow> AtomType \<Rightarrow> Vector3 \<Rightarrow> Vector3 \<Rightarrow> AtomData" where
  "mkAtom i t p v =
     (let c = ATOM_CONFIGS t
      in \<lparr>mass = mass c, charge = charge c, radius = radius c,
          electronegativity = electronegativity c, maxBonds = maxBonds c,
          meltingPoint = meltingPoint c, boilingPoint = boilingPoint c,
          atom_id = i, atom_type = t, position = p, velocity = v\<rparr>)"

section \<open>Force Integrator (the pairwise loop of useFrame)\<close>

text \<open>
  \<open>forces\<close> is a \<open>Map\<close> from atom id to a vector, set to the zero vector for every atom of
  the list at the start of the tick and only ever read at the id of an atom of the list.
  It is modelled as a function on ids.
\<close>

type_synonym forces = "ident \<Rightarrow> Vector3"

definition forces_add :: "forces \<Rightarrow> ident \<Rightarrow> Vector3 \<Rightarrow> forces" where
  "forces_add F i v = F(i := add (F i) v)"

definition forces_sub :: "forces \<Rightarrow> ident \<Rightarrow> Vector3 \<Rightarrow> forces" where
  "forces_sub F i v = F(i := sub (F i) v)"

definition negate :: "Vector3 \<Rightarrow> Vector3" where
  "negate v = vec (- vx v) (- vy v) (- vz v)"

text \<open>The vector a step has added to the accumulator of atom \<open>i\<close>.\<close>

definition applied :: "forces \<Rightarrow> forces \<Rightarrow> ident \<Rightarrow> Vector3" where
  "applied F F' i = sub (F' i) (F i)"

definition isBonded :: "BondData list \<Rightarrow> AtomData \<Rightarrow> AtomData \<Rightarrow> bool" where
  "isBonded bs a1 a2 =
     list_ex (\<lambda>b. (atomA b = atom_id a1 \<and> atomB b = atom_id a2)
                 \<or> (atomA b = atom_id a2 \<and> atomB b = atom_id a1)) bs"

definition lj_term :: "AtomData \<Rightarrow> AtomData \<Rightarrow> real \<Rightarrow> real" where
  "lj_term a1 a2 r =
     (let sigma = (radius a1 + radius a2) * LJ_SIGMA_SCALE;
          sr = sigma / r;
          sr6 = sr ^ 6;
          sr12 = sr6 * sr6
      in (24 * LJ_EPSILON / r) * (2 * sr12 - sr6))"

definition coulomb_term :: "AtomData \<Rightarrow> AtomData \<Rightarrow> real \<Rightarrow> real" where
  "coulomb_term a1 a2 r = (K_COULOMB * charge a1 * charge a2) / (r * r)"

definition intermolecular_term :: "real \<Rightarrow> AtomData \<Rightarrow> AtomData \<Rightarrow> real \<Rightarrow> real" where
  "intermolecular_term temp a1 a2 r =
     (let meanBP = (boilingPoint a1 + boilingPoint a2) / 2
      in if temp < meanBP \<and> r < 4.0 then 15.0 / (r * r) else 0)"

text \<open>
  \<open>forceMag\<close> of one pair: it starts at 0, gains the Lennard-Jones term when the pair is not
  bonded, gains the Coulomb term when both charges are non-zero, and loses the
  intermolecular term when the pair is not bonded.
\<close>

definition forceMag :: "BondData list \<Rightarrow> real \<Rightarrow> AtomData \<Rightarrow> AtomData \<Rightarrow> real \<Rightarrow> real" where
  "forceMag bs temp a1 a2 r =
     (let bonded = isBonded bs a1 a2;
          m1 = (if \<not> bonded then 0 + lj_term a1 a2 r else 0);
          m2 = (if charge a1 \<noteq> 0 \<and> charge a2 \<noteq> 0 then m1 + coulomb_term a1 a2 r else m1);
          m3 = (if \<not> bonded then m2 - intermolecular_term temp a1 a2 r else m2)
      in m3)"

text \<open>
  The vector applied for one pair: \<open>None\<close> when the pair is skipped (\<open>r < 0.1\<close>), otherwise
  the normalised direction from the second atom to the first, scaled by \<open>forceMag\<close>.
\<close>

definition pair_fVec :: "BondData list \<Rightarrow> real \<Rightarrow> AtomData \<Rightarrow> AtomData \<Rightarrow> Vector3 option" where
  "pair_fVec bs temp a1 a2 =
     (let dir = subVectors (position a1) (position a2);
          r = vlength dir
      in if r < 0.1 then None
         else Some (multiplyScalar (normalize dir) (forceMag bs temp a1 a2 r)))"

definition pair_step :: "BondData list \<Rightarrow> real \<Rightarrow> AtomData \<Rightarrow> AtomData \<Rightarrow> forces \<Rightarrow> forces" where
  "pair_step bs temp a1 a2 F =
     (case pair_fVec bs temp a1 a2 of
        None \<Rightarrow> F
      | Some fVec \<Rightarrow> forces_sub (forces_add F (atom_id a1) fVec) (atom_id a2) fVec)"

definition lorentz_step :: "Vector3 \<Rightarrow> AtomData \<Rightarrow> forces \<Rightarrow> forces" where
  "lorentz_step B a F =
     (if lengthSq B > 0 \<and> charge a \<noteq> 0
      then forces_add F (atom_id a)
             (multiplyScalar (crossVectors (velocity a) B) (charge a * 2.0))
      else F)"

text \<open>
  \<open>for i { Lorentz(i); for j > i { pair(i, j) } }\<close>: the head of the list is \<open>atoms[i]\<close>,
  its tail the atoms \<open>atoms[j]\<close> with \<open>j > i\<close>, in order.
\<close>

fun physics_loop :: "BondData list \<Rightarrow> real \<Rightarrow> Vector3 \<Rightarrow> AtomData list \<Rightarrow> forces \<Rightarrow> forces" where
  "physics_loop bs temp B [] F = F"
| "physics_loop bs temp B (a1 # rest) F =
     physics_loop bs temp B rest
       (fold (\<lambda>a2 G. pair_step bs temp a1 a2 G) rest (lorentz_step B a1 F))"

section \<open>The two variants of the per-tick loop\<close>

text \<open>
  \<open>Scene.tsx\<close> is present twice, with two bodies of \<open>useFrame\<close>. They differ in the
  vortex tool (first body only), in the thermal dissociation rule, in the spring stiffness
  and in the rest length of a new bond; every other statement is the same. The model has one
  definition for each part that differs and a parameter that selects the body.
\<close>

datatype variant = First | Second

text \<open>
  \<open>Math.random()\<close> and \<open>uuidv4()\<close> are the two sources of values the loop does not compute.
  A tick receives them as sequences: \<open>rng k\<close> is the value of the \<open>k\<close>-th call of
  \<open>Math.random()\<close> in the tick, \<open>uuid n\<close> the \<open>n\<close>-th identifier drawn in it.
\<close>

type_synonym rng = "nat \<Rightarrow> real"

section \<open>Vortex tool (first body)\<close>

definition vortex_atom :: "Vector3 \<Rightarrow> AtomData \<Rightarrow> forces \<Rightarrow> forces" where
  "vortex_atom vp a F =
     (let dir = subVectors vp (position a);
          dist = vlength dir
      in if dist > 1.0
         then (let d = normalize dir;
                   tangent = multiplyScalar (vec (- vy d) (vx d) 0) 20.0;
                   attraction = multiplyScalar d 100.0
               in F(atom_id a := add (add (F (atom_id a)) attraction) tangent))
         else F)"

definition vortex_forces :: "Vector3 option \<Rightarrow> AtomData list \<Rightarrow> forces \<Rightarrow> forces" where
  "vortex_forces vortexPos as F =
     (case vortexPos of None \<Rightarrow> F | Some vp \<Rightarrow> fold (vortex_atom vp) as F)"

section \<open>Bond Lifecycle Engine (the activeBonds filter)\<close>

text \<open>
  The thermal rule of the first body. The result is whether the bond breaks and the number
  of random values drawn so far: \<open>Math.random()\<close> is called only inside the test on the
  energies.
\<close>

definition thermal_first :: "real \<Rightarrow> BondData \<Rightarrow> rng \<Rightarrow> nat \<Rightarrow> bool \<times> nat" where
  "thermal_first temp bond rnd k =
     (let bondEnergy = strength bond * real (bond_order bond);
          thermalEnergy = temp * 150
      in if thermalEnergy > bondEnergy * 0.8
         then (let prob = (thermalEnergy - bondEnergy * 0.8) * 0.00005
               in (rnd k < prob, Suc k))
         else (False, k))"

text \<open>The thermal rule of the second body: an ionic test on the melting point, then a
  test on the temperature alone.\<close>

definition thermal_second ::
  "real \<Rightarrow> BondData \<Rightarrow> AtomData \<Rightarrow> AtomData \<Rightarrow> rng \<Rightarrow> nat \<Rightarrow> bool \<times> nat" where
  "thermal_second temp bond a1 a2 rnd k =
     (let meanMP = (meltingPoint a1 + meltingPoint a2) / 2;
          melt = (bond_type bond = ionic \<and> temp > meanMP + 0.5)
      in if melt \<and> rnd k < 0.05 then (True, Suc k)
         else (let k1 = (if melt then Suc k else k)
               in if temp > 20.0 then (rnd k1 < 0.01, Suc k1) else (False, k1)))"

fun thermal :: "variant \<Rightarrow> real \<Rightarrow> BondData \<Rightarrow> AtomData \<Rightarrow> AtomData \<Rightarrow> rng \<Rightarrow> nat \<Rightarrow> bool \<times> nat" where
  "thermal First temp bond a1 a2 rnd k = thermal_first temp bond rnd k"
| "thermal Second temp bond a1 a2 rnd k = thermal_second temp bond a1 a2 rnd k"

fun stiffness :: "variant \<Rightarrow> BondData \<Rightarrow> real" where
  "stiffness First bond = strength bond * (real (bond_order bond) powr 1.2)"
| "stiffness Second bond = strength bond"

definition effectiveRestLength :: "real \<Rightarrow> BondData \<Rightarrow> real" where
  "effectiveRestLength temp bond =
     (let expansionFactor = 1.0 + (temp * THERMAL_EXPANSION_COEFF)
      in restLength bond * expansionFactor)"

definition findAtom :: "AtomData list \<Rightarrow> ident \<Rightarrow> AtomData option" where
  "findAtom as i = find (\<lambda>a. atom_id a = i) as"

text \<open>The spring force of a bond that survives, along the axis from \<open>a1\<close> to \<open>a2\<close>.\<close>

definition springForce :: "variant \<Rightarrow> real \<Rightarrow> BondData \<Rightarrow> AtomData \<Rightarrow> AtomData \<Rightarrow> Vector3" where
  "springForce var temp bond a1 a2 =
     (let dist = distanceTo (position a1) (position a2);
          dir = normalize (subVectors (position a2) (position a1));
          displacement = dist - effectiveRestLength temp bond
      in multiplyScalar dir (stiffness var bond * displacement))"

text \<open>
  The callback of \<open>bonds.filter\<close>: whether the bond is kept, the force accumulator and the
  number of random values drawn.
\<close>

definition bond_callback ::
  "variant \<Rightarrow> AtomData list \<Rightarrow> real \<Rightarrow> rng \<Rightarrow> BondData \<Rightarrow> forces \<times> nat \<Rightarrow> bool \<times> forces \<times> nat" where
  "bond_callback var as temp rnd bond Fk =
     (case Fk of (F, k) \<Rightarrow>
      (case findAtom as (atomA bond) of
         None \<Rightarrow> (False, F, k)
       | Some a1 \<Rightarrow>
         (case findAtom as (atomB bond) of
            None \<Rightarrow> (False, F, k)
          | Some a2 \<Rightarrow>
            (let dist = distanceTo (position a1) (position a2)
             in if dist > effectiveRestLength temp bond * BOND_BREAK_RATIO then (False, F, k)
                else (case thermal var temp bond a1 a2 rnd k of
                        (broken, k') \<Rightarrow>
                          if broken then (False, F, k')
                          else (True,
                                forces_sub
                                  (forces_add F (atom_id a1) (springForce var temp bond a1 a2))
                                  (atom_id a2) (springForce var temp bond a1 a2),
                                k'))))))"

fun activeBonds_filter ::
  "variant \<Rightarrow> AtomData list \<Rightarrow> real \<Rightarrow> rng \<Rightarrow> BondData list \<Rightarrow> forces \<times> nat
     \<Rightarrow> BondData list \<times> forces \<times> nat" where
  "activeBonds_filter var as temp rnd [] Fk = ([], Fk)"
| "activeBonds_filter var as temp rnd (bond # rest) Fk =
     (case bond_callback var as temp rnd bond Fk of
        (keep, Fk') \<Rightarrow>
          (case activeBonds_filter var as temp rnd rest Fk' of
             (kept, Fk'') \<Rightarrow> ((if keep then bond # kept else kept), Fk'')))"

section \<open>Chemistry Engine\<close>

record Chem =
  chem_atoms :: "AtomData list"
  newBonds :: "BondData list"
  drawn :: nat
  structureChanged :: bool

definition currentBonds :: "BondData list \<Rightarrow> ident \<Rightarrow> nat" where
  "currentBonds bs i = length (filter (\<lambda>b. atomA b = i \<or> atomB b = i) bs)"

definition existingBond :: "BondData list \<Rightarrow> ident \<Rightarrow> ident \<Rightarrow> BondData option" where
  "existingBond bs i1 i2 =
     find (\<lambda>b. (atomA b = i1 \<and> atomB b = i2) \<or> (atomA b = i2 \<and> atomB b = i1)) bs"

fun ionicRestLength :: "variant \<Rightarrow> AtomData \<Rightarrow> AtomData \<Rightarrow> real" where
  "ionicRestLength First a1 a2 = (radius a1 + radius a2) * 0.75"
| "ionicRestLength Second a1 a2 = radius a1 + radius a2"

fun covalentRestLength :: "variant \<Rightarrow> AtomData \<Rightarrow> AtomData \<Rightarrow> real" where
  "covalentRestLength First a1 a2 = (radius a1 + radius a2) * 0.75"
| "covalentRestLength Second a1 a2 = (radius a1 + radius a2) * 0.9"

definition mkBond :: "ident \<Rightarrow> ident \<Rightarrow> ident \<Rightarrow> real \<Rightarrow> real \<Rightarrow> BondType \<Rightarrow> nat \<Rightarrow> BondData" where
  "mkBond i a b s l t ord =
     \<lparr>bond_id = i, atomA = a, atomB = b, strength = s, restLength = l, bond_order = ord,
      bond_type = t\<rparr>"

text \<open>
  The body of the inner loop for \<open>a1 = atoms[i]\<close>, \<open>a2 = atoms[j]\<close>. The donor is \<open>a1\<close>
  when its configured electronegativity is the lower one, otherwise \<open>a2\<close>; the assignment
  of the charges mutates the atoms of the list.
\<close>

definition chem_pair :: "variant \<Rightarrow> real \<Rightarrow> (nat \<Rightarrow> ident) \<Rightarrow> nat \<times> nat \<Rightarrow> Chem \<Rightarrow> Chem" where
  "chem_pair var temp uuid ij st =
     (case ij of (i, j) \<Rightarrow>
      (let a1 = chem_atoms st ! i;
           a2 = chem_atoms st ! j;
           configA = ATOM_CONFIGS (atom_type a1);
           configB = ATOM_CONFIGS (atom_type a2)
       in if maxBonds configA = 0 \<or> maxBonds configB = 0 then st
          else (let currentBondsA = currentBonds (newBonds st) (atom_id a1);
                    currentBondsB = currentBonds (newBonds st) (atom_id a2)
                in if currentBondsA \<ge> maxBonds configA \<or> currentBondsB \<ge> maxBonds configB
                   then st
                   else (let dist = distanceTo (position a1) (position a2);
                             formDist = (radius a1 + radius a2) * BOND_FORM_RADIUS
                         in if existingBond (newBonds st) (atom_id a1) (atom_id a2) = None
                               \<and> dist < formDist
                            then (let meanMP = (meltingPoint a1 + meltingPoint a2) / 2;
                                      deltaEN = \<bar>electronegativity configA
                                                  - electronegativity configB\<bar>;
                                      isIonic = (deltaEN > 1.7)
                                  in if isIonic \<and> temp < meanMP
                                     then st\<lparr>chem_atoms :=
                                               (if electronegativity configA
                                                     < electronegativity configB
                                                then (chem_atoms st)
                                                       [i := a1\<lparr>charge := 1\<rparr>,
                                                        j := a2\<lparr>charge := -1\<rparr>]
                                                else (chem_atoms st)
                                                       [j := a2\<lparr>charge := 1\<rparr>,
                                                        i := a1\<lparr>charge := -1\<rparr>]),
                                             newBonds := newBonds st @
                                               [mkBond (uuid (drawn st)) (atom_id a1)
                                                  (atom_id a2) BOND_STRENGTH_IONIC
                                                  (ionicRestLength var a1 a2) ionic 1],
                                             drawn := Suc (drawn st),
                                             structureChanged := True\<rparr>
                                     else if \<not> isIonic \<and> temp < meanMP * 1.5
                                     then st\<lparr>newBonds := newBonds st @
                                               [mkBond (uuid (drawn st)) (atom_id a1)
                                                  (atom_id a2) BOND_STRENGTH_COVALENT
                                                  (covalentRestLength var a1 a2) covalent 1],
                                             drawn := Suc (drawn st),
                                             structureChanged := True\<rparr>
                                     else st)
                            else st))))"

text \<open>The index pairs \<open>(i, j)\<close> with \<open>i < j < n\<close>, in the order the two loops visit them.\<close>

definition pairs :: "nat \<Rightarrow> (nat \<times> nat) list" where
  "pairs n = concat (map (\<lambda>i. map (\<lambda>j. (i, j)) [Suc i..<n]) [0..<n])"

text \<open>The state of the engine at the start of a tick: \<open>newBonds = [...activeBonds]\<close>.\<close>

definition chem_init :: "AtomData list \<Rightarrow> BondData list \<Rightarrow> Chem" where
  "chem_init as active =
     \<lparr>chem_atoms = as, newBonds = active, drawn = 0, structureChanged = False\<rparr>"

definition chemistry :: "variant \<Rightarrow> real \<Rightarrow> (nat \<Rightarrow> ident) \<Rightarrow> Chem \<Rightarrow> Chem" where
  "chemistry var temp uuid st =
     fold (chem_pair var temp uuid) (pairs (length (chem_atoms st))) st"

subsection \<open>The step of the scan, condition by condition\<close>

text \<open>
  Names for the tests of the inner loop, used to state what a step does: the valence,
  existing-bond and distance tests; the electronegativity of an atom's type and the
  difference for a pair; the mean melting point; which atom is the donor; and the two
  results of a step that forms a bond.
\<close>

definition can_bond :: "Chem \<Rightarrow> nat \<Rightarrow> nat \<Rightarrow> bool" where
  "can_bond st i j =
     (maxBonds (ATOM_CONFIGS (atom_type (chem_atoms st ! i))) \<noteq> 0
      \<and> maxBonds (ATOM_CONFIGS (atom_type (chem_atoms st ! j))) \<noteq> 0
      \<and> currentBonds (newBonds st) (atom_id (chem_atoms st ! i))
           < maxBonds (ATOM_CONFIGS (atom_type (chem_atoms st ! i)))
      \<and> currentBonds (newBonds st) (atom_id (chem_atoms st ! j))
           < maxBonds (ATOM_CONFIGS (atom_type (chem_atoms st ! j)))
      \<and> existingBond (newBonds st) (atom_id (chem_atoms st ! i))
           (atom_id (chem_atoms st ! j)) = None
      \<and> distanceTo (position (chem_atoms st ! i)) (position (chem_atoms st ! j))
           < (radius (chem_atoms st ! i) + radius (chem_atoms st ! j)) * BOND_FORM_RADIUS)"

definition EN :: "AtomData \<Rightarrow> real" where
  "EN a = electronegativity (ATOM_CONFIGS (atom_type a))"

definition deltaEN :: "AtomData \<Rightarrow> AtomData \<Rightarrow> real" where
  "deltaEN a1 a2 =
     \<bar>electronegativity (ATOM_CONFIGS (atom_type a1))
        - electronegativity (ATOM_CONFIGS (atom_type a2))\<bar>"

definition meanMP :: "AtomData \<Rightarrow> AtomData \<Rightarrow> real" where
  "meanMP a1 a2 = (meltingPoint a1 + meltingPoint a2) / 2"

definition donor_first :: "AtomData \<Rightarrow> AtomData \<Rightarrow> bool" where
  "donor_first a1 a2 =
     (electronegativity (ATOM_CONFIGS (atom_type a1))
        < electronegativity (ATOM_CONFIGS (atom_type a2)))"

definition ionic_step :: "variant \<Rightarrow> (nat \<Rightarrow> ident) \<Rightarrow> nat \<Rightarrow> nat \<Rightarrow> Chem \<Rightarrow> Chem" where
  "ionic_step var uuid i j st =
     st\<lparr>chem_atoms :=
          (if donor_first (chem_atoms st ! i) (chem_atoms st ! j)
           then (chem_atoms st)[i := (chem_atoms st ! i)\<lparr>charge := 1\<rparr>,
                                j := (chem_atoms st ! j)\<lparr>charge := -1\<rparr>]
           else (chem_atoms st)[j := (chem_atoms st ! j)\<lparr>charge := 1\<rparr>,
                                i := (chem_atoms st ! i)\<lparr>charge := -1\<rparr>]),
        newBonds := newBonds st @
          [mkBond (uuid (drawn st)) (atom_id (chem_atoms st ! i)) (atom_id (chem_atoms st ! j))
             BOND_STRENGTH_IONIC (ionicRestLength var (chem_atoms st ! i) (chem_atoms st ! j))
             ionic 1],
        drawn := Suc (drawn st), structureChanged := True\<rparr>"

definition covalent_step :: "variant \<Rightarrow> (nat \<Rightarrow> ident) \<Rightarrow> nat \<Rightarrow> nat \<Rightarrow> Chem \<Rightarrow> Chem" where
  "covalent_step var uuid i j st =
     st\<lparr>newBonds := newBonds st @
          [mkBond (uuid (drawn st)) (atom_id (chem_atoms st ! i)) (atom_id (chem_atoms st ! j))
             BOND_STRENGTH_COVALENT
             (covalentRestLength var (chem_atoms st ! i) (chem_atoms st ! j)) covalent 1],
        drawn := Suc (drawn st), structureChanged := True\<rparr>"

text \<open>The bonds of a list that join two given atoms, in either direction.\<close>

definition between :: "BondData list \<Rightarrow> ident \<Rightarrow> ident \<Rightarrow> BondData list" where
  "between bs x y =
     filter (\<lambda>b. (atomA b = x \<and> atomB b = y) \<or> (atomA b = y \<and> atomB b = x)) bs"

text \<open>
  The state of the engine when the scan of one firing reaches the pair \<open>(i, j)\<close>: all
  pairs before it have been processed.
\<close>

definition reached :: "variant \<Rightarrow> real \<Rightarrow> (nat \<Rightarrow> ident) \<Rightarrow> Chem \<Rightarrow> nat \<Rightarrow> nat \<Rightarrow> Chem" where
  "reached var temp uuid st i j =
     fold (chem_pair var temp uuid)
       (takeWhile (\<lambda>p. p \<noteq> (i, j)) (pairs (length (chem_atoms st)))) st"

text \<open>An atom with its charge erased: what a step of the scan never changes.\<close>

definition uncharged :: "AtomData \<Rightarrow> AtomData" where
  "uncharged a = a\<lparr>charge := 0\<rparr>"

section \<open>Photon-Bond Interaction\<close>

definition bondCenter :: "AtomData \<Rightarrow> AtomData \<Rightarrow> Vector3" where
  "bondCenter a1 a2 = multiplyScalar (addVectors (position a1) (position a2)) 0.5"

text \<open>
  \<open>for (const bond of newBonds)\<close> for one photon: a bond with a missing endpoint is passed
  over, the first bond whose centre is closer than 0.8 ends the loop.
\<close>

fun photon_hit ::
  "AtomData list \<Rightarrow> Vector3 \<Rightarrow> BondData list \<Rightarrow> (BondData \<times> AtomData \<times> AtomData) option" where
  "photon_hit as pos [] = None"
| "photon_hit as pos (bond # rest) =
     (case findAtom as (atomA bond) of
        None \<Rightarrow> photon_hit as pos rest
      | Some a1 \<Rightarrow>
        (case findAtom as (atomB bond) of
           None \<Rightarrow> photon_hit as pos rest
         | Some a2 \<Rightarrow>
             if distanceTo pos (bondCenter a1 a2) < 0.8 then Some (bond, a1, a2)
             else photon_hit as pos rest))"

record PhotonLoop =
  ph_bonds :: "BondData list"
  ph_forces :: forces
  ph_changed :: bool
  survivingPhotons :: "PhotonData list"

definition advance :: "real \<Rightarrow> PhotonData \<Rightarrow> PhotonData" where
  "advance dt p =
     p\<lparr>photon_position := add (photon_position p) (multiplyScalar (photon_velocity p) (dt * 15))\<rparr>"

text \<open>
  The callback of \<open>photons.forEach\<close>. On a hit every bond with the id of the struck bond is
  filtered out. \<open>splitDir.multiplyScalar(energy)\<close> is evaluated twice on the same vector
  object, so the impulse subtracted from the second atom carries the factor twice.
\<close>

definition photon_step :: "AtomData list \<Rightarrow> real \<Rightarrow> PhotonData \<Rightarrow> PhotonLoop \<Rightarrow> PhotonLoop" where
  "photon_step as dt p0 st =
     (let p = advance dt p0
      in case photon_hit as (photon_position p) (ph_bonds st) of
           Some (bond, a1, a2) \<Rightarrow>
             (let splitDir = normalize (subVectors (position a1) (position a2));
                  e = energy p * 500;
                  s1 = multiplyScalar splitDir e;
                  F1 = forces_add (ph_forces st) (atom_id a1) s1;
                  s2 = multiplyScalar s1 e;
                  F2 = forces_sub F1 (atom_id a2) s2
              in st\<lparr>ph_bonds := filter (\<lambda>b. bond_id b \<noteq> bond_id bond) (ph_bonds st),
                    ph_forces := F2,
                    ph_changed := True\<rparr>)
         | None \<Rightarrow>
             (if vlength (photon_position p) < 60
              then st\<lparr>survivingPhotons := survivingPhotons st @ [p]\<rparr>
              else st))"

definition photon_logic ::
  "AtomData list \<Rightarrow> real \<Rightarrow> PhotonData list \<Rightarrow> BondData list \<Rightarrow> forces \<Rightarrow> bool \<Rightarrow> PhotonLoop" where
  "photon_logic as dt ps bs F changed =
     fold (photon_step as dt) ps
       \<lparr>ph_bonds = bs, ph_forces = F, ph_changed = changed, survivingPhotons = []\<rparr>"

text \<open>
  A position is in range of a bond when both endpoints of the bond are found and the
  position is closer than 0.8 to their midpoint: the test of the photon loop.
\<close>

definition in_range :: "AtomData list \<Rightarrow> Vector3 \<Rightarrow> BondData \<Rightarrow> bool" where
  "in_range as pos bond =
     (case findAtom as (atomA bond) of
        None \<Rightarrow> False
      | Some a1 \<Rightarrow>
        (case findAtom as (atomB bond) of
           None \<Rightarrow> False
         | Some a2 \<Rightarrow> distanceTo pos (bondCenter a1 a2) < 0.8))"

section \<open>Integration and boundary\<close>

text \<open>One axis of the boundary test: position and velocity component after it.\<close>

definition reflect :: "real \<Rightarrow> real \<Rightarrow> real \<times> real" where
  "reflect p v =
     (if \<bar>p\<bar> > CONTAINER_SIZE then (sgn p * CONTAINER_SIZE, v * (-0.5)) else (p, v))"

definition damping_noise :: "real \<Rightarrow> AtomData \<Rightarrow> real \<times> real" where
  "damping_noise temp atom =
     (if temp < meltingPoint atom then (0.90, 5)
      else if temp > boilingPoint atom then (0.99, 30)
      else (DAMPING, 15))"

text \<open>
  Position and velocity of an atom after the Euler step and before the boundary test,
  from the accumulated force \<open>f\<close> and the three random values of the noise.
\<close>

definition euler :: "real \<Rightarrow> real \<Rightarrow> AtomData \<Rightarrow> Vector3 \<Rightarrow> real \<Rightarrow> real \<Rightarrow> real \<Rightarrow> Vector3 \<times> Vector3 \<times> Vector3" where
  "euler temp dt atom f r1 r2 r3 =
     (case damping_noise temp atom of
        (effectiveDamping, noiseScale) \<Rightarrow>
          (let noise = multiplyScalar (normalize (vec (r1 - 0.5) (r2 - 0.5) (r3 - 0.5)))
                         (temp * noiseScale);
               f1 = add f noise;
               accel = divideScalar f1 (mass atom);
               adt = multiplyScalar accel dt;
               v1 = add (velocity atom) adt;
               v2 = multiplyScalar v1 effectiveDamping;
               p1 = add (position atom) (multiplyScalar v2 dt)
           in (p1, v2, adt)))"

definition boundary :: "Vector3 \<Rightarrow> Vector3 \<Rightarrow> Vector3 \<times> Vector3" where
  "boundary p v =
     (case reflect (vx p) (vx v) of (px, wx) \<Rightarrow>
      case reflect (vy p) (vy v) of (py, wy) \<Rightarrow>
      case reflect (vz p) (vz v) of (pz, wz) \<Rightarrow>
        (vec px py pz, vec wx wy wz))"

text \<open>
  The callback of the last \<open>atoms.forEach\<close>. The force vector of the map is mutated by
  \<open>divideScalar\<close> and \<open>multiplyScalar\<close>, so the map holds \<open>accel * dt\<close> afterwards.
\<close>

definition integrate_atom ::
  "real \<Rightarrow> real \<Rightarrow> rng \<Rightarrow> AtomData \<Rightarrow> forces \<times> nat \<Rightarrow> AtomData \<times> forces \<times> nat" where
  "integrate_atom temp dt rnd atom Fk =
     (case Fk of (F, k) \<Rightarrow>
      case euler temp dt atom (F (atom_id atom)) (rnd k) (rnd (k + 1)) (rnd (k + 2)) of
        (p1, v2, adt) \<Rightarrow>
          (case boundary p1 v2 of
             (p, v) \<Rightarrow> (atom\<lparr>position := p, velocity := v\<rparr>, F(atom_id atom := adt), k + 3)))"

fun integrate_all ::
  "real \<Rightarrow> real \<Rightarrow> rng \<Rightarrow> AtomData list \<Rightarrow> forces \<times> nat \<Rightarrow> AtomData list \<times> forces \<times> nat" where
  "integrate_all temp dt rnd [] Fk = ([], Fk)"
| "integrate_all temp dt rnd (atom # rest) Fk =
     (case integrate_atom temp dt rnd atom Fk of
        (atom', Fk') \<Rightarrow>
          (case integrate_all temp dt rnd rest Fk' of
             (rest', Fk'') \<Rightarrow> (atom' # rest', Fk'')))"

section \<open>The tick\<close>

text \<open>
  The body of \<open>useFrame\<close>, one definition for each of its blocks, in the order of the
  source: the force accumulator after the pairwise loop; the bond filter, which gives the
  surviving bonds, the accumulator with the spring forces and the number of random values
  drawn; the chemistry engine behind its cooldown; the photon loop; the integration.
\<close>

definition zeroForces :: forces where
  "zeroForces = (\<lambda>i. vec 0 0 0)"

definition frame_dt :: "SimulationState \<Rightarrow> real \<Rightarrow> real" where
  "frame_dt s delta = min delta 0.05 * timeScale s"

definition stage_forces :: "variant \<Rightarrow> Vector3 option \<Rightarrow> SimulationState \<Rightarrow> forces" where
  "stage_forces var vortexPos s =
     physics_loop (bonds s) (temperature s) (magneticField s) (atoms s)
       (case var of First \<Rightarrow> vortex_forces vortexPos (atoms s) zeroForces
        | Second \<Rightarrow> zeroForces)"

definition stage_bonds ::
  "variant \<Rightarrow> Vector3 option \<Rightarrow> rng \<Rightarrow> SimulationState \<Rightarrow> BondData list \<times> forces \<times> nat" where
  "stage_bonds var vortexPos rnd s =
     activeBonds_filter var (atoms s) (temperature s) rnd (bonds s)
       (stage_forces var vortexPos s, 0)"

definition activeBonds :: "variant \<Rightarrow> Vector3 option \<Rightarrow> rng \<Rightarrow> SimulationState \<Rightarrow> BondData list" where
  "activeBonds var vortexPos rnd s = fst (stage_bonds var vortexPos rnd s)"

text \<open>
  \<open>chemistryCooldown.current -= dt\<close>; the engine runs when the result is not positive and
  then sets the cooldown to 0.2.
\<close>

definition fires :: "real \<Rightarrow> SimulationState \<Rightarrow> real \<Rightarrow> bool" where
  "fires delta s chemistryCooldown = (chemistryCooldown - frame_dt s delta \<le> 0)"

definition stage_chem ::
  "variant \<Rightarrow> Vector3 option \<Rightarrow> rng \<Rightarrow> (nat \<Rightarrow> ident) \<Rightarrow> real \<Rightarrow> SimulationState \<Rightarrow> real \<Rightarrow> Chem" where
  "stage_chem var vortexPos rnd uuid delta s chemistryCooldown =
     (let c0 = chem_init (atoms s) (activeBonds var vortexPos rnd s)
      in if fires delta s chemistryCooldown then chemistry var (temperature s) uuid c0 else c0)"

definition stage_photons ::
  "variant \<Rightarrow> Vector3 option \<Rightarrow> rng \<Rightarrow> (nat \<Rightarrow> ident) \<Rightarrow> real \<Rightarrow> SimulationState \<Rightarrow> real
     \<Rightarrow> PhotonLoop" where
  "stage_photons var vortexPos rnd uuid delta s chemistryCooldown =
     (let c = stage_chem var vortexPos rnd uuid delta s chemistryCooldown
      in photon_logic (chem_atoms c) (frame_dt s delta) (photons s) (newBonds c)
           (fst (snd (stage_bonds var vortexPos rnd s))) (structureChanged c))"

definition stage_atoms ::
  "variant \<Rightarrow> Vector3 option \<Rightarrow> rng \<Rightarrow> (nat \<Rightarrow> ident) \<Rightarrow> real \<Rightarrow> SimulationState \<Rightarrow> real
     \<Rightarrow> AtomData list" where
  "stage_atoms var vortexPos rnd uuid delta s chemistryCooldown =
     fst (integrate_all (temperature s) (frame_dt s delta) rnd
            (chem_atoms (stage_chem var vortexPos rnd uuid delta s chemistryCooldown))
            (ph_forces (stage_photons var vortexPos rnd uuid delta s chemistryCooldown),
             snd (snd (stage_bonds var vortexPos rnd s))))"

text \<open>
  The values the callback of the last \<open>atoms.forEach\<close> holds for \<open>atoms[k]\<close> after its
  Euler step and before its boundary test: the position, the velocity and the vector left
  in the force map. The accumulator and the number of random values drawn are those the
  loop has reached after the atoms before \<open>atoms[k]\<close>.
\<close>

definition stage_euler ::
  "variant \<Rightarrow> Vector3 option \<Rightarrow> rng \<Rightarrow> (nat \<Rightarrow> ident) \<Rightarrow> real \<Rightarrow> SimulationState \<Rightarrow> real \<Rightarrow> nat
     \<Rightarrow> Vector3 \<times> Vector3 \<times> Vector3" where
  "stage_euler var vortexPos rnd uuid delta s chemistryCooldown k =
     (let as = chem_atoms (stage_chem var vortexPos rnd uuid delta s chemistryCooldown);
          Fn = snd (integrate_all (temperature s) (frame_dt s delta) rnd (take k as)
                     (ph_forces (stage_photons var vortexPos rnd uuid delta s chemistryCooldown),
                      snd (snd (stage_bonds var vortexPos rnd s))))
      in euler (temperature s) (frame_dt s delta) (as ! k) (fst Fn (atom_id (as ! k)))
           (rnd (snd Fn)) (rnd (snd Fn + 1)) (rnd (snd Fn + 2)))"

text \<open>
  The commit at the end of \<open>useFrame\<close>, from the surviving bonds of the filter, the state
  of the photon loop and the integrated atoms. The atoms and the photons are mutated in
  place, so the state holds them on both branches; the bond list is replaced only on the
  first branch. \<open>prev\<close> of \<open>setSimulationState\<close> is the state the tick has read.
\<close>

definition commit ::
  "SimulationState \<Rightarrow> BondData list \<Rightarrow> PhotonLoop \<Rightarrow> AtomData list \<Rightarrow> SimulationState" where
  "commit s active ph moved =
     (if length active \<noteq> length (ph_bonds ph)
         \<or> length (survivingPhotons ph) \<noteq> length (photons s)
         \<or> ph_changed ph
      then s\<lparr>atoms := moved, bonds := ph_bonds ph, photons := survivingPhotons ph\<rparr>
      else s\<lparr>atoms := moved, photons := survivingPhotons ph\<rparr>)"

text \<open>
  \<open>useFrame\<close>: the committed state and the cooldown after one frame. A paused simulation
  returns at once.
\<close>

definition useFrame ::
  "variant \<Rightarrow> Vector3 option \<Rightarrow> rng \<Rightarrow> (nat \<Rightarrow> ident) \<Rightarrow> real \<Rightarrow> SimulationState \<times> real
     \<Rightarrow> SimulationState \<times> real" where
  "useFrame var vortexPos rnd uuid delta sc =
     (case sc of (s, chemistryCooldown) \<Rightarrow>
        if \<not> isRunning s then (s, chemistryCooldown)
        else (commit s (activeBonds var vortexPos rnd s)
                (stage_photons var vortexPos rnd uuid delta s chemistryCooldown)
                (stage_atoms var vortexPos rnd uuid delta s chemistryCooldown),
              if fires delta s chemistryCooldown then 0.2
              else chemistryCooldown - frame_dt s delta))"

section \<open>The valence invariant\<close>

text \<open>
  Every atom of the list has at most as many incident bonds as the \<open>maxBonds\<close> of its
  entry in \<open>ATOM_CONFIGS\<close>, the capacity the chemistry engine reads. Every atom the code
  creates carries the same number in its own \<open>maxBonds\<close> field.
\<close>

definition valence_ok :: "AtomData list \<Rightarrow> BondData list \<Rightarrow> bool" where
  "valence_ok as bs =
     list_all (\<lambda>a. currentBonds bs (atom_id a) \<le> maxBonds (ATOM_CONFIGS (atom_type a))) as"

text \<open>
  The same bound relative to a step: no atom of the list has more incident bonds than the
  larger of its capacity and \<open>before i\<close>, the number of bonds that were incident to its
  id \<open>i\<close> before the step.
\<close>

definition valence_within :: "(ident \<Rightarrow> nat) \<Rightarrow> AtomData list \<Rightarrow> BondData list \<Rightarrow> bool" where
  "valence_within before as bs =
     list_all (\<lambda>a. currentBonds bs (atom_id a)
                     \<le> max (maxBonds (ATOM_CONFIGS (atom_type a))) (before (atom_id a))) as"

text \<open>
  An identifier is fresh for a state when it is the id of no atom and of no bond end of the
  state, as the identifiers \<open>uuidv4()\<close> returns are.
\<close>

definition fresh_id :: "SimulationState \<Rightarrow> ident \<Rightarrow> bool" where
  "fresh_id s i =
     (list_all (\<lambda>a. atom_id a \<noteq> i) (atoms s)
      \<and> list_all (\<lambda>b. atomA b \<noteq> i \<and> atomB b \<noteq> i) (bonds s))"

section \<open>Spawning (constants.ts, App.tsx)\<close>

record TemplateBond =
  idxA :: nat
  idxB :: nat
  tb_type :: BondType
  tb_order :: "nat option"

record MoleculeTemplate =
  t_atoms :: "(AtomType \<times> Vector3) list"
  t_bonds :: "TemplateBond list"

definition tbond :: "nat \<Rightarrow> nat \<Rightarrow> BondType \<Rightarrow> nat \<Rightarrow> TemplateBond" where
  "tbond a b t ord = \<lparr>idxA = a, idxB = b, tb_type = t, tb_order = Some ord\<rparr>"

text \<open>The table \<open>MOLECULE_TEMPLATES\<close>, without the display names.\<close>

definition MOLECULE_TEMPLATES :: "string \<Rightarrow> MoleculeTemplate option" where
  "MOLECULE_TEMPLATES key =
     (if key = ''water'' then
        Some \<lparr>t_atoms = [(Oxygen, vec 0 0 0), (Hydrogen, vec 0.6 0.4 0),
                         (Hydrogen, vec (-0.6) 0.4 0)],
              t_bonds = [tbond 0 1 covalent 1, tbond 0 2 covalent 1]\<rparr>
      else if key = ''co2'' then
        Some \<lparr>t_atoms = [(Carbon, vec 0 0 0), (Oxygen, vec 0.9 0 0), (Oxygen, vec (-0.9) 0 0)],
              t_bonds = [tbond 0 1 covalent 2, tbond 0 2 covalent 2]\<rparr>
      else if key = ''methane'' then
        Some \<lparr>t_atoms = [(Carbon, vec 0 0 0), (Hydrogen, vec 0.6 0.6 0.6),
                         (Hydrogen, vec (-0.6) (-0.6) 0.6), (Hydrogen, vec (-0.6) 0.6 (-0.6)),
                         (Hydrogen, vec 0.6 (-0.6) (-0.6))],
              t_bonds = [tbond 0 1 covalent 1, tbond 0 2 covalent 1, tbond 0 3 covalent 1,
                         tbond 0 4 covalent 1]\<rparr>
      else if key = ''ethene'' then
        Some \<lparr>t_atoms = [(Carbon, vec (-0.4) 0 0), (Carbon, vec 0.4 0 0),
                         (Hydrogen, vec (-0.9) 0.7 0), (Hydrogen, vec (-0.9) (-0.7) 0),
                         (Hydrogen, vec 0.9 0.7 0), (Hydrogen, vec 0.9 (-0.7) 0)],
              t_bonds = [tbond 0 1 covalent 2, tbond 0 2 covalent 1, tbond 0 3 covalent 1,
                         tbond 1 4 covalent 1, tbond 1 5 covalent 1]\<rparr>
      else if key = ''nitrogen_gas'' then
        Some \<lparr>t_atoms = [(Nitrogen, vec (-0.35) 0 0), (Nitrogen, vec 0.35 0 0)],
              t_bonds = [tbond 0 1 covalent 3]\<rparr>
      else if key = ''salt'' then
        Some \<lparr>t_atoms = [(Sodium, vec 0 0 0), (Chlorine, vec 1.6 0 0), (Sodium, vec 0 1.6 0),
                         (Chlorine, vec 1.6 1.6 0), (Sodium, vec 1.6 0 1.6),
                         (Chlorine, vec 0 0 1.6)],
              t_bonds = [tbond 0 1 ionic 1, tbond 2 3 ionic 1, tbond 0 2 ionic 1,
                         tbond 1 3 ionic 1, tbond 0 5 ionic 1, tbond 1 4 ionic 1]\<rparr>
      else None)"

text \<open>
  \<open>MOLECULE_TEMPLATES\<close> is a plain object, so \<open>MOLECULE_TEMPLATES[key]\<close> also finds the
  properties every object inherits from \<open>Object.prototype\<close>. Their values are functions (for
  \<open>__proto__\<close> the prototype object itself): they pass the test \<open>if (!template)\<close>, have no
  \<open>atoms\<close>, and \<open>template.atoms.forEach\<close> throws a \<open>TypeError\<close>.
\<close>

datatype error = TypeError

definition inherited_keys :: "string list" where
  "inherited_keys =
     [''constructor'', ''__defineGetter__'', ''__defineSetter__'', ''hasOwnProperty'',
      ''__lookupGetter__'', ''__lookupSetter__'', ''isPrototypeOf'', ''propertyIsEnumerable'',
      ''toString'', ''valueOf'', ''__proto__'', ''toLocaleString'']"

text \<open>
  \<open>createMoleculeFromTemplate\<close>. \<open>atomIds k\<close> is the identifier drawn for the \<open>k\<close>-th atom
  of the template, \<open>bondIds k\<close> the one drawn for its \<open>k\<close>-th bond, \<open>vels k\<close> the random
  initial velocity of the \<open>k\<close>-th atom. The indices of every template of the table are
  within its atom list.
\<close>

definition template_atoms ::
  "Vector3 \<Rightarrow> (nat \<Rightarrow> ident) \<Rightarrow> (nat \<Rightarrow> Vector3) \<Rightarrow> (AtomType \<times> Vector3) list \<Rightarrow> AtomData list" where
  "template_atoms pos atomIds vels tas =
     map (\<lambda>k. mkAtom (atomIds k) (fst (tas ! k)) (add pos (snd (tas ! k))) (vels k))
       [0..<length tas]"

definition template_bond ::
  "(nat \<Rightarrow> ident) \<Rightarrow> (nat \<Rightarrow> ident) \<Rightarrow> TemplateBond \<Rightarrow> AtomData list \<times> BondData list
     \<Rightarrow> AtomData list \<times> BondData list" where
  "template_bond atomIds bondIds tb ab =
     (case ab of (as, bs) \<Rightarrow>
      (let a1 = as ! idxA tb;
           a2 = as ! idxB tb;
           as' = (if tb_type tb = ionic \<and> atom_type a1 = Sodium \<and> atom_type a2 = Chlorine
                  then as[idxA tb := a1\<lparr>charge := 1\<rparr>, idxB tb := a2\<lparr>charge := -1\<rparr>]
                  else as);
           radiusSum = radius a1 + radius a2;
           lengthMult = (if tb_order tb = Some 3 then 0.60
                         else if tb_order tb = Some 2 then 0.65 else 0.75)
       in (as',
           bs @ [mkBond (bondIds (length bs)) (atomIds (idxA tb)) (atomIds (idxB tb))
                   (if tb_type tb = ionic then BOND_STRENGTH_IONIC else BOND_STRENGTH_COVALENT)
                   (radiusSum * lengthMult) (tb_type tb)
                   (case tb_order tb of None \<Rightarrow> 1 | Some n \<Rightarrow> (if n = 0 then 1 else n))])))"

definition createMoleculeFromTemplate ::
  "string \<Rightarrow> Vector3 \<Rightarrow> (nat \<Rightarrow> ident) \<Rightarrow> (nat \<Rightarrow> ident) \<Rightarrow> (nat \<Rightarrow> Vector3)
     \<Rightarrow> error + AtomData list \<times> BondData list" where
  "createMoleculeFromTemplate key pos atomIds bondIds vels =
     (case MOLECULE_TEMPLATES key of
        None \<Rightarrow> if key \<in> set inherited_keys then Inl TypeError else Inr ([], [])
      | Some template \<Rightarrow>
          Inr (fold (template_bond atomIds bondIds) (t_bonds template)
                 (template_atoms pos atomIds vels (t_atoms template), [])))"

text \<open>
  The two branches of \<open>handleDrop\<close> (both copies of \<open>Scene.tsx\<close>): a dropped atom is appended
  with the fields of its entry in \<open>ATOM_CONFIGS\<close> and velocity zero; a dropped molecule
  appends the atoms and the bonds of the instantiated template. The handler catches every
  exception and logs it, so a key on which \<open>createMoleculeFromTemplate\<close> throws leaves the
  state as it is. The key of a dropped atom is an element of \<open>AtomType\<close>, as the palette
  sends it; \<open>i\<close> is the identifier \<open>uuidv4()\<close> returns for the atom.
\<close>

definition handleDrop_atom :: "SimulationState \<Rightarrow> ident \<Rightarrow> AtomType \<Rightarrow> Vector3 \<Rightarrow> SimulationState" where
  "handleDrop_atom prev i t spawnPos =
     prev\<lparr>atoms := atoms prev @ [mkAtom i t spawnPos (vec 0 0 0)]\<rparr>"

definition handleDrop_molecule ::
  "SimulationState \<Rightarrow> string \<Rightarrow> Vector3 \<Rightarrow> (nat \<Rightarrow> ident) \<Rightarrow> (nat \<Rightarrow> ident) \<Rightarrow> (nat \<Rightarrow> Vector3)
     \<Rightarrow> SimulationState" where
  "handleDrop_molecule prev key spawnPos atomIds bondIds vels =
     (case createMoleculeFromTemplate key spawnPos atomIds bondIds vels of
        Inl e \<Rightarrow> prev
      | Inr (as, bs) \<Rightarrow> prev\<lparr>atoms := atoms prev @ as, bonds := bonds prev @ bs\<rparr>)"

definition INITIAL_STATE :: SimulationState where
  "INITIAL_STATE =
     \<lparr>atoms = [], bonds = [], photons = [], temperature = 3.0, isRunning = True,
      timeScale = 1.0, magneticField = vec 0 0 0, showFieldVectors = False\<rparr>"

text \<open>\<open>resetSimulation('salt')\<close> and \<open>resetSimulation('dipole')\<close> of the application.\<close>

definition reset_salt ::
  "(nat \<Rightarrow> ident) \<Rightarrow> (nat \<Rightarrow> ident) \<Rightarrow> (nat \<Rightarrow> Vector3) \<Rightarrow> error + SimulationState" where
  "reset_salt atomIds bondIds vels =
     (case createMoleculeFromTemplate ''salt'' (vec 0 0 0) atomIds bondIds vels of
        Inl e \<Rightarrow> Inl e
      | Inr (as, bs) \<Rightarrow> Inr (INITIAL_STATE\<lparr>atoms := as, bonds := bs\<rparr>))"

definition reset_dipole :: "ident \<Rightarrow> ident \<Rightarrow> SimulationState" where
  "reset_dipole i1 i2 =
     INITIAL_STATE
       \<lparr>atoms := [(mkAtom i1 Sodium (vec (-3) 0 0) (vec 0 0 0))\<lparr>charge := 1\<rparr>,
                  (mkAtom i2 Chlorine (vec 3 0 0) (vec 0 0 0))\<lparr>charge := -1\<rparr>],
        bonds := []\<rparr>"

section \<open>Concrete inputs\<close>

text \<open>
  Sequences and states on which the theorems below are instantiated: a generator that
  always returns 0.5 (the thermal noise is then the zero vector) and one that always returns
  0.01, and identifiers that differ from one index to the next.
\<close>

definition rnd_half :: rng where
  "rnd_half k = 0.5"

definition rnd_low :: rng where
  "rnd_low k = 0.01"

definition ids_a :: "nat \<Rightarrow> ident" where
  "ids_a k = CHR ''a'' # replicate k (CHR ''i'')"

definition ids_b :: "nat \<Rightarrow> ident" where
  "ids_b k = CHR ''b'' # replicate k (CHR ''i'')"

definition vels_zero :: "nat \<Rightarrow> Vector3" where
  "vels_zero k = vec 0 0 0"

text \<open>The state \<open>resetSimulation('salt')\<close> returns with these identifiers and velocities;
  the reset does not throw.\<close>

definition salt_state :: SimulationState where
  "salt_state = projr (reset_salt ids_a ids_b vels_zero)"

definition dipole_state :: SimulationState where
  "dipole_state = reset_dipole ''p1'' ''p2''"

definition dipole_p1 :: AtomData where
  "dipole_p1 = (mkAtom ''p1'' Sodium (vec (-3) 0 0) (vec 0 0 0))\<lparr>charge := 1\<rparr>"

definition dipole_p2 :: AtomData where
  "dipole_p2 = (mkAtom ''p2'' Chlorine (vec 3 0 0) (vec 0 0 0))\<lparr>charge := -1\<rparr>"

text \<open>The dipole with a salt bond of the template's rest length between its two ions,
  which are 6 apart.\<close>

definition salt_bond :: BondData where
  "salt_bond = mkBond ''b1'' ''p1'' ''p2'' BOND_STRENGTH_IONIC ((1.1 + 1.0) * 0.75) ionic 1"

definition stretched_state :: SimulationState where
  "stretched_state = dipole_state\<lparr>bonds := [salt_bond]\<rparr>"

text \<open>Two ions of the salt template, 1.6 apart, and a second chlorine on the other side
  of the sodium.\<close>

definition salt_p1 :: AtomData where
  "salt_p1 = (mkAtom ''p1'' Sodium (vec 0 0 0) (vec 0 0 0))\<lparr>charge := 1\<rparr>"

definition salt_p2 :: AtomData where
  "salt_p2 = (mkAtom ''p2'' Chlorine (vec 1.6 0 0) (vec 0 0 0))\<lparr>charge := -1\<rparr>"

definition salt_p3 :: AtomData where
  "salt_p3 = mkAtom ''p3'' Chlorine (vec (-1.6) 0 0) (vec 0 0 0)"

text \<open>Two hydrogen atoms and a covalent bond of the template's rest length.\<close>

definition hyd_1 :: AtomData where
  "hyd_1 = mkAtom ''h1'' Hydrogen (vec 0 0 0) (vec 0 0 0)"

definition hyd_2 :: AtomData where
  "hyd_2 = mkAtom ''h2'' Hydrogen (vec 0.75 0 0) (vec 0 0 0)"

definition hh_bond :: BondData where
  "hh_bond = mkBond ''b2'' ''h1'' ''h2'' BOND_STRENGTH_COVALENT ((0.5 + 0.5) * 0.75) covalent 1"

text \<open>A sodium atom next to the wall, moving towards it.\<close>

definition fast_atom :: AtomData where
  "fast_atom = mkAtom ''f'' Sodium (vec 24.9 0 0) (vec 100 0 0)"








definition cross_photon :: PhotonData where
  "cross_photon = \<lparr>photon_id = ''ph1'', photon_position = vec (-0.15) 0 0,
                    photon_velocity = vec 1 0 0, energy = 5.0\<rparr>"

definition far_photon :: PhotonData where
  "far_photon = \<lparr>photon_id = ''ph2'', photon_position = vec 100 0 0,
                  photon_velocity = vec 1 0 0, energy = 5.0\<rparr>"

definition dt_demo :: real where
  "dt_demo = 0.01"

text \<open>The largest step of a frame, and a state that holds the sodium atom next to the
  wall alone.\<close>

definition dt_cap :: real where
  "dt_cap = 0.05"

definition fast_state :: SimulationState where
  "fast_state = INITIAL_STATE\<lparr>atoms := [fast_atom]\<rparr>"

text \<open>
  States on which the two bodies are run side by side: the two salt ions with their bond at
  temperature 3.3 and the two hydrogen atoms with their bond at temperature 10, each with
  the far photon in flight; the two salt ions without a bond at temperature 2 and the two
  hydrogen atoms without a bond at temperature 0.5.
\<close>

definition melt_state :: SimulationState where
  "melt_state = INITIAL_STATE\<lparr>atoms := [salt_p1, salt_p2], bonds := [salt_bond],
                                photons := [far_photon], temperature := 3.3\<rparr>"

definition heat_state :: SimulationState where
  "heat_state = INITIAL_STATE\<lparr>atoms := [hyd_1, hyd_2], bonds := [hh_bond],
                                photons := [far_photon], temperature := 10\<rparr>"

definition pair_state :: SimulationState where
  "pair_state = INITIAL_STATE\<lparr>atoms := [salt_p1, salt_p2], temperature := 2\<rparr>"

definition hyd_state :: SimulationState where
  "hyd_state = INITIAL_STATE\<lparr>atoms := [hyd_1, hyd_2], temperature := 0.5\<rparr>"



section \<open>Basic facts\<close>

lemma vec_sel [simp]: "vx (vec a b c) = a" "vy (vec a b c) = b" "vz (vec a b c) = c"
  by (simp_all add: vec_def)

lemma vec_eq_iff: "vec a b c = vec a' b' c' \<longleftrightarrow> a = a' \<and> b = b' \<and> c = c'"
  by (simp add: vec_def)

lemma commit_frame:
  "temperature (commit s a p m) = temperature s
   \<and> magneticField (commit s a p m) = magneticField s
   \<and> timeScale (commit s a p m) = timeScale s \<and> isRunning (commit s a p m) = isRunning s
   \<and> showFieldVectors (commit s a p m) = showFieldVectors s"
  by (simp add: commit_def)

lemma vec_eta [simp]: "vec (vx v) (vy v) (vz v) = v"
  by (simp add: vec_def)

lemma vlength_x: "vlength (vec a 0 0) = \<bar>a\<bar>"
  by (simp add: vlength_def)

lemma distanceTo_x: "distanceTo (vec a 0 0) (vec b 0 0) = \<bar>a - b\<bar>"
  by (simp add: distanceTo_def)

lemma cfg_sel [simp]:
  "mass (config m q r en mb mp bp) = m" "charge (config m q r en mb mp bp) = q"
  "radius (config m q r en mb mp bp) = r" "electronegativity (config m q r en mb mp bp) = en"
  "maxBonds (config m q r en mb mp bp) = mb" "meltingPoint (config m q r en mb mp bp) = mp"
  "boilingPoint (config m q r en mb mp bp) = bp"
  by (simp_all add: config_def)

lemma mkAtom_sel [simp]:
  "atom_id (mkAtom i t p v) = i" "atom_type (mkAtom i t p v) = t"
  "position (mkAtom i t p v) = p" "velocity (mkAtom i t p v) = v"
  "mass (mkAtom i t p v) = mass (ATOM_CONFIGS t)"
  "charge (mkAtom i t p v) = charge (ATOM_CONFIGS t)"
  "radius (mkAtom i t p v) = radius (ATOM_CONFIGS t)"
  "electronegativity (mkAtom i t p v) = electronegativity (ATOM_CONFIGS t)"
  "maxBonds (mkAtom i t p v) = maxBonds (ATOM_CONFIGS t)"
  "meltingPoint (mkAtom i t p v) = meltingPoint (ATOM_CONFIGS t)"
  "boilingPoint (mkAtom i t p v) = boilingPoint (ATOM_CONFIGS t)"
  by (simp_all add: mkAtom_def Let_def)

lemma mkBond_sel [simp]:
  "bond_id (mkBond i a b s l t n) = i" "atomA (mkBond i a b s l t n) = a"
  "atomB (mkBond i a b s l t n) = b" "strength (mkBond i a b s l t n) = s"
  "restLength (mkBond i a b s l t n) = l" "bond_type (mkBond i a b s l t n) = t"
  "bond_order (mkBond i a b s l t n) = n"
  by (simp_all add: mkBond_def)

lemma pairs_2: "pairs (Suc (Suc 0)) = [(0, Suc 0)]"
  by (simp add: pairs_def upt_rec)

lemma pairs_3:
  "pairs (Suc (Suc (Suc 0))) = [(0, Suc 0), (0, Suc (Suc 0)), (Suc 0, Suc (Suc 0))]"
  by (simp add: pairs_def upt_rec)

subsection \<open>The concrete inputs, field by field\<close>

lemma dipole_sel:
  "atom_id dipole_p1 = ''p1''" "atom_id dipole_p2 = ''p2''"
  "position dipole_p1 = vec (-3) 0 0" "position dipole_p2 = vec 3 0 0"
  "velocity dipole_p1 = vec 0 0 0" "velocity dipole_p2 = vec 0 0 0"
  "charge dipole_p1 = 1" "charge dipole_p2 = -1"
  "radius dipole_p1 = 1.1" "radius dipole_p2 = 1"
  "boilingPoint dipole_p1 = 8.8" "boilingPoint dipole_p2 = 2.4"
  "meltingPoint dipole_p1 = 3.7" "meltingPoint dipole_p2 = 1.7"
  "atom_type dipole_p1 = Sodium" "atom_type dipole_p2 = Chlorine"
  by (simp_all add: dipole_p1_def dipole_p2_def)

lemma salt_sel:
  "atom_id salt_p1 = ''p1''" "atom_id salt_p2 = ''p2''" "atom_id salt_p3 = ''p3''"
  "position salt_p1 = vec 0 0 0" "position salt_p2 = vec 1.6 0 0"
  "position salt_p3 = vec (-1.6) 0 0"
  "radius salt_p1 = 1.1" "radius salt_p2 = 1" "radius salt_p3 = 1"
  "meltingPoint salt_p1 = 3.7" "meltingPoint salt_p2 = 1.7" "meltingPoint salt_p3 = 1.7"
  "atom_type salt_p1 = Sodium" "atom_type salt_p2 = Chlorine" "atom_type salt_p3 = Chlorine"
  by (simp_all add: salt_p1_def salt_p2_def salt_p3_def)

lemma hyd_sel:
  "atom_id hyd_1 = ''h1''" "atom_id hyd_2 = ''h2''"
  "position hyd_1 = vec 0 0 0" "position hyd_2 = vec 0.75 0 0"
  "radius hyd_1 = 0.5" "radius hyd_2 = 0.5"
  "meltingPoint hyd_1 = 0.5" "meltingPoint hyd_2 = 0.5"
  "atom_type hyd_1 = Hydrogen" "atom_type hyd_2 = Hydrogen"
  by (simp_all add: hyd_1_def hyd_2_def)

lemma salt_bond_sel:
  "bond_id salt_bond = ''b1''"
  "atomA salt_bond = ''p1''" "atomB salt_bond = ''p2''" "strength salt_bond = 800"
  "restLength salt_bond = 1.575" "bond_order salt_bond = 1" "bond_type salt_bond = ionic"
  by (simp_all add: salt_bond_def BOND_STRENGTH_IONIC_def)

lemma hh_bond_sel:
  "bond_id hh_bond = ''b2''"
  "atomA hh_bond = ''h1''" "atomB hh_bond = ''h2''" "strength hh_bond = 1200"
  "restLength hh_bond = 0.75" "bond_order hh_bond = 1" "bond_type hh_bond = covalent"
  by (simp_all add: hh_bond_def BOND_STRENGTH_COVALENT_def)

lemma salt_find:
  "findAtom [salt_p1, salt_p2] ''p1'' = Some salt_p1"
  "findAtom [salt_p1, salt_p2] ''p2'' = Some salt_p2"
  by (simp_all add: findAtom_def salt_sel)

lemma hyd_find:
  "findAtom [hyd_1, hyd_2] ''h1'' = Some hyd_1"
  "findAtom [hyd_1, hyd_2] ''h2'' = Some hyd_2"
  by (simp_all add: findAtom_def hyd_sel)

lemma dipole_find:
  "findAtom [dipole_p1, dipole_p2] ''p1'' = Some dipole_p1"
  "findAtom [dipole_p1, dipole_p2] ''p2'' = Some dipole_p2"
  by (simp_all add: findAtom_def dipole_sel)

lemma dipole_atoms: "atoms dipole_state = [dipole_p1, dipole_p2]"
  by (simp add: dipole_state_def reset_dipole_def dipole_p1_def dipole_p2_def)

section \<open>Frame of the tick\<close>

text \<open>
  Claim C10. For every input state and every frame time, in both bodies of the loop, the
  state after \<open>useFrame\<close> has the temperature, the magnetic field, the time scale, the run
  flag and the field-vector flag of the input state: a tick writes the atoms, the bonds and
  the photons only.
\<close>

theorem useFrame_frame:
  "temperature (fst (useFrame var vortexPos rnd uuid delta (s, cd))) = temperature s
   \<and> magneticField (fst (useFrame var vortexPos rnd uuid delta (s, cd))) = magneticField s
   \<and> timeScale (fst (useFrame var vortexPos rnd uuid delta (s, cd))) = timeScale s
   \<and> isRunning (fst (useFrame var vortexPos rnd uuid delta (s, cd))) = isRunning s
   \<and> showFieldVectors (fst (useFrame var vortexPos rnd uuid delta (s, cd)))
       = showFieldVectors s"
  by (simp add: useFrame_def Let_def commit_frame)

text \<open>The frame theorem on the stretched dipole, first body, one frame of 16 ms.\<close>

theorem useFrame_frame_witness:
  "temperature (fst (useFrame First None rnd_half ids_b 0.016 (stretched_state, 0))) = 3
   \<and> magneticField (fst (useFrame First None rnd_half ids_b 0.016 (stretched_state, 0)))
       = vec 0 0 0
   \<and> timeScale (fst (useFrame First None rnd_half ids_b 0.016 (stretched_state, 0))) = 1
   \<and> isRunning (fst (useFrame First None rnd_half ids_b 0.016 (stretched_state, 0)))
   \<and> \<not> showFieldVectors (fst (useFrame First None rnd_half ids_b 0.016 (stretched_state, 0)))"
  using useFrame_frame [of First None rnd_half ids_b "0.016" stretched_state 0]
  by (simp add: stretched_state_def dipole_state_def reset_dipole_def INITIAL_STATE_def)

section \<open>Newton's third law\<close>

lemma pair_step_applied:
  assumes "atom_id a1 \<noteq> atom_id a2"
  shows "applied F (pair_step bs temp a1 a2 F) (atom_id a1)
           = (case pair_fVec bs temp a1 a2 of None \<Rightarrow> vec 0 0 0 | Some f \<Rightarrow> f)"
    and "applied F (pair_step bs temp a1 a2 F) (atom_id a2)
           = negate (applied F (pair_step bs temp a1 a2 F) (atom_id a1))"
  using assms
  by (auto simp: pair_step_def forces_add_def forces_sub_def applied_def sub_def add_def
        negate_def split: option.splits)

lemma bond_callback_applied:
  assumes "findAtom as (atomA bond) = Some b1" "findAtom as (atomB bond) = Some b2"
    and "atom_id b1 \<noteq> atom_id b2"
  shows "applied F (fst (snd (bond_callback var as temp rnd bond (F, k)))) (atom_id b1)
           = (if fst (bond_callback var as temp rnd bond (F, k))
              then springForce var temp bond b1 b2 else vec 0 0 0)"
    and "applied F (fst (snd (bond_callback var as temp rnd bond (F, k)))) (atom_id b2)
           = negate (applied F (fst (snd (bond_callback var as temp rnd bond (F, k))))
                       (atom_id b1))"
  using assms
  by (auto simp: bond_callback_def forces_add_def forces_sub_def applied_def sub_def add_def
        negate_def Let_def split: option.splits if_splits prod.splits)

text \<open>
  Claim C6. For two atoms with different ids, the step of the pairwise loop adds to the
  first atom the vector \<open>fVec\<close> (the Lennard-Jones, Coulomb and intermolecular terms, summed
  in \<open>forceMag\<close>; nothing when the pair is skipped) and to the second atom its negation.
  For a bond whose two endpoints are found and have different ids, the filter adds the
  spring force to the first endpoint when the bond is kept, and to the second endpoint the
  negation of what it adds to the first. Both bodies of the loop.
\<close>

theorem newton_third_law:
  assumes "atom_id a1 \<noteq> atom_id a2"
    and "findAtom as (atomA bond) = Some b1" and "findAtom as (atomB bond) = Some b2"
    and "atom_id b1 \<noteq> atom_id b2"
  shows "applied F (pair_step bs temp a1 a2 F) (atom_id a1)
           = (case pair_fVec bs temp a1 a2 of None \<Rightarrow> vec 0 0 0 | Some f \<Rightarrow> f)
       \<and> applied F (pair_step bs temp a1 a2 F) (atom_id a2)
           = negate (applied F (pair_step bs temp a1 a2 F) (atom_id a1))
       \<and> applied F (fst (snd (bond_callback var as temp rnd bond (F, k)))) (atom_id b1)
           = (if fst (bond_callback var as temp rnd bond (F, k))
              then springForce var temp bond b1 b2 else vec 0 0 0)
       \<and> applied F (fst (snd (bond_callback var as temp rnd bond (F, k)))) (atom_id b2)
           = negate (applied F (fst (snd (bond_callback var as temp rnd bond (F, k))))
                       (atom_id b1))"
  using pair_step_applied [OF assms(1)] bond_callback_applied [OF assms(2,3,4)] by simp

text \<open>The third law on the two salt ions and their bond, at temperature 3.\<close>

theorem newton_third_law_witness:
  "atom_id salt_p1 \<noteq> atom_id salt_p2
   \<and> findAtom [salt_p1, salt_p2] (atomA salt_bond) = Some salt_p1
   \<and> findAtom [salt_p1, salt_p2] (atomB salt_bond) = Some salt_p2
   \<and> applied zeroForces (pair_step [] 3 salt_p1 salt_p2 zeroForces) (atom_id salt_p2)
       = negate (applied zeroForces (pair_step [] 3 salt_p1 salt_p2 zeroForces)
                   (atom_id salt_p1))
   \<and> applied zeroForces
        (fst (snd (bond_callback First [salt_p1, salt_p2] 3 rnd_half salt_bond
                     (zeroForces, 0))))
        (atom_id salt_p2)
       = negate (applied zeroForces
          (fst (snd (bond_callback First [salt_p1, salt_p2] 3 rnd_half salt_bond
                       (zeroForces, 0))))
          (atom_id salt_p1))"
proof -
  have h1: "atom_id salt_p1 \<noteq> atom_id salt_p2" by (simp add: salt_sel)
  have h2: "findAtom [salt_p1, salt_p2] (atomA salt_bond) = Some salt_p1"
    by (simp add: salt_find salt_bond_sel)
  have h3: "findAtom [salt_p1, salt_p2] (atomB salt_bond) = Some salt_p2"
    by (simp add: salt_find salt_bond_sel)
  show ?thesis
    using h1 h2 h3
      newton_third_law [OF h1 h2 h3 h1, where F = zeroForces and bs = "[]" and temp = 3
        and var = First and rnd = rnd_half and k = 0]
    by simp
qed

section \<open>The Coulomb scenario\<close>

lemma dipole_r: "vlength (subVectors (position dipole_p1) (position dipole_p2)) = 6"
  by (simp add: dipole_sel subVectors_def vlength_x)

lemma dipole_lj: "lj_term dipole_p1 dipole_p2 6 < - 0.0138"
  by (simp add: lj_term_def dipole_sel Let_def LJ_SIGMA_SCALE_def LJ_EPSILON_def power_divide)

lemma dipole_forceMag:
  "forceMag [] 3 dipole_p1 dipole_p2 6 = lj_term dipole_p1 dipole_p2 6 - 350 / 36"
  by (simp add: forceMag_def isBonded_def coulomb_term_def intermolecular_term_def dipole_sel
      Let_def K_COULOMB_def)

text \<open>
  Claim C7 as stated fails on the dipole preset of the application (a sodium ion of charge
  +1 and a chlorine ion of charge -1, 6 apart, no bond, temperature 3): the magnitude of
  the pairwise force exceeds \<open>K * 1 * 1 / r\<^sup>2\<close> by more than 0.0138, the Lennard-Jones
  term of the unbonded pair.
\<close>

theorem coulomb_scenario_counterexample:
  "atoms dipole_state = [dipole_p1, dipole_p2] \<and> bonds dipole_state = []
   \<and> charge dipole_p1 = 1 \<and> charge dipole_p2 = -1
   \<and> vlength (subVectors (position dipole_p1) (position dipole_p2)) = 6
   \<and> \<bar>forceMag (bonds dipole_state) (temperature dipole_state) dipole_p1 dipole_p2 6\<bar>
       > K_COULOMB * 1 * 1 / (6 * 6) + 0.0138"
proof -
  have "bonds dipole_state = []" "temperature dipole_state = 3"
    by (simp_all add: dipole_state_def reset_dipole_def INITIAL_STATE_def)
  then show ?thesis
    using dipole_lj dipole_r
    by (simp add: dipole_atoms dipole_sel dipole_forceMag K_COULOMB_def)
qed

text \<open>
  Claim C7, amended. For two unbonded atoms of charges +1 and -1 at separation
  \<open>r \<ge> 0.1\<close>, the Coulomb term of the pairwise force is \<open>- K * 1 * 1 / r\<^sup>2\<close>, which is
  negative (attractive); the force computed for the pair is the sum of the Lennard-Jones
  term, this Coulomb term and the negated intermolecular term, along the normalised
  direction between the atoms.
\<close>

theorem coulomb_scenario:
  assumes "(charge a1 = 1 \<and> charge a2 = -1) \<or> (charge a1 = -1 \<and> charge a2 = 1)"
    and "\<not> isBonded bs a1 a2"
    and "r = vlength (subVectors (position a1) (position a2))"
    and "r \<ge> 0.1"
  shows "coulomb_term a1 a2 r = - (K_COULOMB * 1 * 1 / (r * r))
       \<and> coulomb_term a1 a2 r < 0
       \<and> forceMag bs temp a1 a2 r
           = lj_term a1 a2 r - K_COULOMB * 1 * 1 / (r * r) - intermolecular_term temp a1 a2 r
       \<and> pair_fVec bs temp a1 a2
           = Some (multiplyScalar (normalize (subVectors (position a1) (position a2)))
                     (lj_term a1 a2 r - K_COULOMB * 1 * 1 / (r * r)
                        - intermolecular_term temp a1 a2 r))"
proof -
  have q: "charge a1 * charge a2 = -1" "charge a1 \<noteq> 0" "charge a2 \<noteq> 0"
    using assms(1) by auto
  have rpos: "r > 0" using assms(4) by simp
  have c: "coulomb_term a1 a2 r = - (K_COULOMB * 1 * 1 / (r * r))"
    using q(1) by (simp add: coulomb_term_def mult.assoc)
  have neg: "coulomb_term a1 a2 r < 0"
    using rpos by (simp add: c K_COULOMB_def)
  have fm: "forceMag bs temp a1 a2 r
           = lj_term a1 a2 r - K_COULOMB * 1 * 1 / (r * r) - intermolecular_term temp a1 a2 r"
    using assms(2) q(2,3) c by (simp add: forceMag_def Let_def)
  have "\<not> r < 0.1" using assms(4) by simp
  then have "pair_fVec bs temp a1 a2
           = Some (multiplyScalar (normalize (subVectors (position a1) (position a2)))
                     (forceMag bs temp a1 a2 r))"
    using assms(3) by (simp add: pair_fVec_def Let_def)
  with c neg fm show ?thesis by simp
qed

text \<open>The amended scenario on the dipole preset.\<close>

theorem coulomb_scenario_witness:
  "charge dipole_p1 = 1 \<and> charge dipole_p2 = -1 \<and> \<not> isBonded [] dipole_p1 dipole_p2
   \<and> (6::real) = vlength (subVectors (position dipole_p1) (position dipole_p2))
   \<and> (6::real) \<ge> 0.1
   \<and> coulomb_term dipole_p1 dipole_p2 6 = - (K_COULOMB * 1 * 1 / (6 * 6))
   \<and> forceMag [] 3 dipole_p1 dipole_p2 6
       = lj_term dipole_p1 dipole_p2 6 - K_COULOMB * 1 * 1 / (6 * 6)
         - intermolecular_term 3 dipole_p1 dipole_p2 6"
proof -
  have h1: "(charge dipole_p1 = 1 \<and> charge dipole_p2 = -1)
            \<or> (charge dipole_p1 = -1 \<and> charge dipole_p2 = 1)"
    by (simp add: dipole_sel)
  have h2: "\<not> isBonded [] dipole_p1 dipole_p2" by (simp add: isBonded_def)
  have h3: "(6::real) = vlength (subVectors (position dipole_p1) (position dipole_p2))"
    by (simp add: dipole_r)
  have h4: "(6::real) \<ge> 0.1" by simp
  show ?thesis
    using h2 h3 coulomb_scenario [OF h1 h2 h3 h4, of 3]
    by (simp add: dipole_sel)
qed

section \<open>Thermal dissociation\<close>

lemma salt_within:
  "distanceTo (position salt_p1) (position salt_p2)
     \<le> effectiveRestLength 3.3 salt_bond * BOND_BREAK_RATIO"
  by (simp add: salt_sel distanceTo_x effectiveRestLength_def salt_bond_sel
        THERMAL_EXPANSION_COEFF_def BOND_BREAK_RATIO_def)

lemma salt_break_second:
  "\<not> fst (bond_callback Second [salt_p1, salt_p2] 3.3 rnd_low salt_bond (zeroForces, 0))"
  by (simp add: bond_callback_def salt_find salt_bond_sel salt_sel distanceTo_x
      effectiveRestLength_def THERMAL_EXPANSION_COEFF_def BOND_BREAK_RATIO_def Let_def
      thermal_second_def rnd_low_def)

lemma salt_keep_first:
  "fst (bond_callback First [salt_p1, salt_p2] 3.3 rnd_low salt_bond (zeroForces, 0))"
  by (simp add: bond_callback_def salt_find salt_bond_sel salt_sel distanceTo_x
      effectiveRestLength_def THERMAL_EXPANSION_COEFF_def BOND_BREAK_RATIO_def Let_def
      thermal_first_def)

lemma hh_break_first:
  "\<not> fst (bond_callback First [hyd_1, hyd_2] 10 rnd_low hh_bond (zeroForces, 0))"
  by (simp add: bond_callback_def hyd_find hh_bond_sel hyd_sel distanceTo_x
      effectiveRestLength_def THERMAL_EXPANSION_COEFF_def BOND_BREAK_RATIO_def Let_def
      thermal_first_def rnd_low_def)

lemma hh_keep_second:
  "fst (bond_callback Second [hyd_1, hyd_2] 10 rnd_low hh_bond (zeroForces, 0))"
  by (simp add: bond_callback_def hyd_find hh_bond_sel hyd_sel distanceTo_x
      effectiveRestLength_def THERMAL_EXPANSION_COEFF_def BOND_BREAK_RATIO_def Let_def
      thermal_second_def rnd_low_def)

text \<open>
  Claim C3 as stated fails in the second body of the loop. An ionic bond of strength 800
  and order 1 between a sodium and a chlorine ion at its rest length, temperature 3.3: the
  thermal energy \<open>3.3 * 150\<close> does not exceed \<open>0.8 * 800\<close>, so the rule of the claim never
  removes the bond, and the second body removes it when the random value is 0.01.
\<close>

theorem thermal_dissociation_counterexample:
  "findAtom [salt_p1, salt_p2] (atomA salt_bond) = Some salt_p1
   \<and> findAtom [salt_p1, salt_p2] (atomB salt_bond) = Some salt_p2
   \<and> distanceTo (position salt_p1) (position salt_p2)
        \<le> effectiveRestLength 3.3 salt_bond * BOND_BREAK_RATIO
   \<and> \<not> 3.3 * 150 > 0.8 * (strength salt_bond * real (bond_order salt_bond))
   \<and> \<not> fst (bond_callback Second [salt_p1, salt_p2] 3.3 rnd_low salt_bond (zeroForces, 0))"
  using salt_within salt_break_second
  by (simp add: salt_find salt_bond_sel)

text \<open>
  Claim C3, amended. For a bond whose endpoints are found and which is within the
  mechanical limit, with \<open>rnd k\<close> the next random value: the first body removes the bond
  exactly when \<open>temp * 150 > 0.8 * (strength * order)\<close> and
  \<open>rnd k < (temp * 150 - 0.8 * (strength * order)) * 0.00005\<close>, and it draws a random value
  exactly when the first inequality holds. The second body removes the bond exactly when
  the bond is ionic, the temperature exceeds the mean melting point of the endpoints by more
  than 0.5 and \<open>rnd k < 0.05\<close>, or the temperature exceeds 20 and the next random value is
  below 0.01.
\<close>

theorem thermal_dissociation:
  assumes "findAtom as (atomA bond) = Some a1" and "findAtom as (atomB bond) = Some a2"
    and "distanceTo (position a1) (position a2)
           \<le> effectiveRestLength temp bond * BOND_BREAK_RATIO"
  shows "fst (bond_callback First as temp rnd bond (F, k))
           = (\<not> (temp * 150 > 0.8 * (strength bond * real (bond_order bond))
                \<and> rnd k < (temp * 150 - 0.8 * (strength bond * real (bond_order bond)))
                            * 0.00005))
       \<and> snd (snd (bond_callback First as temp rnd bond (F, k)))
           = (if temp * 150 > 0.8 * (strength bond * real (bond_order bond))
              then Suc k else k)
       \<and> fst (bond_callback Second as temp rnd bond (F, k))
           = (\<not> ((bond_type bond = ionic
                    \<and> temp > (meltingPoint a1 + meltingPoint a2) / 2 + 0.5
                    \<and> rnd k < 0.05)
                 \<or> (temp > 20
                    \<and> rnd (if bond_type bond = ionic
                                \<and> temp > (meltingPoint a1 + meltingPoint a2) / 2 + 0.5
                            then Suc k else k) < 0.01)))"
  using assms
  by (simp add: bond_callback_def thermal_first_def thermal_second_def Let_def mult.commute)

text \<open>
  A covalent bond of strength 1200 at temperature 10 with the random value 0.01: the first
  body draws one value and removes the bond (the threshold is 0.027).
\<close>

theorem thermal_dissociation_witness:
  "findAtom [hyd_1, hyd_2] (atomA hh_bond) = Some hyd_1
   \<and> findAtom [hyd_1, hyd_2] (atomB hh_bond) = Some hyd_2
   \<and> distanceTo (position hyd_1) (position hyd_2)
        \<le> effectiveRestLength 10 hh_bond * BOND_BREAK_RATIO
   \<and> \<not> fst (bond_callback First [hyd_1, hyd_2] 10 rnd_low hh_bond (zeroForces, 0))
   \<and> snd (snd (bond_callback First [hyd_1, hyd_2] 10 rnd_low hh_bond (zeroForces, 0))) = 1"
proof -
  have h1: "findAtom [hyd_1, hyd_2] (atomA hh_bond) = Some hyd_1"
    by (simp add: hyd_find hh_bond_sel)
  have h2: "findAtom [hyd_1, hyd_2] (atomB hh_bond) = Some hyd_2"
    by (simp add: hyd_find hh_bond_sel)
  have h3: "distanceTo (position hyd_1) (position hyd_2)
              \<le> effectiveRestLength 10 hh_bond * BOND_BREAK_RATIO"
    by (simp add: hyd_sel distanceTo_x effectiveRestLength_def hh_bond_sel
        THERMAL_EXPANSION_COEFF_def BOND_BREAK_RATIO_def)
  show ?thesis
    using h1 h2 h3
      thermal_dissociation [OF h1 h2 h3, where rnd = rnd_low and F = zeroForces and k = 0]
    by (simp add: hh_bond_sel rnd_low_def)
qed

section \<open>Mechanical snap\<close>

text \<open>
  In both bodies and for every sequence of random values, the filter drops a bond whose
  endpoints are found and whose separation exceeds the effective rest length times the
  break ratio.
\<close>

lemma snap_callback:
  assumes "findAtom as (atomA bond) = Some a1" and "findAtom as (atomB bond) = Some a2"
    and "distanceTo (position a1) (position a2)
           > effectiveRestLength temp bond * BOND_BREAK_RATIO"
  shows "\<not> fst (bond_callback var as temp rnd bond Fk)"
  using assms by (simp add: bond_callback_def split: prod.splits)

lemma snap_filter:
  assumes "findAtom as (atomA bond) = Some a1" and "findAtom as (atomB bond) = Some a2"
    and "distanceTo (position a1) (position a2)
           > effectiveRestLength temp bond * BOND_BREAK_RATIO"
  shows "bond \<notin> set (fst (activeBonds_filter var as temp rnd bs Fk))"
proof (induction bs arbitrary: Fk)
  case Nil
  show ?case by simp
next
  case (Cons b bs)
  show ?case
    using Cons.IH [of "snd (bond_callback var as temp rnd b Fk)"]
      snap_callback [OF assms, of var rnd Fk]
    by (auto simp: case_prod_beta)
qed

lemma commit_bonds:
  "bonds (commit s active ph moved)
     = (if length active \<noteq> length (ph_bonds ph)
           \<or> length (survivingPhotons ph) \<noteq> length (photons s) \<or> ph_changed ph
        then ph_bonds ph else bonds s)"
  by (simp add: commit_def)

lemma stretched_sel:
  "atoms stretched_state = [dipole_p1, dipole_p2]" "bonds stretched_state = [salt_bond]"
  "photons stretched_state = []" "temperature stretched_state = 3"
  "isRunning stretched_state" "timeScale stretched_state = 1"
  by (simp_all add: stretched_state_def dipole_state_def reset_dipole_def INITIAL_STATE_def
      dipole_p1_def dipole_p2_def)

lemma stretched_far:
  "distanceTo (position dipole_p1) (position dipole_p2)
     > effectiveRestLength 3 salt_bond * BOND_BREAK_RATIO"
  by (simp add: dipole_sel distanceTo_x effectiveRestLength_def salt_bond_sel
      THERMAL_EXPANSION_COEFF_def BOND_BREAK_RATIO_def)

lemma stretched_callback:
  "fst (bond_callback var [dipole_p1, dipole_p2] 3 rnd salt_bond Fk) = False"
  using stretched_far
  by (simp add: bond_callback_def dipole_find salt_bond_sel split: prod.splits)

lemma activeBonds_filter_Cons:
  "activeBonds_filter var as temp rnd (b # bs) Fk
     = (let r = bond_callback var as temp rnd b Fk;
            r' = activeBonds_filter var as temp rnd bs (snd r)
        in ((if fst r then b # fst r' else fst r'), snd r'))"
  by (simp add: Let_def split: prod.splits)

lemma stretched_active: "activeBonds var vp rnd stretched_state = []"
  by (simp add: activeBonds_def stage_bonds_def stretched_sel case_prod_beta
      stretched_callback)

lemma stretched_fires: "0 \<le> delta \<Longrightarrow> fires delta stretched_state 0"
  by (simp add: fires_def frame_dt_def stretched_sel)

lemma dipole_chem:
  "chemistry var 3 uuid (chem_init [dipole_p1, dipole_p2] []) = chem_init [dipole_p1, dipole_p2] []"
  by (simp add: chemistry_def chem_init_def pairs_2 chem_pair_def Let_def dipole_sel
      currentBonds_def existingBond_def distanceTo_x BOND_FORM_RADIUS_def)

lemma stretched_chem:
  "stage_chem var vp rnd uuid delta stretched_state cd = chem_init [dipole_p1, dipole_p2] []"
  by (simp add: stage_chem_def stretched_active stretched_sel dipole_chem Let_def)

lemma stretched_photons:
  "ph_bonds (stage_photons var vp rnd uuid delta stretched_state cd) = []"
  "survivingPhotons (stage_photons var vp rnd uuid delta stretched_state cd) = []"
  "\<not> ph_changed (stage_photons var vp rnd uuid delta stretched_state cd)"
  by (simp_all add: stage_photons_def Let_def photon_logic_def stretched_sel chem_init_def
      stretched_chem)

text \<open>
  Claim C2 on the stretched dipole: a salt bond of rest length 1.575 between two ions 6
  apart, temperature 3, no photon. The separation exceeds the mechanical limit and the
  filter of both bodies drops the bond, but nothing else changes in the tick, the commit
  takes its second branch and the state after \<open>useFrame\<close> still holds the bond.
\<close>

theorem snap_not_committed:
  "bonds stretched_state = [salt_bond]
   \<and> findAtom (atoms stretched_state) (atomA salt_bond) = Some dipole_p1
   \<and> findAtom (atoms stretched_state) (atomB salt_bond) = Some dipole_p2
   \<and> distanceTo (position dipole_p1) (position dipole_p2)
        > effectiveRestLength (temperature stretched_state) salt_bond * BOND_BREAK_RATIO
   \<and> activeBonds First None rnd_half stretched_state = []
   \<and> activeBonds Second None rnd_half stretched_state = []
   \<and> bonds (fst (useFrame First None rnd_half ids_b 0.016 (stretched_state, 0))) = [salt_bond]
   \<and> bonds (fst (useFrame Second None rnd_half ids_b 0.016 (stretched_state, 0))) = [salt_bond]"
  using stretched_far
  by (simp add: useFrame_def commit_bonds stretched_active stretched_photons stretched_sel
      dipole_find salt_bond_sel)

section \<open>The photon loop\<close>

lemma photon_hit_find:
  "map_option fst (photon_hit as pos bs) = find (in_range as pos) bs"
  by (induction bs) (auto simp: in_range_def split: option.splits)

lemma photon_hit_None: "photon_hit as pos bs = None \<longleftrightarrow> find (in_range as pos) bs = None"
  using photon_hit_find [of as pos bs] by auto

lemma photon_hit_Some:
  "photon_hit as pos bs = Some (b, a1, a2) \<Longrightarrow> find (in_range as pos) bs = Some b"
  using photon_hit_find [of as pos bs] by auto

lemma find_Some_hit:
  "find (in_range as pos) bs = Some b \<Longrightarrow> \<exists>a1 a2. photon_hit as pos bs = Some (b, a1, a2)"
  using photon_hit_find [of as pos bs] by (cases "photon_hit as pos bs") auto

lemma photon_step_hit:
  assumes "find (in_range as (photon_position (advance dt p))) (ph_bonds st) = Some b"
  shows "ph_bonds (photon_step as dt p st) = filter (\<lambda>c. bond_id c \<noteq> bond_id b) (ph_bonds st)"
    and "survivingPhotons (photon_step as dt p st) = survivingPhotons st"
    and "ph_changed (photon_step as dt p st)"
  using find_Some_hit [OF assms]
  by (auto simp: photon_step_def Let_def)

lemma photon_step_miss:
  assumes "find (in_range as (photon_position (advance dt p))) (ph_bonds st) = None"
  shows "ph_bonds (photon_step as dt p st) = ph_bonds st"
    and "survivingPhotons (photon_step as dt p st)
           = (if vlength (photon_position (advance dt p)) < 60
              then survivingPhotons st @ [advance dt p] else survivingPhotons st)"
    and "ph_changed (photon_step as dt p st) = ph_changed st"
  using assms photon_hit_None [of as "photon_position (advance dt p)" "ph_bonds st"]
  by (auto simp: photon_step_def Let_def)

















lemma cross_advance:
  "photon_position (advance dt_demo cross_photon) = vec 0 0 0"
  "photon_position (advance dt_demo far_photon) = vec (2003 / 20) 0 0"
  by (simp_all add: advance_def cross_photon_def far_photon_def add_def multiplyScalar_def
      dt_demo_def)





section \<open>Bond counts, the scan and the integration loop\<close>

lemma ids_a_eq [simp]: "ids_a m = ids_a n \<longleftrightarrow> m = n"
  by (auto simp: ids_a_def dest: arg_cong [where f = length])

lemma currentBonds_ends:
  "currentBonds bs i
     = length (filter (\<lambda>e. fst e = i \<or> snd e = i) (map (\<lambda>b. (atomA b, atomB b)) bs))"
  by (simp add: currentBonds_def filter_map comp_def)

lemma currentBonds_filter: "currentBonds (filter P bs) i \<le> currentBonds bs i"
proof -
  have "filter (\<lambda>b. atomA b = i \<or> atomB b = i) (filter P bs)
          = filter P (filter (\<lambda>b. atomA b = i \<or> atomB b = i) bs)"
    by (simp add: conj_commute)
  then show ?thesis by (simp only: currentBonds_def length_filter_le)
qed

lemma currentBonds_Cons:
  "currentBonds (b # bs) i = (if atomA b = i \<or> atomB b = i then 1 else 0) + currentBonds bs i"
  by (simp add: currentBonds_def)

lemma currentBonds_snoc:
  "currentBonds (bs @ [b]) i = currentBonds bs i + (if atomA b = i \<or> atomB b = i then 1 else 0)"
  by (simp add: currentBonds_def)

lemma currentBonds_append:
  "currentBonds (xs @ ys) i = currentBonds xs i + currentBonds ys i"
  by (simp add: currentBonds_def)

lemma currentBonds_zero:
  "currentBonds bs i = 0 \<longleftrightarrow> (\<forall>b \<in> set bs. atomA b \<noteq> i \<and> atomB b \<noteq> i)"
  by (auto simp: currentBonds_def filter_empty_conv)

lemma activeBonds_filter_count:
  "currentBonds (fst (activeBonds_filter var as temp rnd bs Fk)) i \<le> currentBonds bs i"
proof (induction bs arbitrary: Fk)
  case Nil
  then show ?case by simp
next
  case (Cons b bs)
  let ?r = "bond_callback var as temp rnd b Fk"
  have "currentBonds (fst (activeBonds_filter var as temp rnd bs (snd ?r))) i \<le> currentBonds bs i"
    by (rule Cons.IH)
  then show ?case by (simp add: case_prod_beta currentBonds_Cons)
qed


lemma photon_step_count_le:
  "currentBonds (ph_bonds (photon_step as dt p st)) i \<le> currentBonds (ph_bonds st) i"
  by (cases "find (in_range as (photon_position (advance dt p))) (ph_bonds st)")
     (simp_all add: photon_step_hit photon_step_miss currentBonds_filter)

lemma fold_photon_count_le:
  "currentBonds (ph_bonds (fold (photon_step as dt) ps st)) i \<le> currentBonds (ph_bonds st) i"
proof (induction ps arbitrary: st)
  case Nil
  then show ?case by simp
next
  case (Cons p ps)
  show ?case
    using Cons.IH [of "photon_step as dt p st"] photon_step_count_le [of as dt p st i]
    by simp
qed

lemma photon_logic_count_le:
  "currentBonds (ph_bonds (photon_logic as dt ps bs F ch)) i \<le> currentBonds bs i"
  using fold_photon_count_le
    [of as dt ps "\<lparr>ph_bonds = bs, ph_forces = F, ph_changed = ch, survivingPhotons = []\<rparr>" i]
  by (simp add: photon_logic_def)

lemma integrate_atom_id:
  "atom_id (fst (integrate_atom temp dt rnd a Fk)) = atom_id a"
  "atom_type (fst (integrate_atom temp dt rnd a Fk)) = atom_type a"
  by (simp_all add: integrate_atom_def split: prod.splits)

lemma integrate_all_ids:
  "map atom_id (fst (integrate_all temp dt rnd as Fk)) = map atom_id as"
  "map atom_type (fst (integrate_all temp dt rnd as Fk)) = map atom_type as"
proof (induction as arbitrary: Fk)
  case Nil
  { case 1 show ?case by simp }
  { case 2 show ?case by simp }
next
  case (Cons a as)
  { case 1
    show ?case
      using Cons.IH(1) [of "snd (integrate_atom temp dt rnd a Fk)"]
        integrate_atom_id(1) [of temp dt rnd a Fk]
      by (simp add: case_prod_beta) }
  { case 2
    show ?case
      using Cons.IH(2) [of "snd (integrate_atom temp dt rnd a Fk)"]
        integrate_atom_id(2) [of temp dt rnd a Fk]
      by (simp add: case_prod_beta) }
qed

lemma integrate_all_length: "length (fst (integrate_all temp dt rnd as Fk)) = length as"
  using arg_cong [OF integrate_all_ids(1) [of temp dt rnd as Fk], of length] by simp

lemma integrate_all_nth:
  "k < length as \<Longrightarrow>
   fst (integrate_all temp dt rnd as Fk) ! k
     = fst (integrate_atom temp dt rnd (as ! k)
              (snd (integrate_all temp dt rnd (take k as) Fk)))"
proof (induction as arbitrary: k Fk)
  case Nil
  then show ?case by simp
next
  case (Cons a as)
  show ?case
  proof (cases k)
    case 0
    then show ?thesis by (simp add: case_prod_beta)
  next
    case (Suc m)
    with Cons.prems have m: "m < length as" by simp
    from Cons.IH [OF m, of "snd (integrate_atom temp dt rnd a Fk)"] Suc
    show ?thesis by (simp add: case_prod_beta)
  qed
qed

text \<open>What one step of the scan does to the bond list.\<close>

lemma chem_pair_bonds:
  "newBonds (chem_pair var temp uuid (i, j) st) = newBonds st
   \<or> (\<exists>b. newBonds (chem_pair var temp uuid (i, j) st) = newBonds st @ [b]
         \<and> atomA b = atom_id (chem_atoms st ! i) \<and> atomB b = atom_id (chem_atoms st ! j)
         \<and> bond_order b = 1
         \<and> currentBonds (newBonds st) (atom_id (chem_atoms st ! i))
              < maxBonds (ATOM_CONFIGS (atom_type (chem_atoms st ! i)))
         \<and> currentBonds (newBonds st) (atom_id (chem_atoms st ! j))
              < maxBonds (ATOM_CONFIGS (atom_type (chem_atoms st ! j)))
         \<and> existingBond (newBonds st) (atom_id (chem_atoms st ! i))
              (atom_id (chem_atoms st ! j)) = None)"
  by (simp add: chem_pair_def Let_def)

lemma update_map_nth [simp]: "(map f xs)[i := f (xs ! i)] = map f xs"
proof (cases "i < length xs")
  case True
  then have "f (xs ! i) = map f xs ! i" by simp
  then show ?thesis by (simp only: list_update_id)
next
  case False
  then have "length (map f xs) \<le> i" by simp
  then show ?thesis by (rule list_update_beyond)
qed

lemma chem_pair_atoms:
  "map atom_id (chem_atoms (chem_pair var temp uuid (i, j) st)) = map atom_id (chem_atoms st)"
  "map atom_type (chem_atoms (chem_pair var temp uuid (i, j) st)) = map atom_type (chem_atoms st)"
  "length (chem_atoms (chem_pair var temp uuid (i, j) st)) = length (chem_atoms st)"
  by (simp_all add: chem_pair_def Let_def map_update)

lemma pairs_mem: "(i, j) \<in> set (pairs n) \<longleftrightarrow> i < j \<and> j < n"
  by (auto simp: pairs_def intro!: bexI [where x = i])

lemma fold_chem_atoms:
  "map atom_id (chem_atoms (fold (chem_pair var temp uuid) ps st)) = map atom_id (chem_atoms st)"
  "map atom_type (chem_atoms (fold (chem_pair var temp uuid) ps st))
     = map atom_type (chem_atoms st)"
  "length (chem_atoms (fold (chem_pair var temp uuid) ps st)) = length (chem_atoms st)"
proof (induction ps arbitrary: st)
  case Nil
  { case 1 show ?case by simp }
  { case 2 show ?case by simp }
  { case 3 show ?case by simp }
next
  case (Cons p ps)
  obtain i j where p: "p = (i, j)" by (cases p)
  { case 1 show ?case using Cons.IH(1) [of "chem_pair var temp uuid (i, j) st"]
      by (simp add: p chem_pair_atoms) }
  { case 2 show ?case using Cons.IH(2) [of "chem_pair var temp uuid (i, j) st"]
      by (simp add: p chem_pair_atoms) }
  { case 3 show ?case using Cons.IH(3) [of "chem_pair var temp uuid (i, j) st"]
      by (simp add: p chem_pair_atoms) }
qed


section \<open>Ionic bond formation\<close>

lemma chem_pair_eq:
  "chem_pair var temp uuid (i, j) st =
     (if can_bond st i j \<and> deltaEN (chem_atoms st ! i) (chem_atoms st ! j) > 1.7
          \<and> temp < meanMP (chem_atoms st ! i) (chem_atoms st ! j)
      then ionic_step var uuid i j st
      else if can_bond st i j \<and> \<not> deltaEN (chem_atoms st ! i) (chem_atoms st ! j) > 1.7
          \<and> temp < meanMP (chem_atoms st ! i) (chem_atoms st ! j) * 1.5
      then covalent_step var uuid i j st
      else st)"
  unfolding chem_pair_def can_bond_def deltaEN_def meanMP_def ionic_step_def covalent_step_def
    donor_first_def Let_def
  by (simp only: split: prod.splits) (auto simp: not_le)

lemma existingBond_between: "existingBond bs x y = None \<longleftrightarrow> between bs x y = []"
  by (auto simp: existingBond_def between_def find_None_iff filter_empty_conv)

lemma between_snoc:
  "between (bs @ [b]) x y
     = between bs x y @ (if (atomA b = x \<and> atomB b = y) \<or> (atomA b = y \<and> atomB b = x)
                         then [b] else [])"
  by (simp add: between_def)

lemma ionic_step_sel:
  "newBonds (ionic_step var uuid i j st) = newBonds st @
          [mkBond (uuid (drawn st)) (atom_id (chem_atoms st ! i)) (atom_id (chem_atoms st ! j))
             BOND_STRENGTH_IONIC (ionicRestLength var (chem_atoms st ! i) (chem_atoms st ! j))
             ionic 1]"
  "chem_atoms (ionic_step var uuid i j st) =
          (if donor_first (chem_atoms st ! i) (chem_atoms st ! j)
           then (chem_atoms st)[i := (chem_atoms st ! i)\<lparr>charge := 1\<rparr>,
                                j := (chem_atoms st ! j)\<lparr>charge := -1\<rparr>]
           else (chem_atoms st)[j := (chem_atoms st ! j)\<lparr>charge := 1\<rparr>,
                                i := (chem_atoms st ! i)\<lparr>charge := -1\<rparr>])"
  by (simp_all add: ionic_step_def)

lemma covalent_step_sel:
  "newBonds (covalent_step var uuid i j st) = newBonds st @
          [mkBond (uuid (drawn st)) (atom_id (chem_atoms st ! i)) (atom_id (chem_atoms st ! j))
             BOND_STRENGTH_COVALENT
             (covalentRestLength var (chem_atoms st ! i) (chem_atoms st ! j)) covalent 1]"
  "chem_atoms (covalent_step var uuid i j st) = chem_atoms st"
  by (simp_all add: covalent_step_def)

lemma uncharged_update [simp]: "uncharged (a\<lparr>charge := c\<rparr>) = uncharged a"
  by (simp add: uncharged_def)

lemma uncharged_fields:
  assumes "uncharged a = uncharged b"
  shows "position a = position b" "radius a = radius b" "meltingPoint a = meltingPoint b"
    "atom_id a = atom_id b" "atom_type a = atom_type b"
proof -
  have "position (uncharged a) = position (uncharged b)"
    "radius (uncharged a) = radius (uncharged b)"
    "meltingPoint (uncharged a) = meltingPoint (uncharged b)"
    "atom_id (uncharged a) = atom_id (uncharged b)"
    "atom_type (uncharged a) = atom_type (uncharged b)"
    using assms by simp_all
  then show "position a = position b" "radius a = radius b" "meltingPoint a = meltingPoint b"
    "atom_id a = atom_id b" "atom_type a = atom_type b"
    by (simp_all add: uncharged_def)
qed

text \<open>A step leaves every field of every atom but the charge as it is.\<close>

lemma chem_pair_uncharged:
  "map uncharged (chem_atoms (chem_pair var temp uuid (i, j) st)) = map uncharged (chem_atoms st)"
  by (simp add: chem_pair_eq ionic_step_sel covalent_step_sel map_update)

lemma fold_chem_uncharged:
  "map uncharged (chem_atoms (fold (chem_pair var temp uuid) ps st)) = map uncharged (chem_atoms st)"
proof (induction ps arbitrary: st)
  case Nil
  show ?case by simp
next
  case (Cons p ps)
  obtain i j where p: "p = (i, j)" by (cases p)
  show ?case using Cons.IH [of "chem_pair var temp uuid (i, j) st"]
    by (simp add: p chem_pair_uncharged)
qed

lemma map_eq_nth:
  assumes "map f xs = map f ys" and "k < length ys"
  shows "f (xs ! k) = f (ys ! k)"
  using assms by (metis length_map nth_map)

lemma between_sym: "between bs x y = between bs y x"
  by (simp add: between_def disj_commute)

lemma chem_pair_newBonds:
  "newBonds (chem_pair var temp uuid (k, l) st) = newBonds st
   \<or> (can_bond st k l
       \<and> (\<exists>b. newBonds (chem_pair var temp uuid (k, l) st) = newBonds st @ [b]
              \<and> atomA b = atom_id (chem_atoms st ! k) \<and> atomB b = atom_id (chem_atoms st ! l)))"
  by (simp add: chem_pair_eq ionic_step_sel covalent_step_sel)

lemma chem_pair_between_other:
  assumes "\<not> ((atom_id (chem_atoms st ! k) = x \<and> atom_id (chem_atoms st ! l) = y)
              \<or> (atom_id (chem_atoms st ! k) = y \<and> atom_id (chem_atoms st ! l) = x))"
  shows "between (newBonds (chem_pair var temp uuid (k, l) st)) x y = between (newBonds st) x y"
  using chem_pair_newBonds [of var temp uuid k l st] assms
  by (auto simp: between_snoc)

lemma chem_pair_between_kept:
  assumes "between (newBonds st) x y \<noteq> []"
  shows "between (newBonds (chem_pair var temp uuid (k, l) st)) x y = between (newBonds st) x y"
proof (cases "(atom_id (chem_atoms st ! k) = x \<and> atom_id (chem_atoms st ! l) = y)
              \<or> (atom_id (chem_atoms st ! k) = y \<and> atom_id (chem_atoms st ! l) = x)")
  case False
  then show ?thesis by (rule chem_pair_between_other)
next
  case True
  then have "between (newBonds st) (atom_id (chem_atoms st ! k)) (atom_id (chem_atoms st ! l)) \<noteq> []"
    using assms between_sym by auto
  then have "\<not> can_bond st k l"
    by (simp add: can_bond_def existingBond_between)
  then show ?thesis
    using chem_pair_newBonds [of var temp uuid k l st] by auto
qed

lemma fold_between_kept:
  assumes "between (newBonds st) x y \<noteq> []"
  shows "between (newBonds (fold (chem_pair var temp uuid) ps st)) x y = between (newBonds st) x y"
  using assms
proof (induction ps arbitrary: st)
  case Nil
  show ?case by simp
next
  case (Cons p ps)
  obtain k l where p: "p = (k, l)" by (cases p)
  have s: "between (newBonds (chem_pair var temp uuid (k, l) st)) x y = between (newBonds st) x y"
    using Cons.prems by (rule chem_pair_between_kept)
  with Cons.prems Cons.IH [of "chem_pair var temp uuid (k, l) st"] show ?case
    by (simp add: p)
qed

lemma fold_between_before:
  assumes "distinct (map atom_id (chem_atoms st))"
    and "\<forall>(k, l) \<in> set ps. k < l \<and> l < length (chem_atoms st) \<and> (k, l) \<noteq> (i, j)"
    and "i < j" and "j < length (chem_atoms st)"
  shows "between (newBonds (fold (chem_pair var temp uuid) ps st))
           (atom_id (chem_atoms st ! i)) (atom_id (chem_atoms st ! j))
         = between (newBonds st) (atom_id (chem_atoms st ! i)) (atom_id (chem_atoms st ! j))"
  using assms
proof (induction ps arbitrary: st)
  case Nil
  show ?case by simp
next
  case (Cons p ps)
  obtain k l where p: "p = (k, l)" by (cases p)
  let ?st1 = "chem_pair var temp uuid (k, l) st"
  let ?as = "chem_atoms st"
  have kl: "k < l" "l < length ?as" "(k, l) \<noteq> (i, j)"
    using Cons.prems(2) p by auto
  have inj: "\<And>a b. a < length ?as \<Longrightarrow> b < length ?as \<Longrightarrow>
               atom_id (?as ! a) = atom_id (?as ! b) \<Longrightarrow> a = b"
    using Cons.prems(1) by (metis distinct_conv_nth length_map nth_map)
  have ne: "\<not> ((atom_id (?as ! k) = atom_id (?as ! i) \<and> atom_id (?as ! l) = atom_id (?as ! j))
              \<or> (atom_id (?as ! k) = atom_id (?as ! j) \<and> atom_id (?as ! l) = atom_id (?as ! i)))"
  proof
    assume "(atom_id (?as ! k) = atom_id (?as ! i) \<and> atom_id (?as ! l) = atom_id (?as ! j))
              \<or> (atom_id (?as ! k) = atom_id (?as ! j) \<and> atom_id (?as ! l) = atom_id (?as ! i))"
    then have "(k = i \<and> l = j) \<or> (k = j \<and> l = i)"
      using inj kl(1,2) Cons.prems(3,4) by (metis less_trans)
    then show False using kl(1,3) Cons.prems(3) by auto
  qed
  have step: "between (newBonds ?st1) (atom_id (?as ! i)) (atom_id (?as ! j))
                = between (newBonds st) (atom_id (?as ! i)) (atom_id (?as ! j))"
    using ne by (rule chem_pair_between_other)
  have ids: "map atom_id (chem_atoms ?st1) = map atom_id ?as" by (rule chem_pair_atoms)
  have len: "length (chem_atoms ?st1) = length ?as" by (rule chem_pair_atoms)
  have idi: "atom_id (chem_atoms ?st1 ! i) = atom_id (?as ! i)"
    using ids Cons.prems(3,4) by (metis less_trans length_map nth_map)
  have idj: "atom_id (chem_atoms ?st1 ! j) = atom_id (?as ! j)"
    using ids Cons.prems(4) by (metis length_map nth_map)
  have d1: "distinct (map atom_id (chem_atoms ?st1))" using Cons.prems(1) ids by simp
  have r1: "\<forall>(k, l) \<in> set ps. k < l \<and> l < length (chem_atoms ?st1) \<and> (k, l) \<noteq> (i, j)"
    using Cons.prems(2) len by simp
  have j1: "j < length (chem_atoms ?st1)" using Cons.prems(4) len by simp
  from Cons.IH [OF d1 r1 Cons.prems(3) j1] step idi idj show ?case
    by (simp add: p)
qed

lemma EN_bounds:
  "maxBonds (ATOM_CONFIGS t) \<noteq> 0 \<Longrightarrow>
     0.93 \<le> electronegativity (ATOM_CONFIGS t) \<and> electronegativity (ATOM_CONFIGS t) \<le> 3.98"
  by (cases t) simp_all

lemma can_bond_EN:
  assumes "can_bond st k l"
  shows "0.93 \<le> EN (chem_atoms st ! k)" "EN (chem_atoms st ! k) \<le> 3.98"
    "0.93 \<le> EN (chem_atoms st ! l)" "EN (chem_atoms st ! l) \<le> 3.98"
  using assms EN_bounds [of "atom_type (chem_atoms st ! k)"]
    EN_bounds [of "atom_type (chem_atoms st ! l)"]
  by (simp_all add: can_bond_def EN_def)

lemma chem_pair_type:
  assumes "m < length (chem_atoms st)"
  shows "atom_type (chem_atoms (chem_pair var temp uuid (k, l) st) ! m) = atom_type (chem_atoms st ! m)"
  using chem_pair_atoms(2) [of var temp uuid k l st] assms
  by (metis length_map nth_map)

lemma nth_update1:
  "xs[a := x] ! m = (if m = a \<and> a < length xs then x else xs ! m)"
proof (cases "a < length xs")
  case True
  then show ?thesis by (auto simp: nth_list_update)
next
  case False
  then have "xs[a := x] = xs" by (simp add: list_update_beyond)
  with False show ?thesis by simp
qed

lemma nth_update2:
  "xs[a := x, b := y] ! m
     = (if m = b \<and> b < length xs then y
        else if m = a \<and> a < length xs then x else xs ! m)"
  by (simp add: nth_update1)

lemma chem_pair_donor:
  assumes "m < length (chem_atoms st)" and "k \<noteq> l"
    and "charge (chem_atoms st ! m) = 1" and "EN (chem_atoms st ! m) < 2.28"
  shows "charge (chem_atoms (chem_pair var temp uuid (k, l) st) ! m) = 1"
proof (cases "can_bond st k l \<and> deltaEN (chem_atoms st ! k) (chem_atoms st ! l) > 1.7
          \<and> temp < meanMP (chem_atoms st ! k) (chem_atoms st ! l)")
  case False
  then have "chem_atoms (chem_pair var temp uuid (k, l) st) = chem_atoms st"
    unfolding chem_pair_eq by (auto simp: covalent_step_sel)
  then show ?thesis using assms(3) by simp
next
  case True
  then have cb: "can_bond st k l" and d: "deltaEN (chem_atoms st ! k) (chem_atoms st ! l) > 1.7"
    by simp_all
  note b = can_bond_EN [OF cb]
  have eq: "chem_pair var temp uuid (k, l) st = ionic_step var uuid k l st"
    using True by (simp add: chem_pair_eq)
  show ?thesis
  proof (cases "donor_first (chem_atoms st ! k) (chem_atoms st ! l)")
    case True
    have "m \<noteq> l"
    proof
      assume "m = l"
      then show False using True d b assms(4) by (simp add: donor_first_def deltaEN_def EN_def)
    qed
    then show ?thesis
      using True assms(1,3) by (simp add: eq ionic_step_sel nth_update2)
  next
    case False
    have "m \<noteq> k"
    proof
      assume "m = k"
      then show False using False d b assms(4) by (simp add: donor_first_def deltaEN_def EN_def)
    qed
    then show ?thesis
      using False assms(1,3) by (simp add: eq ionic_step_sel nth_update2)
  qed
qed

lemma chem_pair_acceptor:
  assumes "m < length (chem_atoms st)" and "k \<noteq> l"
    and "charge (chem_atoms st ! m) = -1" and "EN (chem_atoms st ! m) > 2.63"
  shows "charge (chem_atoms (chem_pair var temp uuid (k, l) st) ! m) = -1"
proof (cases "can_bond st k l \<and> deltaEN (chem_atoms st ! k) (chem_atoms st ! l) > 1.7
          \<and> temp < meanMP (chem_atoms st ! k) (chem_atoms st ! l)")
  case False
  then have "chem_atoms (chem_pair var temp uuid (k, l) st) = chem_atoms st"
    unfolding chem_pair_eq by (auto simp: covalent_step_sel)
  then show ?thesis using assms(3) by simp
next
  case True
  then have cb: "can_bond st k l" and d: "deltaEN (chem_atoms st ! k) (chem_atoms st ! l) > 1.7"
    by simp_all
  note b = can_bond_EN [OF cb]
  have eq: "chem_pair var temp uuid (k, l) st = ionic_step var uuid k l st"
    using True by (simp add: chem_pair_eq)
  show ?thesis
  proof (cases "donor_first (chem_atoms st ! k) (chem_atoms st ! l)")
    case True
    have "m \<noteq> k"
    proof
      assume "m = k"
      then show False using True d b assms(4) by (simp add: donor_first_def deltaEN_def EN_def)
    qed
    then show ?thesis
      using True assms(1,3) by (simp add: eq ionic_step_sel nth_update2)
  next
    case False
    have "m \<noteq> l"
    proof
      assume "m = l"
      then show False using False d b assms(4) by (simp add: donor_first_def deltaEN_def EN_def)
    qed
    then show ?thesis
      using False assms(1,3) by (simp add: eq ionic_step_sel nth_update2)
  qed
qed

lemma fold_chem_donor:
  assumes "m < length (chem_atoms st)" and "\<forall>(k, l) \<in> set ps. k \<noteq> l"
    and "charge (chem_atoms st ! m) = 1" and "EN (chem_atoms st ! m) < 2.28"
  shows "charge (chem_atoms (fold (chem_pair var temp uuid) ps st) ! m) = 1"
  using assms
proof (induction ps arbitrary: st)
  case Nil
  then show ?case by simp
next
  case (Cons p ps)
  obtain k l where p: "p = (k, l)" by (cases p)
  let ?st1 = "chem_pair var temp uuid (k, l) st"
  have kl: "k \<noteq> l" using Cons.prems(2) p by auto
  have m1: "m < length (chem_atoms ?st1)" using Cons.prems(1) by (simp add: chem_pair_atoms)
  have r1: "\<forall>(k, l) \<in> set ps. k \<noteq> l" using Cons.prems(2) by simp
  have c1: "charge (chem_atoms ?st1 ! m) = 1"
    by (rule chem_pair_donor [OF Cons.prems(1) kl Cons.prems(3,4)])
  have e1: "EN (chem_atoms ?st1 ! m) < 2.28"
    using Cons.prems(4) chem_pair_type [OF Cons.prems(1)] by (simp add: EN_def)
  from Cons.IH [OF m1 r1 c1 e1] show ?case by (simp add: p)
qed

lemma fold_chem_acceptor:
  assumes "m < length (chem_atoms st)" and "\<forall>(k, l) \<in> set ps. k \<noteq> l"
    and "charge (chem_atoms st ! m) = -1" and "EN (chem_atoms st ! m) > 2.63"
  shows "charge (chem_atoms (fold (chem_pair var temp uuid) ps st) ! m) = -1"
  using assms
proof (induction ps arbitrary: st)
  case Nil
  then show ?case by simp
next
  case (Cons p ps)
  obtain k l where p: "p = (k, l)" by (cases p)
  let ?st1 = "chem_pair var temp uuid (k, l) st"
  have kl: "k \<noteq> l" using Cons.prems(2) p by auto
  have m1: "m < length (chem_atoms ?st1)" using Cons.prems(1) by (simp add: chem_pair_atoms)
  have r1: "\<forall>(k, l) \<in> set ps. k \<noteq> l" using Cons.prems(2) by simp
  have c1: "charge (chem_atoms ?st1 ! m) = -1"
    by (rule chem_pair_acceptor [OF Cons.prems(1) kl Cons.prems(3,4)])
  have e1: "EN (chem_atoms ?st1 ! m) > 2.63"
    using Cons.prems(4) chem_pair_type [OF Cons.prems(1)] by (simp add: EN_def)
  from Cons.IH [OF m1 r1 c1 e1] show ?case by (simp add: p)
qed

lemma pairs_split:
  assumes "i < j" and "j < n"
  obtains ps2 where "pairs n = takeWhile (\<lambda>p. p \<noteq> (i, j)) (pairs n) @ (i, j) # ps2"
proof -
  let ?P = "\<lambda>p. p \<noteq> (i, j)"
  have mem: "(i, j) \<in> set (pairs n)" using assms by (simp add: pairs_mem)
  then have ne: "dropWhile ?P (pairs n) \<noteq> []"
    by (auto simp: dropWhile_eq_Nil_conv)
  then have "\<not> ?P (hd (dropWhile ?P (pairs n)))" by (rule hd_dropWhile)
  then have "hd (dropWhile ?P (pairs n)) = (i, j)" by simp
  with ne have "dropWhile ?P (pairs n) = (i, j) # tl (dropWhile ?P (pairs n))"
    by (metis list.collapse)
  then have "pairs n = takeWhile ?P (pairs n) @ (i, j) # tl (dropWhile ?P (pairs n))"
    by (metis takeWhile_dropWhile_id)
  then show ?thesis by (rule that)
qed

lemma ionic_step_here:
  assumes "can_bond st i j" and "deltaEN (chem_atoms st ! i) (chem_atoms st ! j) > 1.7"
    and "temp < meanMP (chem_atoms st ! i) (chem_atoms st ! j)"
  shows "chem_pair var temp uuid (i, j) st = ionic_step var uuid i j st"
  using assms by (simp add: chem_pair_eq)

text \<open>
  Claim C5, amended. Atoms with pairwise different ids; a pair \<open>i < j\<close> of the list that
  no bond joins when the engine fires, closer than the formation distance, with an
  electronegativity difference above 1.7, at a temperature below the mean melting point of
  the pair, and with both atoms below their valence capacity when the scan reaches the
  pair (bonds formed earlier in the same firing count). After the firing exactly one bond
  joins the two atoms; it is ionic, of order 1, of the ionic strength and of the rest
  length of the body; the atom of lower electronegativity has charge +1 and the other
  charge -1.
\<close>

theorem ionic_formation:
  assumes "distinct (map atom_id as)" and "i < j" and "j < length as"
    and "between active (atom_id (as ! i)) (atom_id (as ! j)) = []"
    and "distanceTo (position (as ! i)) (position (as ! j))
           < (radius (as ! i) + radius (as ! j)) * BOND_FORM_RADIUS"
    and "deltaEN (as ! i) (as ! j) > 1.7"
    and "temp < meanMP (as ! i) (as ! j)"
    and "currentBonds (newBonds (reached var temp uuid (chem_init as active) i j))
           (atom_id (as ! i)) < maxBonds (ATOM_CONFIGS (atom_type (as ! i)))"
    and "currentBonds (newBonds (reached var temp uuid (chem_init as active) i j))
           (atom_id (as ! j)) < maxBonds (ATOM_CONFIGS (atom_type (as ! j)))"
  shows "\<exists>b. between (newBonds (chemistry var temp uuid (chem_init as active)))
               (atom_id (as ! i)) (atom_id (as ! j)) = [b]
             \<and> bond_type b = ionic \<and> bond_order b = 1 \<and> strength b = BOND_STRENGTH_IONIC
             \<and> restLength b = ionicRestLength var (as ! i) (as ! j)
             \<and> charge (chem_atoms (chemistry var temp uuid (chem_init as active)) ! i)
                 = (if EN (as ! i) < EN (as ! j) then 1 else -1)
             \<and> charge (chem_atoms (chemistry var temp uuid (chem_init as active)) ! j)
                 = (if EN (as ! i) < EN (as ! j) then -1 else 1)"
proof -
  let ?st0 = "chem_init as active"
  let ?n = "length as"
  let ?ps1 = "takeWhile (\<lambda>p. p \<noteq> (i, j)) (pairs ?n)"
  let ?st1 = "reached var temp uuid ?st0 i j"
  let ?x = "atom_id (as ! i)" and ?y = "atom_id (as ! j)"
  have i_len: "i < ?n" using assms(2,3) by simp
  have st0: "chem_atoms ?st0 = as" "newBonds ?st0 = active" by (simp_all add: chem_init_def)
  obtain ps2 where split: "pairs ?n = ?ps1 @ (i, j) # ps2"
    using pairs_split [OF assms(2,3)] by blast
  have st1: "?st1 = fold (chem_pair var temp uuid) ?ps1 ?st0"
    by (simp add: reached_def st0)
  have out: "chemistry var temp uuid ?st0
               = fold (chem_pair var temp uuid) ps2 (chem_pair var temp uuid (i, j) ?st1)"
  proof -
    have "chemistry var temp uuid ?st0 = fold (chem_pair var temp uuid) (pairs ?n) ?st0"
      by (simp add: chemistry_def st0)
    also have "\<dots> = fold (chem_pair var temp uuid) (?ps1 @ (i, j) # ps2) ?st0"
      using split by simp
    finally show ?thesis by (simp add: st1)
  qed
  \<comment> \<open>the atoms when the scan reaches the pair\<close>
  have unch: "map uncharged (chem_atoms ?st1) = map uncharged as"
    by (simp add: st1 fold_chem_uncharged st0)
  have len1: "length (chem_atoms ?st1) = ?n"
    using unch by (metis length_map)
  note fi = uncharged_fields [OF map_eq_nth [OF unch i_len]]
  note fj = uncharged_fields [OF map_eq_nth [OF unch assms(3)]]
  \<comment> \<open>no bond joins the pair when the scan reaches it\<close>
  have before: "\<forall>(k, l) \<in> set ?ps1. k < l \<and> l < length (chem_atoms ?st0) \<and> (k, l) \<noteq> (i, j)"
  proof -
    have "\<And>p. p \<in> set ?ps1 \<Longrightarrow> p \<in> set (pairs ?n) \<and> p \<noteq> (i, j)"
      by (metis set_takeWhileD)
    then show ?thesis by (auto simp: pairs_mem st0)
  qed
  have d0: "distinct (map atom_id (chem_atoms ?st0))" using assms(1) by (simp add: st0)
  have j0: "j < length (chem_atoms ?st0)" using assms(3) by (simp add: st0)
  have btw1: "between (newBonds ?st1) ?x ?y = []"
    using fold_between_before [OF d0 before assms(2) j0, of var temp uuid] assms(4)
    by (simp add: st1 st0)
  \<comment> \<open>the step at the pair forms the ionic bond\<close>
  have cb: "can_bond ?st1 i j"
    using assms(5,8,9) btw1 fi fj by (simp add: can_bond_def existingBond_between)
  have dEN: "deltaEN (chem_atoms ?st1 ! i) (chem_atoms ?st1 ! j) > 1.7"
    using assms(6) fi(5) fj(5) by (simp add: deltaEN_def)
  have mp: "temp < meanMP (chem_atoms ?st1 ! i) (chem_atoms ?st1 ! j)"
    using assms(7) fi(3) fj(3) by (simp add: meanMP_def)
  let ?st2 = "ionic_step var uuid i j ?st1"
  let ?b = "mkBond (uuid (drawn ?st1)) ?x ?y BOND_STRENGTH_IONIC
              (ionicRestLength var (as ! i) (as ! j)) ionic 1"
  have st2: "chem_pair var temp uuid (i, j) ?st1 = ?st2"
    by (rule ionic_step_here [OF cb dEN mp])
  have rl: "ionicRestLength var (chem_atoms ?st1 ! i) (chem_atoms ?st1 ! j)
              = ionicRestLength var (as ! i) (as ! j)"
    using fi(2) fj(2) by (cases var) simp_all
  have nb2: "newBonds ?st2 = newBonds ?st1 @ [?b]"
    by (simp add: ionic_step_sel fi(4) fj(4) rl)
  have btw2: "between (newBonds ?st2) ?x ?y = [?b]"
    using btw1 by (simp add: nb2 between_snoc)
  have len2: "length (chem_atoms ?st2) = ?n" by (simp add: ionic_step_sel len1)
  have ij: "i \<noteq> j" using assms(2) by simp
  have df: "donor_first (chem_atoms ?st1 ! i) (chem_atoms ?st1 ! j) = (EN (as ! i) < EN (as ! j))"
    by (simp add: donor_first_def EN_def fi(5) fj(5))
  have ch2: "charge (chem_atoms ?st2 ! i) = (if EN (as ! i) < EN (as ! j) then 1 else -1)"
    "charge (chem_atoms ?st2 ! j) = (if EN (as ! i) < EN (as ! j) then -1 else 1)"
    using ij i_len assms(3) by (simp_all add: ionic_step_sel df nth_update2 len1)
  have ty2: "atom_type (chem_atoms ?st2 ! i) = atom_type (as ! i)"
    "atom_type (chem_atoms ?st2 ! j) = atom_type (as ! j)"
    using chem_pair_type [of i ?st1 var temp uuid i j] chem_pair_type [of j ?st1 var temp uuid i j]
      i_len assms(3) by (simp_all add: st2 len1 fi(5) fj(5))
  \<comment> \<open>the rest of the scan keeps the bond and the charges\<close>
  have rest: "\<forall>(k, l) \<in> set ps2. k \<noteq> l"
  proof -
    have "set ps2 \<subseteq> set (pairs ?n)" using split by (metis set_append set_subset_Cons
          le_supI2 list.set_intros(2) subsetI Un_iff)
    then show ?thesis by (auto simp: pairs_mem)
  qed
  have btw3: "between (newBonds (chemistry var temp uuid ?st0)) ?x ?y = [?b]"
    using fold_between_kept [of ?st2 ?x ?y var temp uuid ps2] btw2 by (simp add: out st2)
  note bi = can_bond_EN(1,2) [OF cb] and bj = can_bond_EN(3,4) [OF cb]
  have eni: "EN (chem_atoms ?st1 ! i) = EN (as ! i)" and enj: "EN (chem_atoms ?st1 ! j) = EN (as ! j)"
    by (simp_all add: EN_def fi(5) fj(5))
  have gap: "\<bar>EN (as ! i) - EN (as ! j)\<bar> > 1.7"
    using assms(6) by (simp add: deltaEN_def EN_def)
  have en2: "EN (chem_atoms ?st2 ! i) = EN (as ! i)" "EN (chem_atoms ?st2 ! j) = EN (as ! j)"
    by (simp_all add: EN_def ty2)
  have ch3: "charge (chem_atoms (chemistry var temp uuid ?st0) ! i)
               = (if EN (as ! i) < EN (as ! j) then 1 else -1)"
    "charge (chem_atoms (chemistry var temp uuid ?st0) ! j)
               = (if EN (as ! i) < EN (as ! j) then -1 else 1)"
  proof -
    have il2: "i < length (chem_atoms ?st2)" and jl2: "j < length (chem_atoms ?st2)"
      using i_len assms(3) len2 by simp_all
    show "charge (chem_atoms (chemistry var temp uuid ?st0) ! i)
               = (if EN (as ! i) < EN (as ! j) then 1 else -1)"
    proof (cases "EN (as ! i) < EN (as ! j)")
      case True
      then have lo: "EN (chem_atoms ?st2 ! i) < 2.28"
        using gap bj eni enj en2 by simp
      have c: "charge (chem_atoms ?st2 ! i) = 1" using True ch2(1) by simp
      show ?thesis
        using fold_chem_donor [OF il2 rest c lo, of var temp uuid] True
        by (simp add: out st2)
    next
      case False
      then have hi: "EN (chem_atoms ?st2 ! i) > 2.63"
        using gap bj eni enj en2 by simp
      have c: "charge (chem_atoms ?st2 ! i) = -1" using False ch2(1) by simp
      show ?thesis
        using fold_chem_acceptor [OF il2 rest c hi, of var temp uuid] False
        by (simp add: out st2)
    qed
    show "charge (chem_atoms (chemistry var temp uuid ?st0) ! j)
               = (if EN (as ! i) < EN (as ! j) then -1 else 1)"
    proof (cases "EN (as ! i) < EN (as ! j)")
      case True
      then have hi: "EN (chem_atoms ?st2 ! j) > 2.63"
        using gap bi eni enj en2 by simp
      have c: "charge (chem_atoms ?st2 ! j) = -1" using True ch2(2) by simp
      show ?thesis
        using fold_chem_acceptor [OF jl2 rest c hi, of var temp uuid] True
        by (simp add: out st2)
    next
      case False
      then have lo: "EN (chem_atoms ?st2 ! j) < 2.28"
        using gap bi eni enj en2 by simp
      have c: "charge (chem_atoms ?st2 ! j) = 1" using False ch2(2) by simp
      show ?thesis
        using fold_chem_donor [OF jl2 rest c lo, of var temp uuid] False
        by (simp add: out st2)
    qed
  qed
  show ?thesis
    using btw3 ch3 by simp
qed

lemma chem_salt3:
  "newBonds (chemistry var 2 ids_b (chem_init [salt_p1, salt_p2, salt_p3] []))
     = [mkBond (ids_b 0) ''p1'' ''p2'' BOND_STRENGTH_IONIC
          (ionicRestLength var salt_p1 salt_p2) ionic 1]"
  by (simp add: chemistry_def chem_init_def pairs_3 chem_pair_def Let_def salt_sel
      currentBonds_def existingBond_def distanceTo_x BOND_FORM_RADIUS_def)

lemma salt13_conditions:
  "distanceTo (position salt_p1) (position salt_p3)
     < (radius salt_p1 + radius salt_p3) * BOND_FORM_RADIUS"
  "deltaEN salt_p1 salt_p3 > 1.7" "2 < meanMP salt_p1 salt_p3"
  "currentBonds [] (atom_id salt_p1) < maxBonds (ATOM_CONFIGS (atom_type salt_p1))"
  "currentBonds [] (atom_id salt_p3) < maxBonds (ATOM_CONFIGS (atom_type salt_p3))"
  by (simp_all add: salt_sel distanceTo_x BOND_FORM_RADIUS_def deltaEN_def meanMP_def
      currentBonds_def)

text \<open>
  Claim C5 as stated fails when an earlier pair of the same firing uses up the valence. A
  sodium ion with a chlorine on each side, temperature 2, no bond: the sodium and the
  second chlorine are unbonded, within the formation distance, 2.23 apart in
  electronegativity, below their mean melting point 2.7, and both have free valence and a
  capacity of 1 when the engine fires; after the firing no bond joins them, because the
  sodium has bonded to the first chlorine.
\<close>

theorem ionic_formation_counterexample:
  "distinct (map atom_id [salt_p1, salt_p2, salt_p3])
   \<and> between [] (atom_id salt_p1) (atom_id salt_p3) = []
   \<and> distanceTo (position salt_p1) (position salt_p3)
       < (radius salt_p1 + radius salt_p3) * BOND_FORM_RADIUS
   \<and> deltaEN salt_p1 salt_p3 > 1.7
   \<and> 2 < meanMP salt_p1 salt_p3
   \<and> currentBonds [] (atom_id salt_p1) < maxBonds (ATOM_CONFIGS (atom_type salt_p1))
   \<and> currentBonds [] (atom_id salt_p3) < maxBonds (ATOM_CONFIGS (atom_type salt_p3))
   \<and> between (newBonds (chemistry First 2 ids_b (chem_init [salt_p1, salt_p2, salt_p3] [])))
        (atom_id salt_p1) (atom_id salt_p3) = []"
  using salt13_conditions
  by (simp add: chem_salt3 between_def salt_sel)

lemma salt12_conditions:
  "distinct (map atom_id [salt_p1, salt_p2])"
  "between [] (atom_id ([salt_p1, salt_p2] ! 0)) (atom_id ([salt_p1, salt_p2] ! 1)) = []"
  "distanceTo (position ([salt_p1, salt_p2] ! 0)) (position ([salt_p1, salt_p2] ! 1))
     < (radius ([salt_p1, salt_p2] ! 0) + radius ([salt_p1, salt_p2] ! 1)) * BOND_FORM_RADIUS"
  "deltaEN ([salt_p1, salt_p2] ! 0) ([salt_p1, salt_p2] ! 1) > 1.7"
  "2 < meanMP ([salt_p1, salt_p2] ! 0) ([salt_p1, salt_p2] ! 1)"
  by (simp_all add: salt_sel distanceTo_x BOND_FORM_RADIUS_def deltaEN_def meanMP_def
      between_def)

lemma salt12_free:
  "currentBonds (newBonds (reached First 2 ids_b (chem_init [salt_p1, salt_p2] []) 0 1))
     (atom_id ([salt_p1, salt_p2] ! 0))
     < maxBonds (ATOM_CONFIGS (atom_type ([salt_p1, salt_p2] ! 0)))"
  "currentBonds (newBonds (reached First 2 ids_b (chem_init [salt_p1, salt_p2] []) 0 1))
     (atom_id ([salt_p1, salt_p2] ! 1))
     < maxBonds (ATOM_CONFIGS (atom_type ([salt_p1, salt_p2] ! 1)))"
  by (simp_all add: reached_def chem_init_def pairs_2 currentBonds_def salt_sel)

text \<open>The sodium ion and one chlorine ion alone, temperature 2, first body.\<close>

theorem ionic_formation_witness:
  "distinct (map atom_id [salt_p1, salt_p2])
   \<and> between [] (atom_id salt_p1) (atom_id salt_p2) = []
   \<and> deltaEN salt_p1 salt_p2 > 1.7
   \<and> 2 < meanMP salt_p1 salt_p2
   \<and> length (between (newBonds (chemistry First 2 ids_b (chem_init [salt_p1, salt_p2] [])))
               (atom_id salt_p1) (atom_id salt_p2)) = 1
   \<and> charge (chem_atoms (chemistry First 2 ids_b (chem_init [salt_p1, salt_p2] [])) ! 0) = 1
   \<and> charge (chem_atoms (chemistry First 2 ids_b (chem_init [salt_p1, salt_p2] [])) ! 1) = -1"
proof -
  have lt: "(0::nat) < 1" "(1::nat) < length [salt_p1, salt_p2]" by simp_all
  have en: "EN salt_p1 < EN salt_p2" by (simp add: EN_def salt_sel)
  from ionic_formation [OF salt12_conditions(1) lt salt12_conditions(2-5) salt12_free]
  obtain b where
    "between (newBonds (chemistry First 2 ids_b (chem_init [salt_p1, salt_p2] [])))
       (atom_id ([salt_p1, salt_p2] ! 0)) (atom_id ([salt_p1, salt_p2] ! 1)) = [b]"
    "charge (chem_atoms (chemistry First 2 ids_b (chem_init [salt_p1, salt_p2] [])) ! 0)
       = (if EN ([salt_p1, salt_p2] ! 0) < EN ([salt_p1, salt_p2] ! 1) then 1 else -1)"
    "charge (chem_atoms (chemistry First 2 ids_b (chem_init [salt_p1, salt_p2] [])) ! 1)
       = (if EN ([salt_p1, salt_p2] ! 0) < EN ([salt_p1, salt_p2] ! 1) then -1 else 1)"
    by blast
  with en salt12_conditions show ?thesis by simp
qed

section \<open>The stages of a tick\<close>

text \<open>What the state after \<open>useFrame\<close> holds, in terms of the stages.\<close>

lemma useFrame_running:
  "isRunning s \<Longrightarrow>
   fst (useFrame var vp rnd uuid delta (s, cd))
     = commit s (activeBonds var vp rnd s) (stage_photons var vp rnd uuid delta s cd)
         (stage_atoms var vp rnd uuid delta s cd)"
  by (simp add: useFrame_def)

lemma commit_atoms: "atoms (commit s active ph moved) = moved"
  by (simp add: commit_def)


lemma useFrame_bonds:
  "isRunning s \<Longrightarrow>
   bonds (fst (useFrame var vp rnd uuid delta (s, cd)))
     = (if length (activeBonds var vp rnd s)
             \<noteq> length (ph_bonds (stage_photons var vp rnd uuid delta s cd))
           \<or> length (survivingPhotons (stage_photons var vp rnd uuid delta s cd))
             \<noteq> length (photons s)
           \<or> ph_changed (stage_photons var vp rnd uuid delta s cd)
        then ph_bonds (stage_photons var vp rnd uuid delta s cd) else bonds s)"
  by (simp add: useFrame_running commit_bonds)


lemma stage_chem_atoms:
  "map atom_id (chem_atoms (stage_chem var vp rnd uuid delta s cd)) = map atom_id (atoms s)"
  "map atom_type (chem_atoms (stage_chem var vp rnd uuid delta s cd)) = map atom_type (atoms s)"
  "length (chem_atoms (stage_chem var vp rnd uuid delta s cd)) = length (atoms s)"
  by (simp_all add: stage_chem_def Let_def chemistry_def fold_chem_atoms chem_init_def)




text \<open>Evaluation of the stages on the concrete states.\<close>

lemma bond_callback_fst:
  "fst (bond_callback var as temp rnd b (F, k)) = fst (bond_callback var as temp rnd b (G, k))"
  by (simp add: bond_callback_def Let_def case_prod_beta split: option.splits)

lemma activeBonds_single:
  "bonds s = [b] \<Longrightarrow>
   activeBonds var vp rnd s
     = (if fst (bond_callback var (atoms s) (temperature s) rnd b (zeroForces, 0))
        then [b] else [])"
  using bond_callback_fst [of var "atoms s" "temperature s" rnd b "stage_forces var vp s" 0
      zeroForces]
  by (simp add: activeBonds_def stage_bonds_def case_prod_beta)

lemma activeBonds_none: "bonds s = [] \<Longrightarrow> activeBonds var vp rnd s = []"
  by (simp add: activeBonds_def stage_bonds_def)

lemma frame_dt_demo: "timeScale s = 1 \<Longrightarrow> frame_dt s dt_demo = dt_demo"
  by (simp add: frame_dt_def dt_demo_def)

lemma fires_demo: "timeScale s = 1 \<Longrightarrow> fires dt_demo s 0"
  by (simp add: fires_def frame_dt_demo) (simp add: dt_demo_def)

lemma far_logic:
  assumes "find (in_range as (photon_position (advance dt_demo far_photon))) bs = None"
  shows "ph_bonds (photon_logic as dt_demo [far_photon] bs F ch) = bs"
    and "survivingPhotons (photon_logic as dt_demo [far_photon] bs F ch) = []"
    and "ph_changed (photon_logic as dt_demo [far_photon] bs F ch) = ch"
proof -
  let ?st0 = "\<lparr>ph_bonds = bs, ph_forces = F, ph_changed = ch, survivingPhotons = []\<rparr>"
  have f: "find (in_range as (photon_position (advance dt_demo far_photon))) (ph_bonds ?st0)
             = None"
    using assms by simp
  show "ph_bonds (photon_logic as dt_demo [far_photon] bs F ch) = bs"
    by (simp add: photon_logic_def photon_step_miss(1) [OF f])
  show "survivingPhotons (photon_logic as dt_demo [far_photon] bs F ch) = []"
    by (simp add: photon_logic_def photon_step_miss(2) [OF f] cross_advance vlength_x)
  show "ph_changed (photon_logic as dt_demo [far_photon] bs F ch) = ch"
    by (simp add: photon_logic_def photon_step_miss(3) [OF f])
qed

lemma no_photon_logic:
  "ph_bonds (photon_logic as dt [] bs F ch) = bs"
  "survivingPhotons (photon_logic as dt [] bs F ch) = []"
  "ph_changed (photon_logic as dt [] bs F ch) = ch"
  by (simp_all add: photon_logic_def)

section \<open>Boundary reflection\<close>

lemma normalize_zero: "normalize (vec 0 0 0) = vec 0 0 0"
  by (simp add: normalize_def divideScalar_def multiplyScalar_def vlength_def)

lemma fast_euler:
  "euler 3 0.05 fast_atom (zeroForces (atom_id fast_atom)) (rnd_half 0) (rnd_half (0 + 1))
     (rnd_half (0 + 2)) = (vec 29.4 0 0, vec 90 0 0, vec 0 0 0)"
  by (simp add: euler_def damping_noise_def fast_atom_def rnd_half_def normalize_zero
      zeroForces_def multiplyScalar_def add_def divideScalar_def Let_def)

lemma integrate_atom_reflect:
  assumes "euler temp dt atom (fst Fn (atom_id atom)) (rnd (snd Fn)) (rnd (snd Fn + 1))
             (rnd (snd Fn + 2)) = (p1, v2, adt)"
  shows "position (fst (integrate_atom temp dt rnd atom Fn)) = fst (boundary p1 v2)"
    and "velocity (fst (integrate_atom temp dt rnd atom Fn)) = snd (boundary p1 v2)"
  using assms by (simp_all add: integrate_atom_def case_prod_beta)

lemma boundary_axes:
  "vx (fst (boundary p v)) = fst (reflect (vx p) (vx v))"
  "vy (fst (boundary p v)) = fst (reflect (vy p) (vy v))"
  "vz (fst (boundary p v)) = fst (reflect (vz p) (vz v))"
  "vx (snd (boundary p v)) = snd (reflect (vx p) (vx v))"
  "vy (snd (boundary p v)) = snd (reflect (vy p) (vy v))"
  "vz (snd (boundary p v)) = snd (reflect (vz p) (vz v))"
  by (simp_all add: boundary_def split: prod.splits)

lemma stage_atoms_nth:
  assumes "k < length (atoms s)"
    and "stage_euler var vp rnd uuid delta s cd k = (p1, v2, adt)"
  shows "position (stage_atoms var vp rnd uuid delta s cd ! k) = fst (boundary p1 v2)"
    and "velocity (stage_atoms var vp rnd uuid delta s cd ! k) = snd (boundary p1 v2)"
proof -
  let ?as = "chem_atoms (stage_chem var vp rnd uuid delta s cd)"
  let ?Fk = "(ph_forces (stage_photons var vp rnd uuid delta s cd),
              snd (snd (stage_bonds var vp rnd s)))"
  let ?Fn = "snd (integrate_all (temperature s) (frame_dt s delta) rnd (take k ?as) ?Fk)"
  have k: "k < length ?as" using assms(1) by (simp add: stage_chem_atoms)
  have e: "euler (temperature s) (frame_dt s delta) (?as ! k) (fst ?Fn (atom_id (?as ! k)))
             (rnd (snd ?Fn)) (rnd (snd ?Fn + 1)) (rnd (snd ?Fn + 2)) = (p1, v2, adt)"
    using assms(2) by (simp add: stage_euler_def Let_def)
  have n: "stage_atoms var vp rnd uuid delta s cd ! k
             = fst (integrate_atom (temperature s) (frame_dt s delta) rnd (?as ! k) ?Fn)"
    using integrate_all_nth [OF k, of "temperature s" "frame_dt s delta" rnd ?Fk]
    by (simp add: stage_atoms_def)
  show "position (stage_atoms var vp rnd uuid delta s cd ! k) = fst (boundary p1 v2)"
    unfolding n by (rule integrate_atom_reflect(1) [OF e])
  show "velocity (stage_atoms var vp rnd uuid delta s cd ! k) = snd (boundary p1 v2)"
    unfolding n by (rule integrate_atom_reflect(2) [OF e])
qed

text \<open>
  Claim C9. In a tick of a running simulation, in both bodies of the loop, let \<open>p1\<close> and
  \<open>v2\<close> be the position and the velocity the integration loop holds for the \<open>k\<close>-th atom
  after its Euler step. The state after \<open>useFrame\<close> has as many atoms as the state before,
  and on every axis on which the component of \<open>p1\<close> exceeds \<open>CONTAINER_SIZE\<close> in absolute
  value, the position of its \<open>k\<close>-th atom is \<open>CONTAINER_SIZE\<close> with the sign of that
  component and the velocity of its \<open>k\<close>-th atom is \<open>-0.5\<close> times the component of \<open>v2\<close>.
\<close>

theorem boundary_reflection:
  assumes "isRunning s" and "k < length (atoms s)"
    and "stage_euler var vortexPos rnd uuid delta s cd k = (p1, v2, adt)"
  shows "length (atoms (fst (useFrame var vortexPos rnd uuid delta (s, cd)))) = length (atoms s)
       \<and> (\<bar>vx p1\<bar> > CONTAINER_SIZE \<longrightarrow>
            vx (position (atoms (fst (useFrame var vortexPos rnd uuid delta (s, cd))) ! k))
              = sgn (vx p1) * CONTAINER_SIZE
          \<and> \<bar>vx (position (atoms (fst (useFrame var vortexPos rnd uuid delta (s, cd))) ! k))\<bar>
              = CONTAINER_SIZE
          \<and> vx (velocity (atoms (fst (useFrame var vortexPos rnd uuid delta (s, cd))) ! k))
              = - 0.5 * vx v2)
       \<and> (\<bar>vy p1\<bar> > CONTAINER_SIZE \<longrightarrow>
            vy (position (atoms (fst (useFrame var vortexPos rnd uuid delta (s, cd))) ! k))
              = sgn (vy p1) * CONTAINER_SIZE
          \<and> \<bar>vy (position (atoms (fst (useFrame var vortexPos rnd uuid delta (s, cd))) ! k))\<bar>
              = CONTAINER_SIZE
          \<and> vy (velocity (atoms (fst (useFrame var vortexPos rnd uuid delta (s, cd))) ! k))
              = - 0.5 * vy v2)
       \<and> (\<bar>vz p1\<bar> > CONTAINER_SIZE \<longrightarrow>
            vz (position (atoms (fst (useFrame var vortexPos rnd uuid delta (s, cd))) ! k))
              = sgn (vz p1) * CONTAINER_SIZE
          \<and> \<bar>vz (position (atoms (fst (useFrame var vortexPos rnd uuid delta (s, cd))) ! k))\<bar>
              = CONTAINER_SIZE
          \<and> vz (velocity (atoms (fst (useFrame var vortexPos rnd uuid delta (s, cd))) ! k))
              = - 0.5 * vz v2)"
proof -
  have a: "atoms (fst (useFrame var vortexPos rnd uuid delta (s, cd)))
             = stage_atoms var vortexPos rnd uuid delta s cd"
    using assms(1) by (simp add: useFrame_running commit_atoms)
  have len: "length (stage_atoms var vortexPos rnd uuid delta s cd) = length (atoms s)"
    by (simp add: stage_atoms_def integrate_all_length stage_chem_atoms)
  note n = stage_atoms_nth [OF assms(2,3)]
  show ?thesis
    unfolding a n boundary_axes using len
    by (auto simp: reflect_def CONTAINER_SIZE_def abs_mult)
qed

lemma fast_sel:
  "atoms fast_state = [fast_atom]" "bonds fast_state = []" "photons fast_state = []"
  "temperature fast_state = 3" "isRunning fast_state" "timeScale fast_state = 1"
  "magneticField fast_state = vec 0 0 0"
  by (simp_all add: fast_state_def INITIAL_STATE_def)

lemma fast_dt: "frame_dt fast_state dt_cap = 0.05"
  by (simp add: frame_dt_def fast_sel dt_cap_def)

lemma fast_forces: "stage_forces First None fast_state = zeroForces"
  by (simp add: stage_forces_def fast_sel vortex_forces_def lorentz_step_def lengthSq_def)

lemma fast_stage_euler:
  "stage_euler First None rnd_half ids_b dt_cap fast_state 0 0
     = (vec 29.4 0 0, vec 90 0 0, vec 0 0 0)"
  using fast_euler
  by (simp add: stage_euler_def Let_def stage_chem_def chemistry_def chem_init_def pairs_def
      fast_sel fast_dt stage_photons_def photon_logic_def stage_bonds_def fast_forces
      activeBonds_def)

text \<open>
  One frame of 50 ms on the state that holds a sodium atom at \<open>x = 24.9\<close> with velocity
  100, temperature 3, no force and no noise: the Euler step gives \<open>x = 29.4\<close> and velocity
  90, and the atom of the state after \<open>useFrame\<close> is at \<open>x = 25\<close> with velocity -45.
\<close>

theorem boundary_reflection_witness:
  "isRunning fast_state \<and> 0 < length (atoms fast_state)
   \<and> stage_euler First None rnd_half ids_b dt_cap fast_state 0 0
       = (vec 29.4 0 0, vec 90 0 0, vec 0 0 0)
   \<and> \<bar>vx (vec 29.4 0 0)\<bar> > CONTAINER_SIZE
   \<and> vx (position (atoms (fst (useFrame First None rnd_half ids_b dt_cap (fast_state, 0))) ! 0))
       = 25
   \<and> vx (velocity (atoms (fst (useFrame First None rnd_half ids_b dt_cap (fast_state, 0))) ! 0))
       = - 45"
proof -
  have h1: "isRunning fast_state" and h2: "0 < length (atoms fast_state)"
    by (simp_all add: fast_sel)
  note T = boundary_reflection [where var = First and vortexPos = None and rnd = rnd_half
      and uuid = ids_b and delta = dt_cap and cd = 0, OF h1 h2 fast_stage_euler]
  show ?thesis
    using T h1 h2 fast_stage_euler by (simp add: CONTAINER_SIZE_def)
qed

section \<open>The two bodies disagree\<close>

lemma chem_salt:
  "newBonds (chemistry var 2 ids_b (chem_init [salt_p1, salt_p2] []))
     = [mkBond (ids_b 0) ''p1'' ''p2'' BOND_STRENGTH_IONIC
          (ionicRestLength var salt_p1 salt_p2) ionic 1]"
  by (simp add: chemistry_def chem_init_def pairs_2 chem_pair_def Let_def salt_sel
      currentBonds_def existingBond_def distanceTo_x BOND_FORM_RADIUS_def)

lemma chem_hyd:
  "newBonds (chemistry var (1 / 2) ids_b (chem_init [hyd_1, hyd_2] []))
     = [mkBond (ids_b 0) ''h1'' ''h2'' BOND_STRENGTH_COVALENT
          (covalentRestLength var hyd_1 hyd_2) covalent 1]"
  by (simp add: chemistry_def chem_init_def pairs_2 chem_pair_def Let_def hyd_sel
      currentBonds_def existingBond_def distanceTo_x BOND_FORM_RADIUS_def)

subsection \<open>The salt bond at temperature 3.3\<close>

lemma melt_sel:
  "atoms melt_state = [salt_p1, salt_p2]" "bonds melt_state = [salt_bond]"
  "photons melt_state = [far_photon]" "temperature melt_state = 3.3"
  "isRunning melt_state" "timeScale melt_state = 1"
  by (simp_all add: melt_state_def INITIAL_STATE_def)

lemma melt_active:
  "activeBonds First vp rnd_low melt_state = [salt_bond]"
  "activeBonds Second vp rnd_low melt_state = []"
  using salt_keep_first salt_break_second
  by (simp_all add: activeBonds_single [OF melt_sel(2)] melt_sel)

lemma salt_far:
  "find (in_range [salt_p1, salt_p2] (photon_position (advance dt_demo far_photon))) [salt_bond]
     = None"
  by (simp add: cross_advance in_range_def salt_bond_sel salt_find bondCenter_def
      addVectors_def multiplyScalar_def salt_sel distanceTo_x)

lemma salt_full:
  "chemistry var temp uuid (chem_init [salt_p1, salt_p2] [salt_bond])
     = chem_init [salt_p1, salt_p2] [salt_bond]"
  by (simp add: chemistry_def chem_init_def pairs_2 chem_pair_def Let_def salt_sel
      currentBonds_def salt_bond_sel)

lemma salt_hot:
  "chemistry var 3.3 uuid (chem_init [salt_p1, salt_p2] [])
     = chem_init [salt_p1, salt_p2] []"
  by (simp add: chemistry_def chem_init_def pairs_2 chem_pair_def Let_def salt_sel
      currentBonds_def existingBond_def distanceTo_x BOND_FORM_RADIUS_def)

lemma melt_chem:
  "stage_chem First vp rnd_low uuid dt_demo melt_state 0 = chem_init [salt_p1, salt_p2] [salt_bond]"
  "stage_chem Second vp rnd_low uuid dt_demo melt_state 0 = chem_init [salt_p1, salt_p2] []"
  using salt_hot [of Second uuid]
  by (simp_all add: stage_chem_def Let_def melt_active fires_demo melt_sel salt_full)

lemma melt_photons:
  "ph_bonds (stage_photons First vp rnd_low uuid dt_demo melt_state 0) = [salt_bond]"
  "survivingPhotons (stage_photons First vp rnd_low uuid dt_demo melt_state 0) = []"
  "ph_bonds (stage_photons Second vp rnd_low uuid dt_demo melt_state 0) = []"
  "survivingPhotons (stage_photons Second vp rnd_low uuid dt_demo melt_state 0) = []"
  by (simp_all add: stage_photons_def Let_def melt_chem chem_init_def frame_dt_demo melt_sel
      far_logic [OF salt_far] far_logic(1,2) [of _ "[]"])

lemma melt_bonds:
  "bonds (fst (useFrame First vp rnd_low uuid dt_demo (melt_state, 0))) = [salt_bond]"
  "bonds (fst (useFrame Second vp rnd_low uuid dt_demo (melt_state, 0))) = []"
  by (simp_all add: useFrame_bonds melt_sel melt_photons)

subsection \<open>The hydrogen bond at temperature 10\<close>

lemma heat_sel:
  "atoms heat_state = [hyd_1, hyd_2]" "bonds heat_state = [hh_bond]"
  "photons heat_state = [far_photon]" "temperature heat_state = 10"
  "isRunning heat_state" "timeScale heat_state = 1"
  by (simp_all add: heat_state_def INITIAL_STATE_def)

lemma heat_active:
  "activeBonds First vp rnd_low heat_state = []"
  "activeBonds Second vp rnd_low heat_state = [hh_bond]"
  using hh_break_first hh_keep_second
  by (simp_all add: activeBonds_single [OF heat_sel(2)] heat_sel)

lemma hyd_far:
  "find (in_range [hyd_1, hyd_2] (photon_position (advance dt_demo far_photon))) [hh_bond]
     = None"
  by (simp add: cross_advance in_range_def hh_bond_sel hyd_find bondCenter_def
      addVectors_def multiplyScalar_def hyd_sel distanceTo_x)

lemma hyd_full:
  "chemistry var temp uuid (chem_init [hyd_1, hyd_2] [hh_bond])
     = chem_init [hyd_1, hyd_2] [hh_bond]"
  by (simp add: chemistry_def chem_init_def pairs_2 chem_pair_def Let_def hyd_sel
      currentBonds_def hh_bond_sel)

lemma hyd_hot:
  "chemistry var 10 uuid (chem_init [hyd_1, hyd_2] []) = chem_init [hyd_1, hyd_2] []"
  by (simp add: chemistry_def chem_init_def pairs_2 chem_pair_def Let_def hyd_sel
      currentBonds_def existingBond_def distanceTo_x BOND_FORM_RADIUS_def)

lemma heat_chem:
  "stage_chem First vp rnd_low uuid dt_demo heat_state 0 = chem_init [hyd_1, hyd_2] []"
  "stage_chem Second vp rnd_low uuid dt_demo heat_state 0 = chem_init [hyd_1, hyd_2] [hh_bond]"
  using hyd_hot [of First uuid]
  by (simp_all add: stage_chem_def Let_def heat_active fires_demo heat_sel hyd_full)

lemma heat_photons:
  "ph_bonds (stage_photons First vp rnd_low uuid dt_demo heat_state 0) = []"
  "survivingPhotons (stage_photons First vp rnd_low uuid dt_demo heat_state 0) = []"
  "ph_bonds (stage_photons Second vp rnd_low uuid dt_demo heat_state 0) = [hh_bond]"
  "survivingPhotons (stage_photons Second vp rnd_low uuid dt_demo heat_state 0) = []"
  by (simp_all add: stage_photons_def Let_def heat_chem chem_init_def frame_dt_demo heat_sel
      far_logic [OF hyd_far] far_logic(1,2) [of _ "[]"])

lemma heat_bonds:
  "bonds (fst (useFrame First vp rnd_low uuid dt_demo (heat_state, 0))) = []"
  "bonds (fst (useFrame Second vp rnd_low uuid dt_demo (heat_state, 0))) = [hh_bond]"
  by (simp_all add: useFrame_bonds heat_sel heat_photons)

subsection \<open>The unbonded pairs\<close>

lemma pair_sel:
  "atoms pair_state = [salt_p1, salt_p2]" "bonds pair_state = []"
  "photons pair_state = []" "temperature pair_state = 2"
  "isRunning pair_state" "timeScale pair_state = 1"
  by (simp_all add: pair_state_def INITIAL_STATE_def)

lemma pair_bonds:
  "bonds (fst (useFrame var vp rnd ids_b dt_demo (pair_state, 0)))
     = [mkBond (ids_b 0) ''p1'' ''p2'' BOND_STRENGTH_IONIC
          (ionicRestLength var salt_p1 salt_p2) ionic 1]"
  by (simp add: useFrame_bonds pair_sel stage_photons_def Let_def no_photon_logic
      stage_chem_def fires_demo activeBonds_none chem_salt)

lemma hyd_state_sel:
  "atoms hyd_state = [hyd_1, hyd_2]" "bonds hyd_state = []"
  "photons hyd_state = []" "temperature hyd_state = 1 / 2"
  "isRunning hyd_state" "timeScale hyd_state = 1"
  by (simp_all add: hyd_state_def INITIAL_STATE_def)

lemma hyd_bonds:
  "bonds (fst (useFrame var vp rnd ids_b dt_demo (hyd_state, 0)))
     = [mkBond (ids_b 0) ''h1'' ''h2'' BOND_STRENGTH_COVALENT
          (covalentRestLength var hyd_1 hyd_2) covalent 1]"
  by (simp add: useFrame_bonds hyd_state_sel stage_photons_def Let_def no_photon_logic
      stage_chem_def fires_demo activeBonds_none chem_hyd)

text \<open>
  Claim C4. One tick of the first body and one tick of the second body, from the same
  state, with the same random values (all 0.01), the same identifiers and the same frame
  time, give different states. The salt bond at temperature 3.3: the state after the first
  body holds the bond, the state after the second body holds none. The hydrogen bond at
  temperature 10: the state after the first body holds no bond, the state after the second
  holds the bond. Two unbonded salt ions at temperature 2: the ionic bond in the state after
  the tick has rest length 0.75 of the radius sum in the first body and the radius sum in
  the second. Two unbonded hydrogen atoms at temperature 0.5: the covalent bond in the
  state after the tick has rest length 0.75 of the radius sum in the first body and 0.9 of
  it in the second.
\<close>

theorem variants_disagree:
  "bonds (fst (useFrame First None rnd_low ids_b dt_demo (melt_state, 0))) = [salt_bond]
   \<and> bonds (fst (useFrame Second None rnd_low ids_b dt_demo (melt_state, 0))) = []
   \<and> bonds (fst (useFrame First None rnd_low ids_b dt_demo (heat_state, 0))) = []
   \<and> bonds (fst (useFrame Second None rnd_low ids_b dt_demo (heat_state, 0))) = [hh_bond]
   \<and> map restLength (bonds (fst (useFrame First None rnd_low ids_b dt_demo (pair_state, 0))))
       = [(radius salt_p1 + radius salt_p2) * 0.75]
   \<and> map restLength (bonds (fst (useFrame Second None rnd_low ids_b dt_demo (pair_state, 0))))
       = [(radius salt_p1 + radius salt_p2) * 1.0]
   \<and> map restLength (bonds (fst (useFrame First None rnd_low ids_b dt_demo (hyd_state, 0))))
       = [(radius hyd_1 + radius hyd_2) * 0.75]
   \<and> map restLength (bonds (fst (useFrame Second None rnd_low ids_b dt_demo (hyd_state, 0))))
       = [(radius hyd_1 + radius hyd_2) * 0.9]
   \<and> useFrame First None rnd_low ids_b dt_demo (melt_state, 0)
       \<noteq> useFrame Second None rnd_low ids_b dt_demo (melt_state, 0)
   \<and> useFrame First None rnd_low ids_b dt_demo (heat_state, 0)
       \<noteq> useFrame Second None rnd_low ids_b dt_demo (heat_state, 0)
   \<and> useFrame First None rnd_low ids_b dt_demo (pair_state, 0)
       \<noteq> useFrame Second None rnd_low ids_b dt_demo (pair_state, 0)
   \<and> useFrame First None rnd_low ids_b dt_demo (hyd_state, 0)
       \<noteq> useFrame Second None rnd_low ids_b dt_demo (hyd_state, 0)"
proof -
  have ne: "\<And>x y. bonds (fst x) \<noteq> bonds (fst y) \<Longrightarrow> x \<noteq> y" by auto
  have n1: "useFrame First None rnd_low ids_b dt_demo (melt_state, 0)
       \<noteq> useFrame Second None rnd_low ids_b dt_demo (melt_state, 0)"
    by (rule ne) (simp add: melt_bonds)
  have n2: "useFrame First None rnd_low ids_b dt_demo (heat_state, 0)
       \<noteq> useFrame Second None rnd_low ids_b dt_demo (heat_state, 0)"
    by (rule ne) (simp add: heat_bonds)
  have n3: "useFrame First None rnd_low ids_b dt_demo (pair_state, 0)
       \<noteq> useFrame Second None rnd_low ids_b dt_demo (pair_state, 0)"
    by (rule ne) (simp add: pair_bonds salt_sel mkBond_def)
  have n4: "useFrame First None rnd_low ids_b dt_demo (hyd_state, 0)
       \<noteq> useFrame Second None rnd_low ids_b dt_demo (hyd_state, 0)"
    by (rule ne) (simp add: hyd_bonds hyd_sel mkBond_def)
  show ?thesis
    using n1 n2 n3 n4 by (simp add: melt_bonds heat_bonds pair_bonds hyd_bonds)
qed

section \<open>Photon consumption\<close>











section \<open>Valence\<close>

lemma salt_template_ids:
  "map atom_id (fst (projr (createMoleculeFromTemplate ''salt'' (vec 0 0 0) ids_a ids_b vels_zero)))
     = map ids_a [0, 1, 2, 3, 4, 5]"
  "map atom_type (fst (projr (createMoleculeFromTemplate ''salt'' (vec 0 0 0) ids_a ids_b vels_zero)))
     = [Sodium, Chlorine, Sodium, Chlorine, Sodium, Chlorine]"
  "map (\<lambda>b. (atomA b, atomB b))
      (snd (projr (createMoleculeFromTemplate ''salt'' (vec 0 0 0) ids_a ids_b vels_zero)))
     = [(ids_a 0, ids_a 1), (ids_a 2, ids_a 3), (ids_a 0, ids_a 2), (ids_a 1, ids_a 3),
        (ids_a 0, ids_a 5), (ids_a 1, ids_a 4)]"
  by (simp_all add: createMoleculeFromTemplate_def MOLECULE_TEMPLATES_def template_atoms_def
      template_bond_def tbond_def Let_def upt_rec eval_nat_numeral)

lemma salt_created:
  "\<exists>m. createMoleculeFromTemplate ''salt'' pos atomIds bondIds vels = Inr m"
  by (simp add: createMoleculeFromTemplate_def MOLECULE_TEMPLATES_def)

lemma salt_reset: "reset_salt ids_a ids_b vels_zero = Inr salt_state"
proof -
  from salt_created obtain m
    where "createMoleculeFromTemplate ''salt'' (vec 0 0 0) ids_a ids_b vels_zero = Inr m"
    by blast
  then show ?thesis by (simp add: salt_state_def reset_salt_def split: prod.splits)
qed

lemma salt_state_sel:
  "atoms salt_state
     = fst (projr (createMoleculeFromTemplate ''salt'' (vec 0 0 0) ids_a ids_b vels_zero))"
  "bonds salt_state
     = snd (projr (createMoleculeFromTemplate ''salt'' (vec 0 0 0) ids_a ids_b vels_zero))"
proof -
  from salt_created obtain m
    where m: "createMoleculeFromTemplate ''salt'' (vec 0 0 0) ids_a ids_b vels_zero = Inr m"
    by blast
  show "atoms salt_state
     = fst (projr (createMoleculeFromTemplate ''salt'' (vec 0 0 0) ids_a ids_b vels_zero))"
    by (simp add: m salt_state_def reset_salt_def INITIAL_STATE_def split: prod.splits)
  show "bonds salt_state
     = snd (projr (createMoleculeFromTemplate ''salt'' (vec 0 0 0) ids_a ids_b vels_zero))"
    by (simp add: m salt_state_def reset_salt_def INITIAL_STATE_def split: prod.splits)
qed

lemma salt_first:
  "atom_id (atoms salt_state ! 0) = ids_a 0" "atom_type (atoms salt_state ! 0) = Sodium"
proof -
  have "length (atoms salt_state) = 6"
    using arg_cong [OF salt_template_ids(2), of length] by (simp add: salt_state_sel)
  then have "0 < length (atoms salt_state)" by simp
  then have "map atom_id (atoms salt_state) ! 0 = atom_id (atoms salt_state ! 0)"
    "map atom_type (atoms salt_state) ! 0 = atom_type (atoms salt_state ! 0)"
    by simp_all
  then show "atom_id (atoms salt_state ! 0) = ids_a 0" "atom_type (atoms salt_state ! 0) = Sodium"
    by (simp_all add: salt_state_sel salt_template_ids)
qed

lemma salt_count: "currentBonds (bonds salt_state) (ids_a 0) = 3"
  by (simp add: currentBonds_ends salt_state_sel salt_template_ids)

lemma valence_ok_nth:
  "valence_ok as bs \<longleftrightarrow>
     (\<forall>k < length as. currentBonds bs (atom_id (as ! k))
                        \<le> maxBonds (ATOM_CONFIGS (atom_type (as ! k))))"
  by (simp add: valence_ok_def list_all_length)

lemma salt_template_caps:
  "map maxBonds (fst (projr (createMoleculeFromTemplate ''salt'' (vec 0 0 0) ids_a ids_b vels_zero)))
     = [1, 1, 1, 1, 1, 1]"
  by (simp add: createMoleculeFromTemplate_def MOLECULE_TEMPLATES_def template_atoms_def
      template_bond_def tbond_def Let_def upt_rec eval_nat_numeral)

lemma salt_first_cap: "maxBonds (atoms salt_state ! 0) = 1"
proof -
  have "length (atoms salt_state) = 6"
    using arg_cong [OF salt_template_ids(2), of length] by (simp add: salt_state_sel)
  then have "map maxBonds (atoms salt_state) ! 0 = maxBonds (atoms salt_state ! 0)"
    by simp
  then show ?thesis by (simp add: salt_state_sel salt_template_caps)
qed

lemma salt_not_ok: "\<not> valence_ok (atoms salt_state) (bonds salt_state)"
proof -
  have "length (atoms salt_state) = 6"
    using arg_cong [OF salt_template_ids(2), of length] by (simp add: salt_state_sel)
  then have "0 < length (atoms salt_state)" by simp
  moreover have "\<not> currentBonds (bonds salt_state) (atom_id (atoms salt_state ! 0))
                     \<le> maxBonds (ATOM_CONFIGS (atom_type (atoms salt_state ! 0)))"
    by (simp add: salt_first salt_count)
  ultimately show ?thesis unfolding valence_ok_nth by blast
qed

text \<open>
  Claim C1 as stated fails after a spawn: in the state \<open>resetSimulation('salt')\<close> builds
  from the salt template, the first atom is a sodium atom, whose capacity is 1 (in its own
  field and in \<open>ATOM_CONFIGS\<close>), and three bonds of the template are incident to it.
\<close>

theorem valence_counterexample:
  "reset_salt ids_a ids_b vels_zero = Inr salt_state
   \<and> atom_type (atoms salt_state ! 0) = Sodium
   \<and> maxBonds (atoms salt_state ! 0) = 1
   \<and> maxBonds (ATOM_CONFIGS (atom_type (atoms salt_state ! 0))) = 1
   \<and> currentBonds (bonds salt_state) (atom_id (atoms salt_state ! 0)) = 3
   \<and> \<not> valence_ok (atoms salt_state) (bonds salt_state)"
  using salt_not_ok by (simp add: salt_reset salt_first salt_count salt_first_cap)

subsection \<open>The tick\<close>

lemma valence_within_nth:
  "valence_within c0 as bs \<longleftrightarrow>
     (\<forall>k < length as. currentBonds bs (atom_id (as ! k))
                        \<le> max (maxBonds (ATOM_CONFIGS (atom_type (as ! k))))
                            (c0 (atom_id (as ! k))))"
  by (simp add: valence_within_def list_all_length)

lemma valence_ok_within: "valence_ok as bs = valence_within (\<lambda>i. 0) as bs"
  by (simp add: valence_ok_def valence_within_def)

lemma valence_within_cong:
  assumes "map atom_id as' = map atom_id as" and "map atom_type as' = map atom_type as"
  shows "valence_within c0 as' bs = valence_within c0 as bs"
proof -
  have len: "length as' = length as" using assms(1) by (rule map_eq_imp_length_eq)
  have "\<And>k. k < length as \<Longrightarrow> atom_id (as' ! k) = atom_id (as ! k)"
    using assms(1) len by (metis nth_map)
  moreover have "\<And>k. k < length as \<Longrightarrow> atom_type (as' ! k) = atom_type (as ! k)"
    using assms(2) len by (metis nth_map)
  ultimately show ?thesis by (simp add: valence_within_nth len)
qed

lemma valence_within_mono:
  assumes "\<And>i. currentBonds bs' i \<le> currentBonds bs i" and "valence_within c0 as bs"
  shows "valence_within c0 as bs'"
  using assms by (auto simp: valence_within_nth intro: order_trans)

lemma valence_within_start: "valence_within (currentBonds bs) as bs"
  by (simp add: valence_within_nth)

lemma chem_pair_within:
  assumes "distinct (map atom_id (chem_atoms st))"
    and "i < length (chem_atoms st)" and "j < length (chem_atoms st)"
    and "valence_within c0 (chem_atoms st) (newBonds st)"
  shows "valence_within c0 (chem_atoms (chem_pair var temp uuid (i, j) st))
           (newBonds (chem_pair var temp uuid (i, j) st))"
proof -
  let ?st' = "chem_pair var temp uuid (i, j) st"
  let ?as = "chem_atoms st"
  have cong: "valence_within c0 (chem_atoms ?st') (newBonds ?st')
                = valence_within c0 ?as (newBonds ?st')"
    by (rule valence_within_cong) (rule chem_pair_atoms)+
  from chem_pair_bonds [of var temp uuid i j st]
  show ?thesis
  proof
    assume "newBonds ?st' = newBonds st"
    with assms(4) cong show ?thesis by simp
  next
    assume "\<exists>b. newBonds ?st' = newBonds st @ [b]
         \<and> atomA b = atom_id (?as ! i) \<and> atomB b = atom_id (?as ! j)
         \<and> bond_order b = 1
         \<and> currentBonds (newBonds st) (atom_id (?as ! i))
              < maxBonds (ATOM_CONFIGS (atom_type (?as ! i)))
         \<and> currentBonds (newBonds st) (atom_id (?as ! j))
              < maxBonds (ATOM_CONFIGS (atom_type (?as ! j)))
         \<and> existingBond (newBonds st) (atom_id (?as ! i)) (atom_id (?as ! j)) = None"
    then obtain b where b: "newBonds ?st' = newBonds st @ [b]"
      "atomA b = atom_id (?as ! i)" "atomB b = atom_id (?as ! j)"
      "currentBonds (newBonds st) (atom_id (?as ! i))
              < maxBonds (ATOM_CONFIGS (atom_type (?as ! i)))"
      "currentBonds (newBonds st) (atom_id (?as ! j))
              < maxBonds (ATOM_CONFIGS (atom_type (?as ! j)))"
      by blast
    have "valence_within c0 ?as (newBonds st @ [b])"
      unfolding valence_within_nth
    proof (intro allI impI)
      fix k assume k: "k < length ?as"
      have idk: "atom_id (?as ! k) = atom_id (?as ! i) \<longleftrightarrow> k = i"
        using assms(1,2) k by (metis distinct_conv_nth length_map nth_map)
      have jdk: "atom_id (?as ! k) = atom_id (?as ! j) \<longleftrightarrow> k = j"
        using assms(1,3) k by (metis distinct_conv_nth length_map nth_map)
      have old: "currentBonds (newBonds st) (atom_id (?as ! k))
                   \<le> max (maxBonds (ATOM_CONFIGS (atom_type (?as ! k)))) (c0 (atom_id (?as ! k)))"
        using assms(4) k by (simp add: valence_within_nth)
      show "currentBonds (newBonds st @ [b]) (atom_id (?as ! k))
              \<le> max (maxBonds (ATOM_CONFIGS (atom_type (?as ! k)))) (c0 (atom_id (?as ! k)))"
        using old b(2-5) idk jdk by (auto simp: currentBonds_snoc)
    qed
    with b(1) cong show ?thesis by simp
  qed
qed

lemma fold_chem_within:
  assumes "distinct (map atom_id (chem_atoms st))"
    and "\<forall>(i, j) \<in> set ps. i < length (chem_atoms st) \<and> j < length (chem_atoms st)"
    and "valence_within c0 (chem_atoms st) (newBonds st)"
  shows "valence_within c0 (chem_atoms (fold (chem_pair var temp uuid) ps st))
           (newBonds (fold (chem_pair var temp uuid) ps st))"
  using assms
proof (induction ps arbitrary: st)
  case Nil
  then show ?case by simp
next
  case (Cons p ps)
  obtain i j where p: "p = (i, j)" by (cases p)
  let ?st1 = "chem_pair var temp uuid (i, j) st"
  have ij: "i < length (chem_atoms st)" "j < length (chem_atoms st)"
    using Cons.prems(2) p by auto
  have d1: "distinct (map atom_id (chem_atoms ?st1))"
    using Cons.prems(1) by (simp add: chem_pair_atoms)
  have r1: "\<forall>(i, j) \<in> set ps. i < length (chem_atoms ?st1) \<and> j < length (chem_atoms ?st1)"
    using Cons.prems(2) by (simp add: chem_pair_atoms)
  have v1: "valence_within c0 (chem_atoms ?st1) (newBonds ?st1)"
    by (rule chem_pair_within [OF Cons.prems(1) ij Cons.prems(3)])
  from Cons.IH [OF d1 r1 v1] show ?case
    by (simp add: p)
qed

lemma stage_chem_within:
  assumes "distinct (map atom_id (atoms s))" and "valence_within c0 (atoms s) (bonds s)"
  shows "valence_within c0 (chem_atoms (stage_chem var vp rnd uuid delta s cd))
           (newBonds (stage_chem var vp rnd uuid delta s cd))"
proof -
  let ?c0 = "chem_init (atoms s) (activeBonds var vp rnd s)"
  have a: "valence_within c0 (atoms s) (activeBonds var vp rnd s)"
    using assms(2)
    by (rule valence_within_mono [rotated])
       (simp add: activeBonds_def stage_bonds_def activeBonds_filter_count)
  have d0: "distinct (map atom_id (chem_atoms ?c0))" using assms(1) by (simp add: chem_init_def)
  have v0: "valence_within c0 (chem_atoms ?c0) (newBonds ?c0)" using a by (simp add: chem_init_def)
  have r: "\<forall>(i, j) \<in> set (pairs (length (chem_atoms ?c0))).
             i < length (chem_atoms ?c0) \<and> j < length (chem_atoms ?c0)"
    by (auto simp: pairs_mem)
  from fold_chem_within [OF d0 r v0, of var "temperature s" uuid] v0
  show ?thesis by (simp add: stage_chem_def Let_def chemistry_def)
qed

lemma useFrame_within:
  assumes "distinct (map atom_id (atoms s))" and "valence_within c0 (atoms s) (bonds s)"
  shows "valence_within c0 (atoms (fst (useFrame var vp rnd uuid delta (s, cd))))
           (bonds (fst (useFrame var vp rnd uuid delta (s, cd))))"
proof (cases "isRunning s")
  case False
  with assms(2) show ?thesis by (simp add: useFrame_def)
next
  case True
  let ?c = "stage_chem var vp rnd uuid delta s cd"
  let ?ph = "stage_photons var vp rnd uuid delta s cd"
  let ?moved = "stage_atoms var vp rnd uuid delta s cd"
  note sc = stage_chem_within [OF assms, of var vp rnd uuid delta cd]
  note ca = stage_chem_atoms [of var vp rnd uuid delta s cd]
  have ids: "map atom_id ?moved = map atom_id (atoms s)"
    and tys: "map atom_type ?moved = map atom_type (atoms s)"
    using ca(1,2) by (simp_all add: stage_atoms_def integrate_all_ids)
  have "valence_within c0 (chem_atoms ?c) (ph_bonds ?ph)"
    using sc
    by (rule valence_within_mono [rotated])
       (simp add: stage_photons_def Let_def photon_logic_count_le)
  then have v1: "valence_within c0 ?moved (ph_bonds ?ph)"
    using valence_within_cong [OF ids tys] valence_within_cong [OF ca(1,2)] by simp
  have v2: "valence_within c0 ?moved (bonds s)"
    using assms(2) valence_within_cong [OF ids tys] by simp
  from True v1 v2 show ?thesis
    by (simp add: useFrame_def commit_def)
qed

subsection \<open>Spawning\<close>

lemma fresh_id_iff:
  "fresh_id s i \<longleftrightarrow> (\<forall>a \<in> set (atoms s). atom_id a \<noteq> i) \<and> currentBonds (bonds s) i = 0"
  by (auto simp: fresh_id_def list_all_iff currentBonds_zero)

lemma append_valence:
  assumes old: "\<And>a. a \<in> set (atoms s) \<Longrightarrow> currentBonds bs (atom_id a) = 0"
    and new: "\<And>a. a \<in> set as \<Longrightarrow>
                currentBonds (bonds s) (atom_id a) = 0
                \<and> currentBonds bs (atom_id a) \<le> maxBonds (ATOM_CONFIGS (atom_type a))"
  shows "valence_within (currentBonds (bonds s)) (atoms s @ as) (bonds s @ bs)"
    and "valence_ok (atoms s) (bonds s) \<Longrightarrow> valence_ok (atoms s @ as) (bonds s @ bs)"
proof -
  show "valence_within (currentBonds (bonds s)) (atoms s @ as) (bonds s @ bs)"
    using old new
    by (auto simp: valence_within_def list_all_iff currentBonds_append)
  show "valence_ok (atoms s) (bonds s) \<Longrightarrow> valence_ok (atoms s @ as) (bonds s @ bs)"
    using old new
    by (auto simp: valence_ok_def list_all_iff currentBonds_append)
qed

lemma handleDrop_atom_valence:
  assumes "fresh_id s i"
  shows "valence_within (currentBonds (bonds s)) (atoms (handleDrop_atom s i t pos))
           (bonds (handleDrop_atom s i t pos))"
    and "valence_ok (atoms s) (bonds s) \<Longrightarrow>
         valence_ok (atoms (handleDrop_atom s i t pos)) (bonds (handleDrop_atom s i t pos))"
proof -
  have z: "currentBonds (bonds s) i = 0" using assms by (simp add: fresh_id_iff)
  have old: "\<And>a. a \<in> set (atoms s) \<Longrightarrow> currentBonds [] (atom_id a) = 0"
    by (simp add: currentBonds_def)
  have new: "\<And>a. a \<in> set [mkAtom i t pos (vec 0 0 0)] \<Longrightarrow>
                currentBonds (bonds s) (atom_id a) = 0
                \<and> currentBonds [] (atom_id a) \<le> maxBonds (ATOM_CONFIGS (atom_type a))"
    using z by (simp add: currentBonds_def)
  from append_valence(1) [of s "[]" "[mkAtom i t pos (vec 0 0 0)]", OF old new]
  show "valence_within (currentBonds (bonds s)) (atoms (handleDrop_atom s i t pos))
           (bonds (handleDrop_atom s i t pos))"
    by (simp add: handleDrop_atom_def)
  from append_valence(2) [of s "[]" "[mkAtom i t pos (vec 0 0 0)]", OF old new]
  show "valence_ok (atoms s) (bonds s) \<Longrightarrow>
         valence_ok (atoms (handleDrop_atom s i t pos)) (bonds (handleDrop_atom s i t pos))"
    by (simp add: handleDrop_atom_def)
qed

text \<open>The atoms and the bond ends of an instantiated template.\<close>

lemma template_bond_ids:
  "map atom_id (fst (template_bond atomIds bondIds tb (as, bs))) = map atom_id as"
  "map atom_type (fst (template_bond atomIds bondIds tb (as, bs))) = map atom_type as"
  "map (\<lambda>b. (atomA b, atomB b)) (snd (template_bond atomIds bondIds tb (as, bs)))
     = map (\<lambda>b. (atomA b, atomB b)) bs @ [(atomIds (idxA tb), atomIds (idxB tb))]"
proof -
  show "map atom_id (fst (template_bond atomIds bondIds tb (as, bs))) = map atom_id as"
    by (simp add: template_bond_def Let_def map_update)
  show "map atom_type (fst (template_bond atomIds bondIds tb (as, bs))) = map atom_type as"
  proof (cases "tb_type tb = ionic \<and> atom_type (as ! idxA tb) = Sodium
                \<and> atom_type (as ! idxB tb) = Chlorine")
    case True
    then have "fst (template_bond atomIds bondIds tb (as, bs))
        = as[idxA tb := (as ! idxA tb)\<lparr>charge := 1\<rparr>, idxB tb := (as ! idxB tb)\<lparr>charge := -1\<rparr>]"
      by (simp add: template_bond_def Let_def)
    then show ?thesis by (simp add: map_update)
  next
    case False
    then have "fst (template_bond atomIds bondIds tb (as, bs)) = as"
      by (auto simp: template_bond_def Let_def)
    then show ?thesis by simp
  qed
  show "map (\<lambda>b. (atomA b, atomB b)) (snd (template_bond atomIds bondIds tb (as, bs)))
     = map (\<lambda>b. (atomA b, atomB b)) bs @ [(atomIds (idxA tb), atomIds (idxB tb))]"
    by (simp add: template_bond_def Let_def)
qed

lemma fold_template_bond:
  "map atom_id (fst (fold (template_bond atomIds bondIds) tbs ab)) = map atom_id (fst ab)
   \<and> map atom_type (fst (fold (template_bond atomIds bondIds) tbs ab)) = map atom_type (fst ab)
   \<and> map (\<lambda>b. (atomA b, atomB b)) (snd (fold (template_bond atomIds bondIds) tbs ab))
       = map (\<lambda>b. (atomA b, atomB b)) (snd ab)
         @ map (\<lambda>tb. (atomIds (idxA tb), atomIds (idxB tb))) tbs"
proof (induction tbs arbitrary: ab)
  case Nil
  then show ?case by simp
next
  case (Cons tb tbs)
  obtain as bs where ab: "ab = (as, bs)" by (cases ab)
  from Cons.IH [of "template_bond atomIds bondIds tb (as, bs)"]
  show ?case by (simp add: ab template_bond_ids)
qed

lemma template_atoms_ids:
  "map atom_id (template_atoms pos atomIds vels tas) = map atomIds [0..<length tas]"
  "map atom_type (template_atoms pos atomIds vels tas) = map fst tas"
proof -
  show "map atom_id (template_atoms pos atomIds vels tas) = map atomIds [0..<length tas]"
    by (simp add: template_atoms_def comp_def)
  have "map (\<lambda>k. fst (tas ! k)) [0..<length tas] = map fst (map ((!) tas) [0..<length tas])"
    by (simp add: comp_def)
  also have "\<dots> = map fst tas" by (simp only: map_nth)
  finally show "map atom_type (template_atoms pos atomIds vels tas) = map fst tas"
    by (simp add: template_atoms_def comp_def)
qed

lemma created_shape:
  assumes "MOLECULE_TEMPLATES key = Some t"
    and "createMoleculeFromTemplate key pos atomIds bondIds vels = Inr (as, bs)"
  shows "map atom_id as = map atomIds [0..<length (t_atoms t)]"
    and "map atom_type as = map fst (t_atoms t)"
    and "map (\<lambda>b. (atomA b, atomB b)) bs
           = map (\<lambda>tb. (atomIds (idxA tb), atomIds (idxB tb))) (t_bonds t)"
proof -
  let ?r = "fold (template_bond atomIds bondIds) (t_bonds t)
              (template_atoms pos atomIds vels (t_atoms t), [])"
  have r: "?r = (as, bs)"
    using assms by (simp add: createMoleculeFromTemplate_def)
  note f = fold_template_bond [of atomIds bondIds "t_bonds t"
      "(template_atoms pos atomIds vels (t_atoms t), [])"]
  show "map atom_id as = map atomIds [0..<length (t_atoms t)]"
    using f r by (simp add: template_atoms_ids)
  show "map atom_type as = map fst (t_atoms t)"
    using f r by (simp add: template_atoms_ids)
  show "map (\<lambda>b. (atomA b, atomB b)) bs
           = map (\<lambda>tb. (atomIds (idxA tb), atomIds (idxB tb))) (t_bonds t)"
    using f r by simp
qed

text \<open>Every template of the table other than the salt lattice gives each of its atoms at
  most as many bonds as the atom's type allows.\<close>

lemma template_degree:
  assumes "MOLECULE_TEMPLATES key = Some t" and "key \<noteq> ''salt''" and "k < length (t_atoms t)"
  shows "length (filter (\<lambda>tb. idxA tb = k \<or> idxB tb = k) (t_bonds t))
           \<le> maxBonds (ATOM_CONFIGS (fst (t_atoms t ! k)))"
  using assms
  by (auto simp: MOLECULE_TEMPLATES_def tbond_def less_Suc_eq eval_nat_numeral
      split: if_splits)

lemma created_valence:
  assumes t: "MOLECULE_TEMPLATES key = Some t" and key: "key \<noteq> ''salt''"
    and cr: "createMoleculeFromTemplate key pos atomIds bondIds vels = Inr (as, bs)"
    and inj: "inj atomIds" and fresh: "\<forall>k. fresh_id s (atomIds k)"
  shows "\<And>a. a \<in> set (atoms s) \<Longrightarrow> currentBonds bs (atom_id a) = 0"
    and "\<And>a. a \<in> set as \<Longrightarrow>
           currentBonds (bonds s) (atom_id a) = 0
           \<and> currentBonds bs (atom_id a) \<le> maxBonds (ATOM_CONFIGS (atom_type a))"
proof -
  note sh = created_shape [OF t cr]
  have ends: "\<And>i. currentBonds bs i
      = length (filter (\<lambda>tb. atomIds (idxA tb) = i \<or> atomIds (idxB tb) = i) (t_bonds t))"
    by (simp add: currentBonds_ends sh(3) filter_map comp_def)
  show "\<And>a. a \<in> set (atoms s) \<Longrightarrow> currentBonds bs (atom_id a) = 0"
  proof -
    fix a assume a: "a \<in> set (atoms s)"
    have "\<And>m. atomIds m \<noteq> atom_id a"
      using fresh a unfolding fresh_id_iff by metis
    then show "currentBonds bs (atom_id a) = 0"
      by (simp add: ends)
  qed
  show "\<And>a. a \<in> set as \<Longrightarrow>
           currentBonds (bonds s) (atom_id a) = 0
           \<and> currentBonds bs (atom_id a) \<le> maxBonds (ATOM_CONFIGS (atom_type a))"
  proof -
    fix a assume "a \<in> set as"
    then obtain k where k: "k < length as" "a = as ! k"
      by (auto simp: in_set_conv_nth)
    have len: "length as = length (t_atoms t)"
      using arg_cong [OF sh(2), of length] by simp
    have id: "atom_id a = atomIds k"
      using arg_cong [OF sh(1), of "\<lambda>xs. xs ! k"] k len by simp
    have ty: "atom_type a = fst (t_atoms t ! k)"
      using arg_cong [OF sh(2), of "\<lambda>xs. xs ! k"] k len by simp
    have z: "currentBonds (bonds s) (atom_id a) = 0"
      using fresh by (simp add: id fresh_id_iff)
    have "currentBonds bs (atom_id a)
            = length (filter (\<lambda>tb. idxA tb = k \<or> idxB tb = k) (t_bonds t))"
      using inj by (simp add: ends id inj_eq)
    also have "\<dots> \<le> maxBonds (ATOM_CONFIGS (fst (t_atoms t ! k)))"
      using k(1) len by (intro template_degree [OF t key]) simp
    finally show "currentBonds (bonds s) (atom_id a) = 0
           \<and> currentBonds bs (atom_id a) \<le> maxBonds (ATOM_CONFIGS (atom_type a))"
      using z ty by simp
  qed
qed

lemma handleDrop_molecule_valence:
  assumes key: "key \<noteq> ''salt''" and inj: "inj atomIds"
    and fresh: "\<forall>k. fresh_id s (atomIds k)"
  shows "valence_within (currentBonds (bonds s))
           (atoms (handleDrop_molecule s key pos atomIds bondIds vels))
           (bonds (handleDrop_molecule s key pos atomIds bondIds vels))"
    and "valence_ok (atoms s) (bonds s) \<Longrightarrow>
         valence_ok (atoms (handleDrop_molecule s key pos atomIds bondIds vels))
           (bonds (handleDrop_molecule s key pos atomIds bondIds vels))"
proof -
  let ?s' = "handleDrop_molecule s key pos atomIds bondIds vels"
  have "valence_within (currentBonds (bonds s)) (atoms ?s') (bonds ?s')
        \<and> (valence_ok (atoms s) (bonds s) \<longrightarrow> valence_ok (atoms ?s') (bonds ?s'))"
  proof (cases "createMoleculeFromTemplate key pos atomIds bondIds vels")
    case (Inl e)
    then have "?s' = s" by (simp add: handleDrop_molecule_def)
    then show ?thesis by (simp add: valence_within_start)
  next
    case (Inr m)
    obtain as bs where m: "m = (as, bs)" by (cases m)
    have cr: "createMoleculeFromTemplate key pos atomIds bondIds vels = Inr (as, bs)"
      using Inr m by simp
    have s': "atoms ?s' = atoms s @ as" "bonds ?s' = bonds s @ bs"
      using cr by (simp_all add: handleDrop_molecule_def)
    show ?thesis
    proof (cases "MOLECULE_TEMPLATES key")
      case None
      with cr have "as = []" "bs = []"
        by (simp_all add: createMoleculeFromTemplate_def split: if_splits)
      then show ?thesis by (simp add: s' valence_within_start)
    next
      case (Some t)
      note cv = created_valence [OF Some key cr inj fresh]
      from append_valence [of s bs as, OF cv] show ?thesis
        by (simp add: s')
    qed
  qed
  then show "valence_within (currentBonds (bonds s)) (atoms ?s') (bonds ?s')"
    and "valence_ok (atoms s) (bonds s) \<Longrightarrow> valence_ok (atoms ?s') (bonds ?s')"
    by simp_all
qed

text \<open>
  Claim C1, amended. A tick, in both bodies of the loop, from a state whose atoms have
  pairwise different ids: in the state after \<open>useFrame\<close> no atom has more incident bonds
  than the larger of its capacity and the number of bonds incident to it before the tick;
  hence, when every atom is within its capacity before the tick, every atom is within its
  capacity after it. The drop of an atom with a fresh id, and the drop of a molecule of any
  template key other than \<open>salt\<close> with fresh, pairwise different atom ids: the same two
  statements hold for the state after the drop. The filter and the photon loop only remove
  bonds, the chemistry engine appends a bond only between two atoms that are both below
  their capacity, and every template but the salt lattice respects the capacities.
\<close>

theorem valence_preserved:
  "(distinct (map atom_id (atoms s)) \<longrightarrow>
      valence_within (currentBonds (bonds s))
        (atoms (fst (useFrame var vortexPos rnd uuid delta (s, cd))))
        (bonds (fst (useFrame var vortexPos rnd uuid delta (s, cd))))
      \<and> (valence_ok (atoms s) (bonds s) \<longrightarrow>
           valence_ok (atoms (fst (useFrame var vortexPos rnd uuid delta (s, cd))))
             (bonds (fst (useFrame var vortexPos rnd uuid delta (s, cd))))))
   \<and> (fresh_id s i \<longrightarrow>
      valence_within (currentBonds (bonds s)) (atoms (handleDrop_atom s i t spawnPos))
        (bonds (handleDrop_atom s i t spawnPos))
      \<and> (valence_ok (atoms s) (bonds s) \<longrightarrow>
           valence_ok (atoms (handleDrop_atom s i t spawnPos))
             (bonds (handleDrop_atom s i t spawnPos))))
   \<and> (key \<noteq> ''salt'' \<and> inj atomIds \<and> (\<forall>k. fresh_id s (atomIds k)) \<longrightarrow>
      valence_within (currentBonds (bonds s))
        (atoms (handleDrop_molecule s key spawnPos atomIds bondIds vels))
        (bonds (handleDrop_molecule s key spawnPos atomIds bondIds vels))
      \<and> (valence_ok (atoms s) (bonds s) \<longrightarrow>
           valence_ok (atoms (handleDrop_molecule s key spawnPos atomIds bondIds vels))
             (bonds (handleDrop_molecule s key spawnPos atomIds bondIds vels))))"
proof (intro conjI impI)
  assume d: "distinct (map atom_id (atoms s))"
  show "valence_within (currentBonds (bonds s))
        (atoms (fst (useFrame var vortexPos rnd uuid delta (s, cd))))
        (bonds (fst (useFrame var vortexPos rnd uuid delta (s, cd))))"
    by (rule useFrame_within [OF d valence_within_start])
  assume "valence_ok (atoms s) (bonds s)"
  then show "valence_ok (atoms (fst (useFrame var vortexPos rnd uuid delta (s, cd))))
             (bonds (fst (useFrame var vortexPos rnd uuid delta (s, cd))))"
    unfolding valence_ok_within by (rule useFrame_within [OF d])
next
  assume f: "fresh_id s i"
  show "valence_within (currentBonds (bonds s)) (atoms (handleDrop_atom s i t spawnPos))
        (bonds (handleDrop_atom s i t spawnPos))"
    by (rule handleDrop_atom_valence(1) [OF f])
  assume "valence_ok (atoms s) (bonds s)"
  then show "valence_ok (atoms (handleDrop_atom s i t spawnPos))
             (bonds (handleDrop_atom s i t spawnPos))"
    by (rule handleDrop_atom_valence(2) [OF f])
next
  assume h: "key \<noteq> ''salt'' \<and> inj atomIds \<and> (\<forall>k. fresh_id s (atomIds k))"
  then have k: "key \<noteq> ''salt''" and i: "inj atomIds" and f: "\<forall>k. fresh_id s (atomIds k)"
    by simp_all
  show "valence_within (currentBonds (bonds s))
        (atoms (handleDrop_molecule s key spawnPos atomIds bondIds vels))
        (bonds (handleDrop_molecule s key spawnPos atomIds bondIds vels))"
    by (rule handleDrop_molecule_valence(1) [OF k i f])
  assume "valence_ok (atoms s) (bonds s)"
  then show "valence_ok (atoms (handleDrop_molecule s key spawnPos atomIds bondIds vels))
             (bonds (handleDrop_molecule s key spawnPos atomIds bondIds vels))"
    by (rule handleDrop_molecule_valence(2) [OF k i f])
qed

lemma stretched_valence:
  "distinct (map atom_id (atoms stretched_state))"
  "valence_ok (atoms stretched_state) (bonds stretched_state)"
  by (simp_all add: stretched_sel dipole_sel valence_ok_def currentBonds_def salt_bond_sel)

lemma pair_valence:
  "distinct (map atom_id (atoms pair_state))"
  "valence_ok (atoms pair_state) (bonds pair_state)"
  by (simp_all add: pair_sel salt_sel valence_ok_def currentBonds_def)

lemma salt_distinct: "distinct (map atom_id (atoms salt_state))"
  by (simp add: salt_state_sel salt_template_ids)

lemma stretched_fresh:
  "fresh_id stretched_state ''x1''" "\<forall>k. fresh_id stretched_state (ids_a k)"
  by (simp_all add: fresh_id_def stretched_sel dipole_sel salt_bond_sel ids_a_def)

lemma ids_a_inj: "inj ids_a"
  by (simp add: inj_def)

lemma water_drop:
  "map atom_type (atoms (handleDrop_molecule stretched_state ''water'' (vec 0 5 0) ids_a ids_b
                           vels_zero))
     = [Sodium, Chlorine, Oxygen, Hydrogen, Hydrogen]"
  "map (\<lambda>b. (atomA b, atomB b))
     (bonds (handleDrop_molecule stretched_state ''water'' (vec 0 5 0) ids_a ids_b vels_zero))
     = [(''p1'', ''p2''), (ids_a 0, ids_a 1), (ids_a 0, ids_a 2)]"
  by (simp_all add: handleDrop_molecule_def createMoleculeFromTemplate_def
      MOLECULE_TEMPLATES_def template_atoms_def template_bond_def tbond_def Let_def upt_rec
      eval_nat_numeral stretched_sel dipole_p1_def dipole_p2_def salt_bond_sel)

text \<open>
  A tick in which a bond forms: the two unbonded salt ions at temperature 2 are within
  their capacity before and after the tick, and the state after it holds the new ionic
  bond. A tick on the salt lattice, which is outside the invariant: no atom gains a bond
  beyond the larger of its capacity and its count before. A hydrogen atom and a water
  molecule dropped next to the bonded dipole: five atoms and three bonds, every atom within
  its capacity.
\<close>

theorem valence_preserved_witness:
  "distinct (map atom_id (atoms pair_state))
   \<and> valence_ok (atoms pair_state) (bonds pair_state)
   \<and> bonds pair_state = []
   \<and> bonds (fst (useFrame First None rnd_half ids_b dt_demo (pair_state, 0)))
       = [mkBond (ids_b 0) ''p1'' ''p2'' BOND_STRENGTH_IONIC
            (ionicRestLength First salt_p1 salt_p2) ionic 1]
   \<and> valence_within (currentBonds (bonds pair_state))
        (atoms (fst (useFrame First None rnd_half ids_b dt_demo (pair_state, 0))))
        (bonds (fst (useFrame First None rnd_half ids_b dt_demo (pair_state, 0))))
   \<and> valence_ok (atoms (fst (useFrame First None rnd_half ids_b dt_demo (pair_state, 0))))
        (bonds (fst (useFrame First None rnd_half ids_b dt_demo (pair_state, 0))))
   \<and> distinct (map atom_id (atoms salt_state))
   \<and> \<not> valence_ok (atoms salt_state) (bonds salt_state)
   \<and> valence_within (currentBonds (bonds salt_state))
        (atoms (fst (useFrame First None rnd_half ids_b dt_demo (salt_state, 0))))
        (bonds (fst (useFrame First None rnd_half ids_b dt_demo (salt_state, 0))))
   \<and> fresh_id stretched_state ''x1''
   \<and> valence_ok (atoms stretched_state) (bonds stretched_state)
   \<and> valence_within (currentBonds (bonds stretched_state))
        (atoms (handleDrop_atom stretched_state ''x1'' Hydrogen (vec 0 5 0)))
        (bonds (handleDrop_atom stretched_state ''x1'' Hydrogen (vec 0 5 0)))
   \<and> valence_ok (atoms (handleDrop_atom stretched_state ''x1'' Hydrogen (vec 0 5 0)))
        (bonds (handleDrop_atom stretched_state ''x1'' Hydrogen (vec 0 5 0)))
   \<and> ''water'' \<noteq> ''salt'' \<and> inj ids_a \<and> (\<forall>k. fresh_id stretched_state (ids_a k))
   \<and> map atom_type
        (atoms (handleDrop_molecule stretched_state ''water'' (vec 0 5 0) ids_a ids_b vels_zero))
       = [Sodium, Chlorine, Oxygen, Hydrogen, Hydrogen]
   \<and> map (\<lambda>b. (atomA b, atomB b))
        (bonds (handleDrop_molecule stretched_state ''water'' (vec 0 5 0) ids_a ids_b vels_zero))
       = [(''p1'', ''p2''), (ids_a 0, ids_a 1), (ids_a 0, ids_a 2)]
   \<and> valence_within (currentBonds (bonds stretched_state))
        (atoms (handleDrop_molecule stretched_state ''water'' (vec 0 5 0) ids_a ids_b vels_zero))
        (bonds (handleDrop_molecule stretched_state ''water'' (vec 0 5 0) ids_a ids_b vels_zero))
   \<and> valence_ok
        (atoms (handleDrop_molecule stretched_state ''water'' (vec 0 5 0) ids_a ids_b vels_zero))
        (bonds (handleDrop_molecule stretched_state ''water'' (vec 0 5 0) ids_a ids_b vels_zero))"
proof -
  note T1 = valence_preserved [where s = pair_state and var = First and vortexPos = None
      and rnd = rnd_half and uuid = ids_b and delta = dt_demo and cd = 0]
  note T2 = valence_preserved [where s = salt_state and var = First and vortexPos = None
      and rnd = rnd_half and uuid = ids_b and delta = dt_demo and cd = 0]
  note T3 = valence_preserved [where s = stretched_state and i = "''x1''" and t = Hydrogen
      and spawnPos = "vec 0 5 0" and key = "''water''" and atomIds = ids_a and bondIds = ids_b
      and vels = vels_zero]
  have w: "''water'' \<noteq> ''salt''" by simp
  have e: "bonds pair_state = []" by (simp add: pair_sel)
  from T1 pair_valence have r1:
    "valence_within (currentBonds (bonds pair_state))
        (atoms (fst (useFrame First None rnd_half ids_b dt_demo (pair_state, 0))))
        (bonds (fst (useFrame First None rnd_half ids_b dt_demo (pair_state, 0))))"
    "valence_ok (atoms (fst (useFrame First None rnd_half ids_b dt_demo (pair_state, 0))))
        (bonds (fst (useFrame First None rnd_half ids_b dt_demo (pair_state, 0))))"
    by blast+
  from T2 salt_distinct have r2:
    "valence_within (currentBonds (bonds salt_state))
        (atoms (fst (useFrame First None rnd_half ids_b dt_demo (salt_state, 0))))
        (bonds (fst (useFrame First None rnd_half ids_b dt_demo (salt_state, 0))))"
    by blast
  from T3 stretched_fresh(1) stretched_valence(2) have r3:
    "valence_within (currentBonds (bonds stretched_state))
        (atoms (handleDrop_atom stretched_state ''x1'' Hydrogen (vec 0 5 0)))
        (bonds (handleDrop_atom stretched_state ''x1'' Hydrogen (vec 0 5 0)))"
    "valence_ok (atoms (handleDrop_atom stretched_state ''x1'' Hydrogen (vec 0 5 0)))
        (bonds (handleDrop_atom stretched_state ''x1'' Hydrogen (vec 0 5 0)))"
    by blast+
  from T3 w ids_a_inj stretched_fresh(2) stretched_valence(2) have r4:
    "valence_within (currentBonds (bonds stretched_state))
        (atoms (handleDrop_molecule stretched_state ''water'' (vec 0 5 0) ids_a ids_b vels_zero))
        (bonds (handleDrop_molecule stretched_state ''water'' (vec 0 5 0) ids_a ids_b vels_zero))"
    "valence_ok
        (atoms (handleDrop_molecule stretched_state ''water'' (vec 0 5 0) ids_a ids_b vels_zero))
        (bonds (handleDrop_molecule stretched_state ''water'' (vec 0 5 0) ids_a ids_b vels_zero))"
    by blast+
  from pair_valence e pair_bonds [of First None rnd_half] r1 salt_distinct salt_not_ok r2
    stretched_fresh stretched_valence(2) r3 w ids_a_inj water_drop r4
  show ?thesis by blast
qed

end
